theory Spec2Isabelle
  imports Complex_Main "HOL-Library.AList"
begin

section \<open>JavaScript numbers\<close>

text \<open>
  The engines compute with JavaScript numbers. A number is modelled as an exact rational,
  or one of the three special values the code produces and tests for: \<open>Infinity\<close>,
  \<open>-Infinity\<close> and \<open>NaN\<close>. Binary rounding of the finite values and the sign of zero are
  not modelled. A property that is \<open>undefined\<close> is \<open>None\<close>; read as a number it is \<open>NaN\<close>.

  This is a departure from the code, which computes in IEEE 754 double precision: every sum,
  difference, product and quotient of the model, the rounding to cents and the amounts that
  the loop of \<open>calculateService\<close> subtracts are exact, where the code rounds each result to the
  nearest double. The two agree as long as every input and every intermediate result is itself
  a double (integers and binary fractions of moderate size, for example); on other inputs the
  code can differ from the model in the last binary places of a result, a relative error of at
  most \<open>2 ^ - 53\<close> for each operation. For this reason a general statement
  below about a sum of amounts that the code does not round to cents is not stated as an
  equation between amounts: it is stated with a margin that is wider than both the rounding to
  cents and the binary rounding of amounts up to \<open>10 ^ 9\<close>, and an equation is stated only where
  the code copies a value or rounds one value to cents.
\<close>

datatype jsnum = Fin rat | PInf | NInf | NaN

fun js_neg :: "jsnum \<Rightarrow> jsnum" where
  "js_neg (Fin a) = Fin (- a)"
| "js_neg PInf = NInf"
| "js_neg NInf = PInf"
| "js_neg NaN = NaN"

fun js_add :: "jsnum \<Rightarrow> jsnum \<Rightarrow> jsnum" where
  "js_add (Fin a) (Fin b) = Fin (a + b)"
| "js_add NaN _ = NaN"
| "js_add _ NaN = NaN"
| "js_add PInf NInf = NaN"
| "js_add NInf PInf = NaN"
| "js_add PInf _ = PInf"
| "js_add _ PInf = PInf"
| "js_add NInf _ = NInf"
| "js_add _ NInf = NInf"

definition js_sub :: "jsnum \<Rightarrow> jsnum \<Rightarrow> jsnum" where
  "js_sub a b = js_add a (js_neg b)"

fun js_mul :: "jsnum \<Rightarrow> jsnum \<Rightarrow> jsnum" where
  "js_mul (Fin a) (Fin b) = Fin (a * b)"
| "js_mul NaN _ = NaN"
| "js_mul _ NaN = NaN"
| "js_mul (Fin a) PInf = (if a = 0 then NaN else if 0 < a then PInf else NInf)"
| "js_mul (Fin a) NInf = (if a = 0 then NaN else if 0 < a then NInf else PInf)"
| "js_mul PInf (Fin b) = (if b = 0 then NaN else if 0 < b then PInf else NInf)"
| "js_mul NInf (Fin b) = (if b = 0 then NaN else if 0 < b then NInf else PInf)"
| "js_mul PInf PInf = PInf"
| "js_mul PInf NInf = NInf"
| "js_mul NInf PInf = NInf"
| "js_mul NInf NInf = PInf"

fun js_div :: "jsnum \<Rightarrow> jsnum \<Rightarrow> jsnum" where
  "js_div (Fin a) (Fin b) =
     (if b \<noteq> 0 then Fin (a / b)
      else if 0 < a then PInf else if a < 0 then NInf else NaN)"
| "js_div NaN _ = NaN"
| "js_div _ NaN = NaN"
| "js_div (Fin a) PInf = Fin 0"
| "js_div (Fin a) NInf = Fin 0"
| "js_div PInf (Fin b) = (if 0 \<le> b then PInf else NInf)"
| "js_div NInf (Fin b) = (if 0 \<le> b then NInf else PInf)"
| "js_div PInf PInf = NaN"
| "js_div PInf NInf = NaN"
| "js_div NInf PInf = NaN"
| "js_div NInf NInf = NaN"

text \<open>\<open>a > b\<close>: false as soon as one side is \<open>NaN\<close>.\<close>

fun js_gt :: "jsnum \<Rightarrow> jsnum \<Rightarrow> bool" where
  "js_gt (Fin a) (Fin b) = (b < a)"
| "js_gt NaN _ = False"
| "js_gt _ NaN = False"
| "js_gt PInf PInf = False"
| "js_gt PInf _ = True"
| "js_gt NInf _ = False"
| "js_gt (Fin a) NInf = True"
| "js_gt (Fin a) PInf = False"

text \<open>\<open>Math.min\<close> and \<open>Math.max\<close> of two numbers.\<close>

fun js_min :: "jsnum \<Rightarrow> jsnum \<Rightarrow> jsnum" where
  "js_min (Fin a) (Fin b) = Fin (min a b)"
| "js_min NaN _ = NaN"
| "js_min _ NaN = NaN"
| "js_min NInf _ = NInf"
| "js_min _ NInf = NInf"
| "js_min PInf b = b"
| "js_min a PInf = a"

fun js_max :: "jsnum \<Rightarrow> jsnum \<Rightarrow> jsnum" where
  "js_max (Fin a) (Fin b) = Fin (max a b)"
| "js_max NaN _ = NaN"
| "js_max _ NaN = NaN"
| "js_max PInf _ = PInf"
| "js_max _ PInf = PInf"
| "js_max NInf b = b"
| "js_max a NInf = a"

text \<open>\<open>Math.min3\<close> of utility.js: \<open>Math.min(Math.min(a, b), c)\<close>.\<close>

definition min3 :: "jsnum \<Rightarrow> jsnum \<Rightarrow> jsnum \<Rightarrow> jsnum" where
  "min3 a b c = js_min (js_min a b) c"

text \<open>\<open>Math.round\<close>: the nearest integer, a tie going up.\<close>

fun js_round :: "jsnum \<Rightarrow> jsnum" where
  "js_round (Fin a) = Fin (of_int \<lfloor>a + 1 / 2\<rfloor>)"
| "js_round x = x"

text \<open>The idiom \<open>Math.round(x * 100) / 100\<close>.\<close>

definition round_cents :: "jsnum \<Rightarrow> jsnum" where
  "round_cents x = js_div (js_round (js_mul x (Fin 100))) (Fin 100)"

text \<open>A number is falsy when it is zero or \<open>NaN\<close>; \<open>undefined\<close> is falsy.\<close>

fun truthy :: "jsnum \<Rightarrow> bool" where
  "truthy (Fin a) = (a \<noteq> 0)"
| "truthy NaN = False"
| "truthy _ = True"

text \<open>\<open>v || d\<close> for an optional numeric property \<open>v\<close>.\<close>

fun num_or :: "jsnum option \<Rightarrow> jsnum \<Rightarrow> jsnum" where
  "num_or None d = d"
| "num_or (Some x) d = (if truthy x then x else d)"

text \<open>An optional property read in a numeric context.\<close>

fun to_num :: "jsnum option \<Rightarrow> jsnum" where
  "to_num None = NaN"
| "to_num (Some x) = x"

text \<open>\<open>b || false\<close> for an optional boolean property.\<close>

fun bool_or_false :: "bool option \<Rightarrow> bool" where
  "bool_or_false None = False"
| "bool_or_false (Some b) = b"

section \<open>FSAE: suggested contribution (fsaeEngine.js)\<close>

record account_type =
  contributionMinimum :: "jsnum option"
  contributionMaximum :: "jsnum option"
  employerMatchRate :: "jsnum option"
  employerMaxMatchAmount :: "jsnum option"

record fsae_config =
  accountTypes :: "(string \<times> account_type) list"

record contributions =
  suggestedContribution :: jsnum
  employerMatchingContribution :: jsnum

text \<open>
  \<open>calculateContributions\<close>, fsaeEngine.js lines 35-73. Reading a property of an account
  type that does not exist throws a TypeError: \<open>None\<close>.
\<close>

definition calculateContributions ::
  "fsae_config \<Rightarrow> string \<Rightarrow> jsnum \<Rightarrow> jsnum \<Rightarrow> contributions option" where
  "calculateContributions config accountTypeId totalCosts rolloverAmount =
     (case map_of (accountTypes config) accountTypeId of
        None \<Rightarrow> None
      | Some acct \<Rightarrow>
          let cMinimum = num_or (contributionMinimum acct) (Fin 0);
              cMaximum = num_or (contributionMaximum acct) PInf;
              matchRate = num_or (employerMatchRate acct) (Fin 0);
              maxMatchAmount = num_or (employerMaxMatchAmount acct) PInf;
              suggested =
                (if js_gt totalCosts (Fin 0) then
                   let remainingCosts = js_max (Fin 0) (js_sub totalCosts rolloverAmount);
                       limitedCosts = js_min cMaximum remainingCosts;
                       suggested1 = js_div limitedCosts (js_add (Fin 1) matchRate);
                       suggested2 = js_sub limitedCosts maxMatchAmount
                   in js_max cMinimum (js_max suggested1 suggested2)
                 else Fin 0);
              matching = js_min maxMatchAmount (js_mul suggested matchRate)
          in Some \<lparr> suggestedContribution = suggested,
                    employerMatchingContribution = matching \<rparr>)"

text \<open>
  The contribution formula in the words of the specification: a limit that is not specified
  is a minimum or a match rate of 0, and a maximum or a maximal match of \<open>+\<infinity>\<close>; a limit that
  is specified is used as it is.
\<close>

fun spec_default :: "jsnum option \<Rightarrow> jsnum \<Rightarrow> jsnum" where
  "spec_default None d = d"
| "spec_default (Some x) d = x"

definition spec_suggestedContribution :: "account_type \<Rightarrow> jsnum \<Rightarrow> jsnum \<Rightarrow> jsnum" where
  "spec_suggestedContribution acct totalCost rollover =
     (if totalCost = Fin 0 then Fin 0
      else
        let limited = js_min (spec_default (contributionMaximum acct) PInf)
                             (js_max (Fin 0) (js_sub totalCost rollover))
        in js_max (spec_default (contributionMinimum acct) (Fin 0))
             (js_max (js_div limited (js_add (Fin 1) (spec_default (employerMatchRate acct) (Fin 0))))
                     (js_sub limited (spec_default (employerMaxMatchAmount acct) PInf))))"

definition spec_employerMatchingContribution :: "account_type \<Rightarrow> jsnum \<Rightarrow> jsnum" where
  "spec_employerMatchingContribution acct suggested =
     js_min (spec_default (employerMaxMatchAmount acct) PInf)
            (js_mul suggested (spec_default (employerMatchRate acct) (Fin 0)))"

text \<open>An account type that specifies a contribution maximum of zero and nothing else.\<close>

definition zeroMaxAccount :: account_type where
  "zeroMaxAccount = \<lparr> contributionMinimum = None, contributionMaximum = Some (Fin 0),
     employerMatchRate = None, employerMaxMatchAmount = None \<rparr>"

definition zeroMaxConfig :: fsae_config where
  "zeroMaxConfig = \<lparr> accountTypes = [(''FSA'', zeroMaxAccount)] \<rparr>"

section \<open>MPCE: the configuration (mpceConfig.js)\<close>

text \<open>
  An object is an association list in property order; \<open>map_of\<close> reads a property and
  \<open>AList.update\<close> assigns one (in place when the key exists, at the end otherwise). The
  values of an \<open>amountMap\<close> and of \<open>coverageLevelCostsPerPlan\<close> are numbers, \<open>null\<close> or
  nested objects.
\<close>

datatype jsval = VNum jsnum | VNull | VObj "(string \<times> jsval) list"

text \<open>
  \<open>v[k]\<close>: a TypeError (\<open>None\<close>) on \<open>undefined\<close> and \<open>null\<close>, \<open>undefined\<close> on a number.
\<close>

fun js_prop :: "jsval option \<Rightarrow> string \<Rightarrow> jsval option option" where
  "js_prop None k = None"
| "js_prop (Some VNull) k = None"
| "js_prop (Some (VNum x)) k = Some None"
| "js_prop (Some (VObj m)) k = Some (map_of m k)"

text \<open>A value read as a number.\<close>

fun val_num :: "jsval \<Rightarrow> jsnum" where
  "val_num (VNum x) = x"
| "val_num VNull = Fin 0"
| "val_num (VObj m) = NaN"

text \<open>\<open>v || 0\<close> for a value that is then used as a number.\<close>

fun val_or_zero :: "jsval option \<Rightarrow> jsnum" where
  "val_or_zero None = Fin 0"
| "val_or_zero (Some VNull) = Fin 0"
| "val_or_zero (Some (VNum x)) = (if truthy x then x else Fin 0)"
| "val_or_zero (Some (VObj m)) = NaN"

record coverage_rule =
  notCovered :: "bool option"
  copay :: "jsnum option"
  coinsurance :: "jsnum option"
  coinsuranceMinDollar :: "jsnum option"
  coinsuranceMaxDollar :: "jsnum option"
  coinsuranceNotTowardsOOPMax :: "bool option"
  copayNotTowardsOOPMax :: "bool option"
  deductible :: "string option"
  coveredCount :: "jsnum option"
  dollarLimit :: "jsnum option"
  singleUseCostMax :: "jsnum option"
  combinedLimitId :: "string option"
  eligibleForFund :: "bool option"
  coveredCountFromDollarLimit :: "jsnum option"

text \<open>The coverage of a service under a plan: one rule, or an array of rules.\<close>

datatype plan_coverage = Single coverage_rule | Array "coverage_rule list"

record service =
  categoryId :: "string option"
  costs :: "(string \<times> (string \<times> jsnum) list) list"
  coverage :: "(string \<times> plan_coverage) list"

text \<open>
  \<open>costs\<close> holds every costs object of the service (\<open>costs\<close>, \<open>costs_...\<close>) under its
  property name, each mapping region ids to numbers.
\<close>

record limit_entry =
  amount :: "jsnum option"
  amountMap :: "(string \<times> jsval) list option"
  categories :: "string list option"

type_synonym limit_object = "(string \<times> limit_entry) list"

record plan =
  personDeductibles :: "limit_object option"
  familyDeductibles :: "limit_object option"
  personOutOfPocketMaximums :: "limit_object option"
  familyOutOfPocketMaximums :: "limit_object option"
  fundAmountMap :: "(string \<times> jsval) list option"
  categoriesFundAppliesTo :: "(string \<times> bool) list option"
  costsObjectId :: "string option"
  personDeductibleCategoryToGroup :: "(string \<times> string) list option"
  personOutOfPocketCategoryToGroup :: "(string \<times> string) list option"
  familyDeductibleCategoryToGroup :: "(string \<times> string) list option"
  familyOutOfPocketCategoryToGroup :: "(string \<times> string) list option"

record coverage_level =
  spouse :: bool
  maxNumChildren :: jsnum

record combined_limit =
  personReimburseLimit :: "jsnum option"
  familyReimburseLimit :: "jsnum option"

record config =
  regions :: "(string \<times> string list) list"
  plansOrder :: "string list"
  plans :: "(string \<times> plan) list"
  statuses :: "string list"
  coverageLevelsOrder :: "string list"
  coverageLevels :: "(string \<times> coverage_level) list"
  coverageLevelCostsPerPlan :: "(string \<times> jsval) list"
  services :: "(string \<times> service) list"
  combinedLimits :: "(string \<times> combined_limit) list option"
  categoriesOrder :: "string list"
  categories :: "(string \<times> string list) list"
  servicesWithDeductibleOrderByPlan :: "(string \<times> string list) list option"
  servicesNoDeductibleOrderByPlan :: "(string \<times> string list) list option"
  isMarkedUpAlready :: bool
  isMarkedUp :: bool

text \<open>
  \<open>regions\<close> maps a region id to the region's \<open>plans\<close>, \<open>categories\<close> a category id to its
  \<open>orderedContents\<close>, and \<open>statuses\<close> lists the status ids; descriptions are left out.
  The last four fields of a plan and the last four of the configuration are the properties
  that \<open>maybeMarkupConfig\<close> writes; \<open>isMarkedUpAlready\<close> is the property it tests.
\<close>

section \<open>MPCE: configuration markup (mpceEngine.js lines 35-191)\<close>

text \<open>
  A function of the engine returns \<open>None\<close> when the JavaScript call does not return normally
  because it reads a property of \<open>undefined\<close> (a TypeError), or because a loop does not end.
\<close>

text \<open>The inner loop of lines 70-74: the categories of one custom group.\<close>

fun overrideGroup :: "string \<Rightarrow> string list \<Rightarrow> (string \<times> string) list \<Rightarrow> (string \<times> string) list" where
  "overrideGroup g [] m = m"
| "overrideGroup g (catId # rest) m = overrideGroup g rest (AList.update catId g m)"

text \<open>Lines 65-76: every group of the limit object except \<open>general\<close>.\<close>

fun overrideGroups :: "limit_object \<Rightarrow> (string \<times> string) list \<Rightarrow> (string \<times> string) list option" where
  "overrideGroups [] m = Some m"
| "overrideGroups ((g, entry) # rest) m =
     (if g \<noteq> ''general'' then
        (case limit_entry.categories entry of
           None \<Rightarrow> None
         | Some cs \<Rightarrow> overrideGroups rest (overrideGroup g cs m))
      else overrideGroups rest m)"

text \<open>Lines 58-62: every category is first mapped to \<open>general\<close>.\<close>

fun allGeneral :: "string list \<Rightarrow> (string \<times> string) list \<Rightarrow> (string \<times> string) list" where
  "allGeneral [] m = m"
| "allGeneral (catId # rest) m = allGeneral rest (AList.update catId ''general'' m)"

text \<open>Lines 53-77: the map built for one plan from one of its limit objects.\<close>

definition categoryToGroupMap :: "string list \<Rightarrow> limit_object option \<Rightarrow> (string \<times> string) list option" where
  "categoryToGroupMap catOrder limitObject =
     (case limitObject of
        None \<Rightarrow> Some []
      | Some obj \<Rightarrow> overrideGroups obj (allGeneral catOrder []))"

text \<open>
  \<open>makeLimitObjectCategoryToGroupMap\<close>: the loop over \<open>plansOrder\<close>. The arguments
  \<open>mapName\<close> and \<open>limitObjectName\<close> of the source are the record update and the selector.
\<close>

fun makeLimitObjectCategoryToGroupMap ::
  "((string \<times> string) list option \<Rightarrow> plan \<Rightarrow> plan) \<Rightarrow> (plan \<Rightarrow> limit_object option)
     \<Rightarrow> string list \<Rightarrow> config \<Rightarrow> config option" where
  "makeLimitObjectCategoryToGroupMap setMap limitObject [] config = Some config"
| "makeLimitObjectCategoryToGroupMap setMap limitObject (planId # rest) config =
     (case map_of (plans config) planId of
        None \<Rightarrow> None
      | Some plan \<Rightarrow>
          (case categoryToGroupMap (categoriesOrder config) (limitObject plan) of
             None \<Rightarrow> None
           | Some m \<Rightarrow>
               makeLimitObjectCategoryToGroupMap setMap limitObject rest
                 (config\<lparr> plans := AList.update planId (setMap (Some m) plan) (plans config) \<rparr>)))"

text \<open>Lines 113-118: an empty order array for every plan.\<close>

fun emptyOrders :: "string list \<Rightarrow> (string \<times> string list) list \<Rightarrow> (string \<times> string list) list" where
  "emptyOrders [] m = m"
| "emptyOrders (planId # rest) m = emptyOrders rest (AList.update planId [] m)"

text \<open>Lines 141-144: a coverage that is not an array is wrapped in one.\<close>

fun wrapCoverage :: "plan_coverage \<Rightarrow> plan_coverage" where
  "wrapCoverage (Single r) = Array [r]"
| "wrapCoverage (Array rs) = Array rs"

text \<open>
  Lines 156-166, the part on \<open>eligibleForFund\<close>: a rule that has none gets the flag of the
  category in the plan's \<open>categoriesFundAppliesTo\<close>.
\<close>

fun markEligible :: "plan option \<Rightarrow> string \<Rightarrow> coverage_rule list \<Rightarrow> coverage_rule list option" where
  "markEligible p catId [] = Some []"
| "markEligible p catId (r # rs) =
     (case eligibleForFund r of
        Some b \<Rightarrow> map_option (\<lambda>rs'. r # rs') (markEligible p catId rs)
      | None \<Rightarrow>
          (case p of
             None \<Rightarrow> None
           | Some pl \<Rightarrow>
               let e = (case categoriesFundAppliesTo pl of
                          None \<Rightarrow> False
                        | Some m \<Rightarrow> (case map_of m catId of None \<Rightarrow> False | Some b \<Rightarrow> b))
               in map_option (\<lambda>rs'. r\<lparr> eligibleForFund := Some e \<rparr> # rs')
                    (markEligible p catId rs)))"

text \<open>Lines 154-158: does some rule of the array have a deductible other than \<open>none\<close>.\<close>

definition hasDeductible :: "coverage_rule list \<Rightarrow> bool" where
  "hasDeductible rs = list_ex (\<lambda>r. deductible r \<noteq> Some ''none'') rs"

text \<open>\<open>orders[planId].push(serviceId)\<close>.\<close>

definition pushOrder :: "string \<Rightarrow> string \<Rightarrow> (string \<times> string list) list option
    \<Rightarrow> (string \<times> string list) list option option" where
  "pushOrder planId serviceId orders =
     (case orders of
        None \<Rightarrow> None
      | Some m \<Rightarrow>
          (case map_of m planId of
             None \<Rightarrow> None
           | Some l \<Rightarrow> Some (Some (AList.update planId (l @ [serviceId]) m))))"

text \<open>
  The array of rules the loops of the engine run over: a coverage that is not an array has no
  \<open>length\<close>, and the loop over it does not run.
\<close>

fun rulesOf :: "plan_coverage \<Rightarrow> coverage_rule list" where
  "rulesOf (Array rs) = rs"
| "rulesOf (Single r) = []"

text \<open>Lines 150-178, for one plan id of the service's coverage.\<close>

definition markupPlan :: "string \<Rightarrow> string \<Rightarrow> string \<Rightarrow> config \<Rightarrow> config option" where
  "markupPlan catId serviceId planId config =
     (case map_of (services config) serviceId of
        None \<Rightarrow> None
      | Some svc \<Rightarrow>
          (case map_of (coverage svc) planId of
             None \<Rightarrow> None
           | Some pc \<Rightarrow>
               (case markEligible (map_of (plans config) planId) catId (rulesOf pc) of
                  None \<Rightarrow> None
                | Some rs \<Rightarrow>
                    let svc' = svc\<lparr> coverage := AList.update planId (Array rs) (coverage svc) \<rparr>;
                        config' = config\<lparr> services := AList.update serviceId svc' (services config) \<rparr>
                    in if hasDeductible rs then
                         map_option (\<lambda>m. config'\<lparr> servicesWithDeductibleOrderByPlan := m \<rparr>)
                           (pushOrder planId serviceId (servicesWithDeductibleOrderByPlan config'))
                       else
                         map_option (\<lambda>m. config'\<lparr> servicesNoDeductibleOrderByPlan := m \<rparr>)
                           (pushOrder planId serviceId (servicesNoDeductibleOrderByPlan config')))))"

fun markupPlans :: "string \<Rightarrow> string \<Rightarrow> string list \<Rightarrow> config \<Rightarrow> config option" where
  "markupPlans catId serviceId [] config = Some config"
| "markupPlans catId serviceId (planId # rest) config =
     (case markupPlan catId serviceId planId config of
        None \<Rightarrow> None
      | Some config' \<Rightarrow> markupPlans catId serviceId rest config')"

text \<open>Lines 129-178, for one service id of a category's \<open>orderedContents\<close>.\<close>

definition markupService :: "string \<Rightarrow> string \<Rightarrow> config \<Rightarrow> config option" where
  "markupService catId serviceId config =
     (case map_of (services config) serviceId of
        None \<Rightarrow> None
      | Some svc \<Rightarrow>
          let svc' = svc\<lparr> categoryId := Some catId,
                          coverage := map (\<lambda>(planId, pc). (planId, wrapCoverage pc)) (coverage svc) \<rparr>;
              config' = config\<lparr> services := AList.update serviceId svc' (services config) \<rparr>
          in markupPlans catId serviceId (map fst (coverage svc')) config')"

fun markupServices :: "string \<Rightarrow> string list \<Rightarrow> config \<Rightarrow> config option" where
  "markupServices catId [] config = Some config"
| "markupServices catId (serviceId # rest) config =
     (case markupService catId serviceId config of
        None \<Rightarrow> None
      | Some config' \<Rightarrow> markupServices catId rest config')"

fun markupCategories :: "string list \<Rightarrow> config \<Rightarrow> config option" where
  "markupCategories [] config = Some config"
| "markupCategories (catId # rest) config =
     (case map_of (categories config) catId of
        None \<Rightarrow> None
      | Some orderedContents \<Rightarrow>
          (case markupServices catId orderedContents config of
             None \<Rightarrow> None
           | Some config' \<Rightarrow> markupCategories rest config'))"

text \<open>
  \<open>maybeMarkupConfig\<close>. The guard tests \<open>isMarkedUpAlready\<close>; the last statement sets
  \<open>isMarkedUp\<close>.
\<close>

definition maybeMarkupConfig :: "config \<Rightarrow> config option" where
  "maybeMarkupConfig config =
     (if isMarkedUpAlready config then Some config
      else
        let c0 = config\<lparr>
              servicesWithDeductibleOrderByPlan := Some (emptyOrders (plansOrder config) []),
              servicesNoDeductibleOrderByPlan := Some (emptyOrders (plansOrder config) []) \<rparr>
        in case markupCategories (categoriesOrder c0) c0 of
             None \<Rightarrow> None
           | Some c1 \<Rightarrow>
          (case makeLimitObjectCategoryToGroupMap
                  (\<lambda>m p. p\<lparr> personDeductibleCategoryToGroup := m \<rparr>) personDeductibles
                  (plansOrder c1) c1 of
             None \<Rightarrow> None
           | Some c2 \<Rightarrow>
          (case makeLimitObjectCategoryToGroupMap
                  (\<lambda>m p. p\<lparr> personOutOfPocketCategoryToGroup := m \<rparr>) personOutOfPocketMaximums
                  (plansOrder c2) c2 of
             None \<Rightarrow> None
           | Some c3 \<Rightarrow>
          (case makeLimitObjectCategoryToGroupMap
                  (\<lambda>m p. p\<lparr> familyDeductibleCategoryToGroup := m \<rparr>) familyDeductibles
                  (plansOrder c3) c3 of
             None \<Rightarrow> None
           | Some c4 \<Rightarrow>
          (case makeLimitObjectCategoryToGroupMap
                  (\<lambda>m p. p\<lparr> familyOutOfPocketCategoryToGroup := m \<rparr>) familyOutOfPocketMaximums
                  (plansOrder c4) c4 of
             None \<Rightarrow> None
           | Some c5 \<Rightarrow> Some (c5\<lparr> isMarkedUp := True \<rparr>))))))"

section \<open>MPCE: running budgets and the three passes (mpceEngine.js lines 245-400)\<close>

text \<open>
  \<open>personAmounts\<close> and \<open>familyAmounts\<close>: for every group a used and an available amount,
  and the same for every combined limit.
\<close>

record amounts =
  dedsUsedByGroup :: "(string \<times> jsnum) list"
  dedsAvailableByGroup :: "(string \<times> jsnum) list"
  oopsUsedByGroup :: "(string \<times> jsnum) list"
  oopsAvailableByGroup :: "(string \<times> jsnum) list"
  combinedLimitsUsed :: "(string \<times> jsnum) list"
  combinedLimitsAvailable :: "(string \<times> jsnum) list"

record person_amounts = amounts +
  index :: nat
  totalDeductibles :: jsnum

text \<open>\<open>group ? available[group] : Infinity\<close>; the empty string is falsy.\<close>

definition groupAvailable :: "string option \<Rightarrow> (string \<times> jsnum) list \<Rightarrow> jsnum" where
  "groupAvailable g available =
     (case g of
        None \<Rightarrow> PInf
      | Some n \<Rightarrow> if n = [] then PInf else to_num (map_of available n))"

text \<open>\<open>if (group !== undefined) { obj[group] += x; }\<close> and the same with \<open>-=\<close>.\<close>

definition addTo :: "string option \<Rightarrow> jsnum \<Rightarrow> (string \<times> jsnum) list \<Rightarrow> (string \<times> jsnum) list" where
  "addTo g x obj =
     (case g of
        None \<Rightarrow> obj
      | Some n \<Rightarrow> AList.update n (js_add (to_num (map_of obj n)) x) obj)"

definition subFrom :: "string option \<Rightarrow> jsnum \<Rightarrow> (string \<times> jsnum) list \<Rightarrow> (string \<times> jsnum) list" where
  "subFrom g x obj =
     (case g of
        None \<Rightarrow> obj
      | Some n \<Rightarrow> AList.update n (js_sub (to_num (map_of obj n)) x) obj)"

definition calculateDeductible ::
  "jsnum \<Rightarrow> jsnum \<Rightarrow> person_amounts \<Rightarrow> string option \<Rightarrow> string option
     \<Rightarrow> amounts \<Rightarrow> string option \<Rightarrow> string option \<Rightarrow> jsnum \<times> person_amounts \<times> amounts" where
  "calculateDeductible costLeft singleUseCostMaxLeft
       personAmounts personDeductibleGroup personOutOfPocketGroup
       familyAmounts familyDeductibleGroup familyOutOfPocketGroup =
     (let d = round_cents
            (min3 (js_min costLeft singleUseCostMaxLeft)
               (groupAvailable personDeductibleGroup (dedsAvailableByGroup personAmounts))
               (groupAvailable familyDeductibleGroup (dedsAvailableByGroup familyAmounts)))
      in (d,
          personAmounts\<lparr>
            person_amounts.totalDeductibles := js_add (person_amounts.totalDeductibles personAmounts) d,
            dedsUsedByGroup := addTo personDeductibleGroup d (dedsUsedByGroup personAmounts),
            dedsAvailableByGroup := subFrom personDeductibleGroup d (dedsAvailableByGroup personAmounts),
            oopsUsedByGroup := addTo personOutOfPocketGroup d (oopsUsedByGroup personAmounts),
            oopsAvailableByGroup := subFrom personOutOfPocketGroup d (oopsAvailableByGroup personAmounts) \<rparr>,
          familyAmounts\<lparr>
            dedsUsedByGroup := addTo familyDeductibleGroup d (dedsUsedByGroup familyAmounts),
            dedsAvailableByGroup := subFrom familyDeductibleGroup d (dedsAvailableByGroup familyAmounts),
            oopsUsedByGroup := addTo familyOutOfPocketGroup d (oopsUsedByGroup familyAmounts),
            oopsAvailableByGroup := subFrom familyOutOfPocketGroup d (oopsAvailableByGroup familyAmounts) \<rparr>))"

definition calculateCopay ::
  "jsnum \<Rightarrow> jsnum \<Rightarrow> jsnum \<Rightarrow> bool option \<Rightarrow> person_amounts \<Rightarrow> string option
     \<Rightarrow> amounts \<Rightarrow> string option \<Rightarrow> jsnum \<times> person_amounts \<times> amounts" where
  "calculateCopay costLeft singleUseCostMaxLeft nominalCopay notTowardsOOPMax
       personAmounts personOutOfPocketGroup familyAmounts familyOutOfPocketGroup =
     (let c0 = min3 costLeft nominalCopay singleUseCostMaxLeft;
          c1 = (if \<not> bool_or_false notTowardsOOPMax then
                  min3 c0
                    (groupAvailable personOutOfPocketGroup (oopsAvailableByGroup personAmounts))
                    (groupAvailable familyOutOfPocketGroup (oopsAvailableByGroup familyAmounts))
                else c0);
          c = round_cents c1
      in if \<not> bool_or_false notTowardsOOPMax then
           (c,
            personAmounts\<lparr>
              oopsUsedByGroup := addTo personOutOfPocketGroup c (oopsUsedByGroup personAmounts),
              oopsAvailableByGroup := subFrom personOutOfPocketGroup c (oopsAvailableByGroup personAmounts) \<rparr>,
            familyAmounts\<lparr>
              oopsUsedByGroup := addTo familyOutOfPocketGroup c (oopsUsedByGroup familyAmounts),
              oopsAvailableByGroup := subFrom familyOutOfPocketGroup c (oopsAvailableByGroup familyAmounts) \<rparr>)
         else (c, personAmounts, familyAmounts))"

definition calculateCoinsurance ::
  "jsnum \<Rightarrow> jsnum \<Rightarrow> jsnum \<Rightarrow> jsnum option \<Rightarrow> jsnum option \<Rightarrow> bool option
     \<Rightarrow> person_amounts \<Rightarrow> string option \<Rightarrow> amounts \<Rightarrow> string option
     \<Rightarrow> jsnum \<times> person_amounts \<times> amounts" where
  "calculateCoinsurance costLeft singleUseCostMaxLeft nominalCoinsuranceRate
       minDollar maxDollar notTowardsOOPMax
       personAmounts personOutOfPocketGroup familyAmounts familyOutOfPocketGroup =
     (let c0 = js_mul costLeft nominalCoinsuranceRate;
          c1 = js_max c0 (num_or minDollar NInf);
          c2 = js_min c1 (num_or maxDollar PInf);
          c3 = min3 c2 costLeft singleUseCostMaxLeft;
          c4 = (if \<not> bool_or_false notTowardsOOPMax then
                  min3 c3
                    (groupAvailable personOutOfPocketGroup (oopsAvailableByGroup personAmounts))
                    (groupAvailable familyOutOfPocketGroup (oopsAvailableByGroup familyAmounts))
                else c3);
          c = round_cents c4
      in if \<not> bool_or_false notTowardsOOPMax then
           (c,
            personAmounts\<lparr>
              oopsUsedByGroup := addTo personOutOfPocketGroup c (oopsUsedByGroup personAmounts),
              oopsAvailableByGroup := subFrom personOutOfPocketGroup c (oopsAvailableByGroup personAmounts) \<rparr>,
            familyAmounts\<lparr>
              oopsUsedByGroup := addTo familyOutOfPocketGroup c (oopsUsedByGroup familyAmounts),
              oopsAvailableByGroup := subFrom familyOutOfPocketGroup c (oopsAvailableByGroup familyAmounts) \<rparr>)
         else (c, personAmounts, familyAmounts))"

section \<open>MPCE: one service under one coverage rule (mpceEngine.js lines 402-592)\<close>

text \<open>
  The container \<open>service\<close> of \<open>calculateSinglePlan\<close>, passed in and out of
  \<open>calculateService\<close>. \<open>sv_coverage\<close> is \<open>null\<close> (\<open>None\<close>) until the first rule is stored
  in it; in the source it is a reference to the rule inside the configuration.
\<close>

record service_io =
  sv_id :: string
  sv_count :: jsnum
  sv_cost :: jsnum
  sv_coverage :: "coverage_rule option"
  sv_categoryId :: "string option"
  sv_deductibles :: jsnum
  sv_copays :: jsnum
  sv_coinsurance :: jsnum
  sv_reimbursed :: jsnum
  sv_expensesNotCovered :: jsnum
  sv_combinedLimitAttained :: bool

text \<open>The four groups of the service's category, lines 477-480.\<close>

record groups =
  personDeductibleGroup :: "string option"
  personOutOfPocketGroup :: "string option"
  familyDeductibleGroup :: "string option"
  familyOutOfPocketGroup :: "string option"

text \<open>The variables of the \<open>while\<close> loop of lines 484-558 that live across iterations.\<close>

record loop_state =
  coveredCountLeft :: jsnum
  combinedLimitAvailable :: jsnum
  lp_person :: person_amounts
  lp_family :: amounts
  lp_deductibles :: jsnum
  lp_copays :: jsnum
  lp_coinsurance :: jsnum
  lp_reimbursed :: jsnum
  lp_expensesNotCovered :: jsnum

text \<open>
  The variables of one iteration: what is left of the cost and of \<open>singleUseCostMax\<close>, the
  budgets, and the locals \<open>deductible\<close>, \<open>copay\<close> and \<open>coinsurance\<close>.
\<close>

record unit_state =
  costLeft :: jsnum
  singleUseCostMaxLeft :: jsnum
  un_person :: person_amounts
  un_family :: amounts
  un_deductible :: jsnum
  un_copay :: jsnum
  un_coinsurance :: jsnum

text \<open>Lines 502-506 and 529-533: a deductible pass.\<close>

definition deductiblePass :: "groups \<Rightarrow> unit_state \<Rightarrow> unit_state" where
  "deductiblePass g u =
     (case calculateDeductible (costLeft u) (singleUseCostMaxLeft u)
             (un_person u) (personDeductibleGroup g) (personOutOfPocketGroup g)
             (un_family u) (familyDeductibleGroup g) (familyOutOfPocketGroup g) of
        (d, p, f) \<Rightarrow>
          u\<lparr> costLeft := js_sub (costLeft u) d,
             singleUseCostMaxLeft := js_sub (singleUseCostMaxLeft u) d,
             un_person := p, un_family := f, un_deductible := d \<rparr>)"

text \<open>Lines 515-519: the copay pass.\<close>

definition copayPass :: "coverage_rule \<Rightarrow> jsnum \<Rightarrow> groups \<Rightarrow> unit_state \<Rightarrow> unit_state" where
  "copayPass rule nominalCopay g u =
     (case calculateCopay (costLeft u) (singleUseCostMaxLeft u) nominalCopay
             (copayNotTowardsOOPMax rule)
             (un_person u) (personOutOfPocketGroup g) (un_family u) (familyOutOfPocketGroup g) of
        (c, p, f) \<Rightarrow>
          u\<lparr> costLeft := js_sub (costLeft u) c,
             singleUseCostMaxLeft := js_sub (singleUseCostMaxLeft u) c,
             un_person := p, un_family := f, un_copay := c \<rparr>)"

text \<open>Lines 541-546: the coinsurance pass.\<close>

definition coinsurancePass :: "coverage_rule \<Rightarrow> jsnum \<Rightarrow> groups \<Rightarrow> unit_state \<Rightarrow> unit_state" where
  "coinsurancePass rule rate g u =
     (case calculateCoinsurance (costLeft u) (singleUseCostMaxLeft u) rate
             (coinsuranceMinDollar rule) (coinsuranceMaxDollar rule)
             (coinsuranceNotTowardsOOPMax rule)
             (un_person u) (personOutOfPocketGroup g) (un_family u) (familyOutOfPocketGroup g) of
        (c, p, f) \<Rightarrow>
          u\<lparr> costLeft := js_sub (costLeft u) c,
             singleUseCostMaxLeft := js_sub (singleUseCostMaxLeft u) c,
             un_person := p, un_family := f, un_coinsurance := c \<rparr>)"

text \<open>Lines 486-547: the passes of one iteration, in the order the rule asks for.\<close>

definition unitPasses :: "coverage_rule \<Rightarrow> groups \<Rightarrow> unit_state \<Rightarrow> unit_state" where
  "unitPasses rule g u0 =
     (let u1 = (if deductible rule = Some ''beforeCopay'' then deductiblePass g u0 else u0);
          u2 = (case copay rule of Some nominalCopay \<Rightarrow> copayPass rule nominalCopay g u1
                                 | None \<Rightarrow> u1);
          u3 = (if deductible rule = None \<or> deductible rule = Some ''afterCopay''
                   \<or> deductible rule = Some ''beforeCoinsurance''
                then deductiblePass g u2 else u2)
      in case coverage_rule.coinsurance rule of
           Some rate \<Rightarrow> coinsurancePass rule rate g u3
         | None \<Rightarrow> u3)"

text \<open>One iteration of the loop, lines 486-556.\<close>

definition loopStep :: "coverage_rule \<Rightarrow> jsnum \<Rightarrow> groups \<Rightarrow> loop_state \<Rightarrow> loop_state" where
  "loopStep rule cost g st =
     (let partial = (if js_gt (coveredCountLeft st) (Fin 1) then Fin 1 else coveredCountLeft st);
          u = unitPasses rule g
                \<lparr> costLeft = js_mul cost partial,
                  singleUseCostMaxLeft = num_or (singleUseCostMax rule) PInf,
                  un_person = lp_person st, un_family = lp_family st,
                  un_deductible = Fin 0, un_copay = Fin 0, un_coinsurance = Fin 0 \<rparr>;
          reimbursed = js_min (combinedLimitAvailable st) (costLeft u)
      in \<lparr> coveredCountLeft = js_sub (coveredCountLeft st) partial,
           combinedLimitAvailable = js_sub (combinedLimitAvailable st) reimbursed,
           lp_person = un_person u,
           lp_family = un_family u,
           lp_deductibles = js_add (lp_deductibles st) (un_deductible u),
           lp_copays = js_add (lp_copays st) (un_copay u),
           lp_coinsurance = js_add (lp_coinsurance st) (un_coinsurance u),
           lp_reimbursed = js_add (lp_reimbursed st) reimbursed,
           lp_expensesNotCovered =
             js_add (lp_expensesNotCovered st) (js_sub (costLeft u) reimbursed) \<rparr>)"

partial_function (option) serviceLoop ::
  "coverage_rule \<Rightarrow> jsnum \<Rightarrow> groups \<Rightarrow> loop_state \<Rightarrow> loop_state option" where
  "serviceLoop rule cost g st =
     (if js_gt (coveredCountLeft st) (Fin 0) \<and> js_gt (combinedLimitAvailable st) (Fin 0)
      then serviceLoop rule cost g (loopStep rule cost g st)
      else Some st)"

declare serviceLoop.simps [code]

text \<open>\<open>map[service.categoryId]\<close>: an \<open>undefined\<close> category id reads the key \<open>undefined\<close>.\<close>

definition groupOf :: "(string \<times> string) list \<Rightarrow> string option \<Rightarrow> string option" where
  "groupOf m c = (case c of None \<Rightarrow> map_of m ''undefined'' | Some n \<Rightarrow> map_of m n)"

definition serviceGroups :: "config \<Rightarrow> string \<Rightarrow> string option \<Rightarrow> groups option" where
  "serviceGroups config pid c =
     (case map_of (plans config) pid of
        None \<Rightarrow> None
      | Some pl \<Rightarrow>
          (case (personDeductibleCategoryToGroup pl, personOutOfPocketCategoryToGroup pl,
                 familyDeductibleCategoryToGroup pl, familyOutOfPocketCategoryToGroup pl) of
             (Some pd, Some po, Some fd, Some fo) \<Rightarrow>
               Some \<lparr> personDeductibleGroup = groupOf pd c, personOutOfPocketGroup = groupOf po c,
                      familyDeductibleGroup = groupOf fd c, familyOutOfPocketGroup = groupOf fo c \<rparr>
           | _ \<Rightarrow> None))"

text \<open>\<open>service.id.match(/^additionalServices/)\<close>.\<close>

definition isAdditionalServices :: "string \<Rightarrow> bool" where
  "isAdditionalServices s = (take 18 s = ''additionalServices'')"

text \<open>\<open>limits[id] !== undefined ? limits[id] : Infinity\<close>, lines 437-440.\<close>

definition limitAvailable :: "(string \<times> jsnum) list \<Rightarrow> string \<Rightarrow> jsnum" where
  "limitAvailable m k = (case map_of m k of None \<Rightarrow> PInf | Some x \<Rightarrow> x)"

text \<open>Lines 560-572: the reimbursed amount is charged to a combined limit that has a budget.\<close>

definition chargeLimit :: "string \<Rightarrow> jsnum \<Rightarrow> 'a amounts_scheme \<Rightarrow> 'a amounts_scheme" where
  "chargeLimit k x a =
     (case map_of (combinedLimitsUsed a) k of
        None \<Rightarrow> a
      | Some u \<Rightarrow>
          a\<lparr> combinedLimitsUsed := AList.update k (js_add u x) (combinedLimitsUsed a),
             combinedLimitsAvailable :=
               AList.update k (js_sub (to_num (map_of (combinedLimitsAvailable a) k)) x)
                 (combinedLimitsAvailable a) \<rparr>)"

definition calculateService ::
  "config \<Rightarrow> string \<Rightarrow> service_io \<Rightarrow> person_amounts \<Rightarrow> amounts
     \<Rightarrow> (service_io \<times> person_amounts \<times> amounts) option" where
  "calculateService config pid service personAmounts familyAmounts =
     (case sv_coverage service of
        None \<Rightarrow> None
      | Some rule0 \<Rightarrow>
          let swap = (isAdditionalServices (sv_id service) \<and> sv_cost service = Fin 1);
              cost = (if swap then sv_count service else sv_cost service);
              count = (if swap then Fin 1 else sv_count service);
              limit0 =
                (case combinedLimitId rule0 of
                   None \<Rightarrow> PInf
                 | Some k \<Rightarrow>
                     js_min (limitAvailable (combinedLimitsAvailable personAmounts) k)
                            (limitAvailable (combinedLimitsAvailable familyAmounts) k));
              fromDollarLimit =
                (\<not> bool_or_false (notCovered rule0) \<and> coveredCount rule0 = None
                 \<and> dollarLimit rule0 \<noteq> None);
              rule = (if fromDollarLimit
                      then rule0\<lparr> coveredCountFromDollarLimit :=
                                    Some (js_div (to_num (dollarLimit rule0)) cost) \<rparr>
                      else rule0);
              covered =
                (if bool_or_false (notCovered rule) then Fin 0
                 else if coveredCount rule \<noteq> None then js_min count (to_num (coveredCount rule))
                 else if dollarLimit rule \<noteq> None
                   then js_min count (to_num (coveredCountFromDollarLimit rule))
                 else count);
              notCoveredCount =
                (if bool_or_false (notCovered rule) then count else js_sub count covered)
          in case serviceGroups config pid (sv_categoryId service) of
               None \<Rightarrow> None
             | Some g \<Rightarrow>
                 (case serviceLoop rule cost g
                         \<lparr> coveredCountLeft = covered, combinedLimitAvailable = limit0,
                           lp_person = personAmounts, lp_family = familyAmounts,
                           lp_deductibles = Fin 0, lp_copays = Fin 0, lp_coinsurance = Fin 0,
                           lp_reimbursed = Fin 0, lp_expensesNotCovered = Fin 0 \<rparr> of
                    None \<Rightarrow> None
                  | Some st \<Rightarrow>
                      let p = (case combinedLimitId rule of
                                 None \<Rightarrow> lp_person st
                               | Some k \<Rightarrow> chargeLimit k (lp_reimbursed st) (lp_person st));
                          f = (case combinedLimitId rule of
                                 None \<Rightarrow> lp_family st
                               | Some k \<Rightarrow> chargeLimit k (lp_reimbursed st) (lp_family st));
                          notCoveredCount' = js_add notCoveredCount (coveredCountLeft st)
                      in Some (service\<lparr>
                                 sv_count := count, sv_cost := cost, sv_coverage := Some rule,
                                 sv_deductibles := lp_deductibles st,
                                 sv_copays := lp_copays st,
                                 sv_coinsurance := lp_coinsurance st,
                                 sv_reimbursed := lp_reimbursed st,
                                 sv_expensesNotCovered :=
                                   js_add (lp_expensesNotCovered st) (js_mul notCoveredCount' cost),
                                 sv_combinedLimitAttained :=
                                   (\<not> js_gt (combinedLimitAvailable st) (Fin 0)) \<rparr>,
                               p, f)))"

section \<open>MPCE: one plan (mpceEngine.js lines 594-1044)\<close>

text \<open>
  The result object of a plan, without the two descriptions. The object is created with
  \<open>planRolloverFundPaid\<close>; \<open>rolloverFundPaid\<close> is added by the assignment of line 941, and
  until then it is \<open>undefined\<close>, which as a number is \<open>NaN\<close>.
\<close>

record plan_result =
  planId :: string
  coverageLevelId :: string
  totalDeductibles :: jsnum
  totalCopays :: jsnum
  totalCoinsurance :: jsnum
  totalExpensesNotCovered :: jsnum
  totalRawExpenses :: jsnum
  totalFundEligibleCosts :: jsnum
  totalFundAmountOffset :: jsnum
  planFundPaid :: jsnum
  planFundAdditionalMatchPaid :: jsnum
  planRolloverFundPaid :: jsnum
  rolloverFundPaid :: jsnum
  voluntaryFundPaid :: jsnum
  fundCarryoverBalance :: jsnum
  totalMedicalAndDrugCostsExcludingDeductibles :: jsnum
  totalMedicalAndDrugCosts :: jsnum
  totalMedicalAndDrugCostsLessFundOffset :: jsnum
  totalEmployerOrPlanPaidExcludingFund :: jsnum
  totalAnnualPayrollContributionsExcludingAdjustment :: jsnum
  totalAnnualPayrollContributions :: jsnum
  totalCareAndPayrollContributions :: jsnum
  totalCurrentYearFundContributions :: jsnum
  totalAnnualCost :: jsnum

text \<open>
  The lookup in an \<open>amountMap\<close> written out at lines 693-697, 720-724, 772-776, 798-802 and
  914-918: by region, else by status, else directly by coverage level.
\<close>

definition amountMapLookup ::
  "(string \<times> jsval) list \<Rightarrow> string \<Rightarrow> string \<Rightarrow> string \<Rightarrow> jsval option option" where
  "amountMapLookup m rid stid clid =
     (if map_of m rid \<noteq> None then js_prop (map_of m rid) clid
      else if map_of m stid \<noteq> None then js_prop (map_of m stid) clid
      else Some (map_of m clid))"

text \<open>
  \<open>available[group] = v\<close>, for a value that is only ever read as a number; a property
  set to \<open>undefined\<close> reads like one that is absent.
\<close>

fun setAmount :: "string \<Rightarrow> jsval option \<Rightarrow> (string \<times> jsnum) list \<Rightarrow> (string \<times> jsnum) list" where
  "setAmount g None m = AList.delete g m"
| "setAmount g (Some v) m = AList.update g (val_num v) m"

text \<open>
  The loop over the groups of a limit object as written for \<open>familyDeductibles\<close> (lines
  684-704), \<open>familyOutOfPocketMaximums\<close> (711-731) and \<open>personDeductibles\<close> (763-783). The
  pair is the used and the available object.
\<close>

fun initLimits :: "limit_object \<Rightarrow> string \<Rightarrow> string \<Rightarrow> string
    \<Rightarrow> (string \<times> jsnum) list \<times> (string \<times> jsnum) list
    \<Rightarrow> ((string \<times> jsnum) list \<times> (string \<times> jsnum) list) option" where
  "initLimits [] rid stid clid ua = Some ua"
| "initLimits ((g, entry) # rest) rid stid clid (used, avail) =
     (let used' = AList.update g (Fin 0) used in
      case amountMap entry of
        Some m \<Rightarrow>
          (case amountMapLookup m rid stid clid of
             None \<Rightarrow> None
           | Some v \<Rightarrow> initLimits rest rid stid clid (used', setAmount g v avail))
      | None \<Rightarrow>
          initLimits rest rid stid clid (used', setAmount g (map_option VNum (amount entry)) avail))"

text \<open>The loop as written for \<open>personOutOfPocketMaximums\<close>, lines 787-810.\<close>

fun initPersonOops :: "limit_object \<Rightarrow> string \<Rightarrow> string \<Rightarrow> string
    \<Rightarrow> (string \<times> jsnum) list \<times> (string \<times> jsnum) list
    \<Rightarrow> ((string \<times> jsnum) list \<times> (string \<times> jsnum) list) option" where
  "initPersonOops [] rid stid clid ua = Some ua"
| "initPersonOops ((g, entry) # rest) rid stid clid (used, avail) =
     (let used' = AList.update g (Fin 0) used in
      case amountMap entry of
        Some m \<Rightarrow>
          (if map_of m rid = None then
             (case amountMapLookup m rid stid clid of
                None \<Rightarrow> None
              | Some v \<Rightarrow> initPersonOops rest rid stid clid (used', setAmount g v avail))
           else initPersonOops rest rid stid clid (used', avail))
      | None \<Rightarrow>
          initPersonOops rest rid stid clid
            (used', setAmount g (map_option VNum (amount entry)) avail))"

definition initLimitsOpt :: "limit_object option \<Rightarrow> string \<Rightarrow> string \<Rightarrow> string
    \<Rightarrow> ((string \<times> jsnum) list \<times> (string \<times> jsnum) list) option" where
  "initLimitsOpt obj rid stid clid =
     (case obj of None \<Rightarrow> Some ([], []) | Some l \<Rightarrow> initLimits l rid stid clid ([], []))"

definition initPersonOopsOpt :: "limit_object option \<Rightarrow> string \<Rightarrow> string \<Rightarrow> string
    \<Rightarrow> ((string \<times> jsnum) list \<times> (string \<times> jsnum) list) option" where
  "initPersonOopsOpt obj rid stid clid =
     (case obj of None \<Rightarrow> Some ([], []) | Some l \<Rightarrow> initPersonOops l rid stid clid ([], []))"

text \<open>Lines 735-746 and 812-823: the combined limits that have a family or person limit.\<close>

fun initCombined :: "(combined_limit \<Rightarrow> jsnum option) \<Rightarrow> (string \<times> combined_limit) list
    \<Rightarrow> (string \<times> jsnum) list \<times> (string \<times> jsnum) list
    \<Rightarrow> (string \<times> jsnum) list \<times> (string \<times> jsnum) list" where
  "initCombined limitOf [] ua = ua"
| "initCombined limitOf ((k, cl) # rest) (used, avail) =
     (case limitOf cl of
        None \<Rightarrow> initCombined limitOf rest (used, avail)
      | Some x \<Rightarrow> initCombined limitOf rest (AList.update k (Fin 0) used, AList.update k x avail))"

definition initCombinedOpt :: "(combined_limit \<Rightarrow> jsnum option)
    \<Rightarrow> (string \<times> combined_limit) list option
    \<Rightarrow> (string \<times> jsnum) list \<times> (string \<times> jsnum) list" where
  "initCombinedOpt limitOf cls = (case cls of None \<Rightarrow> ([], []) | Some l \<Rightarrow> initCombined limitOf l ([], []))"

text \<open>Lines 671-746: the family's budgets.\<close>

definition initFamilyAmounts :: "config \<Rightarrow> plan \<Rightarrow> string \<Rightarrow> string \<Rightarrow> string \<Rightarrow> amounts option" where
  "initFamilyAmounts config pl rid stid clid =
     (case initLimitsOpt (familyDeductibles pl) rid stid clid of
        None \<Rightarrow> None
      | Some (du, da) \<Rightarrow>
     (case initLimitsOpt (familyOutOfPocketMaximums pl) rid stid clid of
        None \<Rightarrow> None
      | Some (ou, oa) \<Rightarrow>
          let (cu, ca) = initCombinedOpt familyReimburseLimit (combinedLimits config)
          in Some \<lparr> dedsUsedByGroup = du, dedsAvailableByGroup = da,
                    oopsUsedByGroup = ou, oopsAvailableByGroup = oa,
                    combinedLimitsUsed = cu, combinedLimitsAvailable = ca \<rparr>))"

text \<open>Lines 752-825: the budgets of the person with index \<open>i\<close>.\<close>

definition initPersonAmounts ::
  "config \<Rightarrow> plan \<Rightarrow> string \<Rightarrow> string \<Rightarrow> string \<Rightarrow> nat \<Rightarrow> person_amounts option" where
  "initPersonAmounts config pl rid stid clid i =
     (case initLimitsOpt (personDeductibles pl) rid stid clid of
        None \<Rightarrow> None
      | Some (du, da) \<Rightarrow>
     (case initPersonOopsOpt (personOutOfPocketMaximums pl) rid stid clid of
        None \<Rightarrow> None
      | Some (ou, oa) \<Rightarrow>
          let (cu, ca) = initCombinedOpt personReimburseLimit (combinedLimits config)
          in Some \<lparr> dedsUsedByGroup = du, dedsAvailableByGroup = da,
                    oopsUsedByGroup = ou, oopsAvailableByGroup = oa,
                    combinedLimitsUsed = cu, combinedLimitsAvailable = ca,
                    index = i, totalDeductibles = Fin 0 \<rparr>))"

fun initPeopleAmounts ::
  "config \<Rightarrow> plan \<Rightarrow> string \<Rightarrow> string \<Rightarrow> string \<Rightarrow> nat \<Rightarrow> 'a list \<Rightarrow> person_amounts list option" where
  "initPeopleAmounts config pl rid stid clid i [] = Some []"
| "initPeopleAmounts config pl rid stid clid i (x # xs) =
     (case initPersonAmounts config pl rid stid clid i of
        None \<Rightarrow> None
      | Some pa \<Rightarrow>
          map_option (\<lambda>pas. pa # pas) (initPeopleAmounts config pl rid stid clid (Suc i) xs))"

text \<open>
  The state of the service passes: the configuration (whose rules \<open>calculateService\<close>
  writes to), the container \<open>service\<close>, the budgets of the person at hand and of the
  family, and the result object.
\<close>

record plan_state =
  ps_config :: config
  ps_service :: service_io
  ps_person :: person_amounts
  ps_family :: amounts
  ps_result :: plan_result

text \<open>
  \<open>config.services[sid].coverage[pid][k] = rule\<close>: what the writes of \<open>calculateService\<close>
  through \<open>service.coverage\<close> do to the configuration.
\<close>

definition storeRule :: "string \<Rightarrow> string \<Rightarrow> nat \<Rightarrow> coverage_rule \<Rightarrow> config \<Rightarrow> config" where
  "storeRule sid pid k rule config =
     (case map_of (services config) sid of
        None \<Rightarrow> config
      | Some svc \<Rightarrow>
          (case map_of (service.coverage svc) pid of
             Some (Array rs) \<Rightarrow>
               config\<lparr> services :=
                 AList.update sid
                   (svc\<lparr> service.coverage :=
                      AList.update pid (Array (rs[k := rule])) (service.coverage svc) \<rparr>)
                   (services config) \<rparr>
           | _ \<Rightarrow> config))"

text \<open>
  Lines 856-888: the loop over the rules of the service's coverage array, from index \<open>k\<close>.
\<close>

fun coverageLoop :: "string \<Rightarrow> nat \<Rightarrow> coverage_rule list \<Rightarrow> plan_state \<Rightarrow> plan_state option" where
  "coverageLoop pid k [] st = Some st"
| "coverageLoop pid k (rule # rest) st =
     (case calculateService (ps_config st) pid ((ps_service st)\<lparr> sv_coverage := Some rule \<rparr>)
             (ps_person st) (ps_family st) of
        None \<Rightarrow> None
      | Some (service1, p, f) \<Rightarrow>
          (case sv_coverage service1 of
             None \<Rightarrow> None
           | Some rule' \<Rightarrow>
               let service2 =
                     (if coveredCount rule' \<noteq> None then
                        service1\<lparr> sv_count :=
                          js_max (Fin 0) (js_sub (sv_count service1) (to_num (coveredCount rule'))) \<rparr>
                      else if coveredCountFromDollarLimit rule' \<noteq> None then
                        service1\<lparr> sv_count :=
                          js_max (Fin 0)
                            (js_sub (sv_count service1) (to_num (coveredCountFromDollarLimit rule'))) \<rparr>
                      else service1);
                   r = ps_result st;
                   r' = r\<lparr>
                     totalCopays := js_add (totalCopays r) (sv_copays service2),
                     totalCoinsurance := js_add (totalCoinsurance r) (sv_coinsurance service2),
                     totalFundEligibleCosts := js_add (totalFundEligibleCosts r)
                       (if bool_or_false (eligibleForFund rule')
                        then js_add (js_add (sv_deductibles service2) (sv_copays service2))
                               (sv_coinsurance service2)
                        else Fin 0) \<rparr>;
                   st' = \<lparr> ps_config = storeRule (sv_id service2) pid k rule' (ps_config st),
                           ps_service = service2, ps_person = p, ps_family = f, ps_result = r' \<rparr>
               in if sv_combinedLimitAttained service2 then Some st'
                  else coverageLoop pid (Suc k) rest st'))"

text \<open>
  Lines 840-893: one service id of the order array, for the person at hand. The objects are
  read through their own properties only: a service id such as \<open>constructor\<close>, which
  JavaScript finds on the prototype of the person's \<open>services\<close> object, counts here as absent.
\<close>

definition serviceStep :: "string \<Rightarrow> string \<Rightarrow> (string \<times> jsnum) list \<Rightarrow> string
    \<Rightarrow> plan_state \<Rightarrow> plan_state option" where
  "serviceStep pid rid personServices sid st =
     (case map_of personServices sid of
        None \<Rightarrow> Some st
      | Some n \<Rightarrow>
          (case (map_of (services (ps_config st)) sid, map_of (plans (ps_config st)) pid) of
             (Some svc, Some pl) \<Rightarrow>
               let costsId = (case costsObjectId pl of
                                None \<Rightarrow> ''costs''
                              | Some c \<Rightarrow> if c = [] then ''costs'' else c)
               in (case (map_of (costs svc) costsId, map_of (service.coverage svc) pid) of
                     (Some costsObj, Some pc) \<Rightarrow>
                       let cost = to_num (map_of costsObj rid);
                           service0 = (ps_service st)\<lparr>
                             sv_categoryId := service.categoryId svc, sv_id := sid,
                             sv_count := n, sv_cost := cost \<rparr>;
                           r = ps_result st;
                           st0 = st\<lparr> ps_service := service0,
                                    ps_result := r\<lparr> totalRawExpenses :=
                                      js_add (totalRawExpenses r) (js_mul n cost) \<rparr> \<rparr>
                       in (case coverageLoop pid 0 (rulesOf pc) st0 of
                             None \<Rightarrow> None
                           | Some st1 \<Rightarrow>
                               (case sv_coverage (ps_service st1) of
                                  None \<Rightarrow> None
                                | Some lastRule \<Rightarrow>
                                    let r1 = ps_result st1;
                                        enc = sv_expensesNotCovered (ps_service st1)
                                    in Some (st1\<lparr> ps_result := r1\<lparr>
                                         totalFundEligibleCosts :=
                                           js_add (totalFundEligibleCosts r1)
                                             (if bool_or_false (eligibleForFund lastRule)
                                              then enc else Fin 0),
                                         totalExpensesNotCovered :=
                                           js_add (totalExpensesNotCovered r1) enc \<rparr> \<rparr>)))
                   | _ \<Rightarrow> None)
           | _ \<Rightarrow> None))"

fun servicesLoop :: "string \<Rightarrow> string \<Rightarrow> (string \<times> jsnum) list \<Rightarrow> string list
    \<Rightarrow> plan_state \<Rightarrow> plan_state option" where
  "servicesLoop pid rid personServices [] st = Some st"
| "servicesLoop pid rid personServices (sid # rest) st =
     (case serviceStep pid rid personServices sid st of
        None \<Rightarrow> None
      | Some st' \<Rightarrow> servicesLoop pid rid personServices rest st')"

text \<open>
  The state shared by the people: everything but the budgets of the person at hand.
\<close>

record shared_state =
  sh_config :: config
  sh_service :: service_io
  sh_family :: amounts
  sh_result :: plan_result

text \<open>
  \<open>calculateServicesInnerFunc\<close>, lines 831-895: the loop over the people, each with its own
  budgets, over one order array. An order array that is \<open>undefined\<close> has no \<open>length\<close>: the
  loop over it throws as soon as there is a person.
\<close>

fun calculateServicesInnerFunc :: "string \<Rightarrow> string \<Rightarrow> string list option
    \<Rightarrow> (string \<times> jsnum) list list \<Rightarrow> person_amounts list \<Rightarrow> shared_state
    \<Rightarrow> (person_amounts list \<times> shared_state) option" where
  "calculateServicesInnerFunc pid rid None (ps # pss) (pa # pas) sh = None"
| "calculateServicesInnerFunc pid rid (Some order) (ps # pss) (pa # pas) sh =
     (case servicesLoop pid rid ps order
             \<lparr> ps_config = sh_config sh, ps_service = sh_service sh, ps_person = pa,
               ps_family = sh_family sh, ps_result = sh_result sh \<rparr> of
        None \<Rightarrow> None
      | Some st \<Rightarrow>
          (case calculateServicesInnerFunc pid rid (Some order) pss pas
                  \<lparr> sh_config = ps_config st, sh_service = ps_service st,
                    sh_family = ps_family st, sh_result = ps_result st \<rparr> of
             None \<Rightarrow> None
           | Some (pas', sh') \<Rightarrow> Some (ps_person st # pas', sh')))"
| "calculateServicesInnerFunc pid rid order _ _ sh = Some ([], sh)"

text \<open>Lines 903-906: the sum of the people's deductibles.\<close>

fun sumDeductibles :: "person_amounts list \<Rightarrow> jsnum \<Rightarrow> jsnum" where
  "sumDeductibles [] acc = acc"
| "sumDeductibles (pa # pas) acc =
     sumDeductibles pas (js_add acc (person_amounts.totalDeductibles pa))"

text \<open>Lines 910-923: the plan's own fund amount.\<close>

definition planFundAmountOf :: "plan \<Rightarrow> string \<Rightarrow> string \<Rightarrow> string \<Rightarrow> jsnum option" where
  "planFundAmountOf pl rid stid clid =
     (case fundAmountMap pl of
        None \<Rightarrow> Some (Fin 0)
      | Some m \<Rightarrow>
          map_option (\<lambda>v. case v of None \<Rightarrow> NaN | Some x \<Rightarrow> val_num x)
            (amountMapLookup m rid stid clid))"

text \<open>Lines 925-948: the fund offset, its four sources, and the carryover.\<close>

definition applyFund :: "jsnum \<Rightarrow> jsnum \<Rightarrow> jsnum \<Rightarrow> jsnum \<Rightarrow> plan_result \<Rightarrow> plan_result" where
  "applyFund planFundAmount planFundAdditionalMatchAmount fundRolloverAmount
       voluntaryFundContributionAmount r =
     (let totalFundAmountAvailable =
            js_add (js_add (js_add planFundAmount planFundAdditionalMatchAmount) fundRolloverAmount)
              voluntaryFundContributionAmount;
          offset = js_min (totalFundEligibleCosts r) totalFundAmountAvailable;
          pfPaid = js_min offset planFundAmount;
          matchPaid = js_min (js_sub offset pfPaid) planFundAdditionalMatchAmount;
          rolloverPaid = js_min (js_sub offset (js_add pfPaid matchPaid)) fundRolloverAmount;
          voluntaryPaid = js_sub offset (js_add (js_add pfPaid matchPaid) rolloverPaid)
      in r\<lparr> totalFundAmountOffset := offset,
            planFundPaid := pfPaid,
            planFundAdditionalMatchPaid := matchPaid,
            rolloverFundPaid := rolloverPaid,
            voluntaryFundPaid := voluntaryPaid,
            fundCarryoverBalance := js_sub totalFundAmountAvailable offset \<rparr>)"

text \<open>Lines 950-960: the totals derived from the accumulated ones.\<close>

definition derivedTotals :: "plan_result \<Rightarrow> plan_result" where
  "derivedTotals r =
     (let exDed = js_add (js_add (totalCopays r) (totalCoinsurance r)) (totalExpensesNotCovered r);
          costs = js_add (js_add (js_add (totalDeductibles r) (totalCopays r)) (totalCoinsurance r))
                    (totalExpensesNotCovered r)
      in r\<lparr> totalMedicalAndDrugCostsExcludingDeductibles := exDed,
            totalMedicalAndDrugCosts := costs,
            totalMedicalAndDrugCostsLessFundOffset := js_sub costs (totalFundAmountOffset r),
            totalEmployerOrPlanPaidExcludingFund := js_sub (totalRawExpenses r) costs \<rparr>)"

text \<open>Lines 965-974: the annual premium configured for the plan.\<close>

definition premiumOf :: "config \<Rightarrow> string \<Rightarrow> string \<Rightarrow> string \<Rightarrow> string \<Rightarrow> jsnum option" where
  "premiumOf config pid rid stid clid =
     (let perPlan = map_of (coverageLevelCostsPerPlan config) pid in
      case js_prop perPlan rid of
        None \<Rightarrow> None
      | Some (Some byRegion) \<Rightarrow>
          (case js_prop (Some byRegion) clid of
             None \<Rightarrow> None
           | Some byLevel \<Rightarrow> map_option val_or_zero (js_prop byLevel stid))
      | Some None \<Rightarrow>
          (case js_prop perPlan clid of
             None \<Rightarrow> None
           | Some byLevel \<Rightarrow> map_option val_or_zero (js_prop byLevel stid)))"

text \<open>Lines 975-984: premium, adjustment and the annual totals.\<close>

definition premiumTotals :: "jsnum \<Rightarrow> jsnum \<Rightarrow> jsnum \<Rightarrow> plan_result \<Rightarrow> plan_result" where
  "premiumTotals premium premiumAdjustmentAmount voluntaryFundContributionAmount r =
     (let contributions = js_max (Fin 0) (js_add premium premiumAdjustmentAmount);
          care = js_add (totalMedicalAndDrugCostsLessFundOffset r) contributions
      in r\<lparr> totalAnnualPayrollContributionsExcludingAdjustment := premium,
            totalAnnualPayrollContributions := contributions,
            totalCareAndPayrollContributions := care,
            totalCurrentYearFundContributions := voluntaryFundContributionAmount,
            totalAnnualCost := js_add care voluntaryFundContributionAmount \<rparr>)"

text \<open>
  Lines 987-1012: the properties named in \<open>resultsToRound\<close> are rounded to cents. The list
  names \<open>planRolloverFundPaid\<close>; it names neither \<open>rolloverFundPaid\<close> nor \<open>totalDeductibles\<close>.
\<close>

definition roundResults :: "plan_result \<Rightarrow> plan_result" where
  "roundResults r =
     r\<lparr> totalCopays := round_cents (totalCopays r),
        totalCoinsurance := round_cents (totalCoinsurance r),
        totalExpensesNotCovered := round_cents (totalExpensesNotCovered r),
        totalRawExpenses := round_cents (totalRawExpenses r),
        totalFundEligibleCosts := round_cents (totalFundEligibleCosts r),
        totalFundAmountOffset := round_cents (totalFundAmountOffset r),
        planFundPaid := round_cents (planFundPaid r),
        planFundAdditionalMatchPaid := round_cents (planFundAdditionalMatchPaid r),
        planRolloverFundPaid := round_cents (planRolloverFundPaid r),
        voluntaryFundPaid := round_cents (voluntaryFundPaid r),
        fundCarryoverBalance := round_cents (fundCarryoverBalance r),
        totalMedicalAndDrugCostsExcludingDeductibles :=
          round_cents (totalMedicalAndDrugCostsExcludingDeductibles r),
        totalMedicalAndDrugCosts := round_cents (totalMedicalAndDrugCosts r),
        totalMedicalAndDrugCostsLessFundOffset :=
          round_cents (totalMedicalAndDrugCostsLessFundOffset r),
        totalEmployerOrPlanPaidExcludingFund :=
          round_cents (totalEmployerOrPlanPaidExcludingFund r),
        totalAnnualPayrollContributionsExcludingAdjustment :=
          round_cents (totalAnnualPayrollContributionsExcludingAdjustment r),
        totalAnnualPayrollContributions := round_cents (totalAnnualPayrollContributions r),
        totalCareAndPayrollContributions := round_cents (totalCareAndPayrollContributions r),
        totalCurrentYearFundContributions := round_cents (totalCurrentYearFundContributions r),
        totalAnnualCost := round_cents (totalAnnualCost r) \<rparr>"

text \<open>Lines 626-668: the result object and the container \<open>service\<close> as first created.\<close>

definition newResult :: "string \<Rightarrow> string \<Rightarrow> plan_result" where
  "newResult pid clid =
     \<lparr> planId = pid, coverageLevelId = clid,
       totalDeductibles = Fin 0, totalCopays = Fin 0, totalCoinsurance = Fin 0,
       totalExpensesNotCovered = Fin 0, totalRawExpenses = Fin 0,
       totalFundEligibleCosts = Fin 0, totalFundAmountOffset = Fin 0,
       planFundPaid = Fin 0, planFundAdditionalMatchPaid = Fin 0,
       planRolloverFundPaid = Fin 0, rolloverFundPaid = NaN, voluntaryFundPaid = Fin 0,
       fundCarryoverBalance = Fin 0,
       totalMedicalAndDrugCostsExcludingDeductibles = Fin 0,
       totalMedicalAndDrugCosts = Fin 0, totalMedicalAndDrugCostsLessFundOffset = Fin 0,
       totalEmployerOrPlanPaidExcludingFund = Fin 0,
       totalAnnualPayrollContributionsExcludingAdjustment = Fin 0,
       totalAnnualPayrollContributions = Fin 0, totalCareAndPayrollContributions = Fin 0,
       totalCurrentYearFundContributions = Fin 0, totalAnnualCost = Fin 0 \<rparr>"

definition newService :: service_io where
  "newService =
     \<lparr> sv_id = [], sv_count = Fin 0, sv_cost = Fin 0, sv_coverage = None,
       sv_categoryId = None, sv_deductibles = Fin 0, sv_copays = Fin 0, sv_coinsurance = Fin 0,
       sv_reimbursed = Fin 0, sv_expensesNotCovered = Fin 0, sv_combinedLimitAttained = False \<rparr>"

text \<open>
  Lines 626-898: the budgets are created and the first pass, over the services that have a
  deductible, is run.
\<close>

definition firstPass :: "config \<Rightarrow> string \<Rightarrow> string \<Rightarrow> string \<Rightarrow> string
    \<Rightarrow> (string \<times> jsnum) list list \<Rightarrow> (person_amounts list \<times> shared_state) option" where
  "firstPass config pid rid stid clid peopleServices =
     (case map_of (plans config) pid of
        None \<Rightarrow> None
      | Some pl \<Rightarrow>
     (case initFamilyAmounts config pl rid stid clid of
        None \<Rightarrow> None
      | Some familyAmounts \<Rightarrow>
     (case initPeopleAmounts config pl rid stid clid 0 peopleServices of
        None \<Rightarrow> None
      | Some peopleAmounts \<Rightarrow>
     (case servicesWithDeductibleOrderByPlan config of
        None \<Rightarrow> None
      | Some withOrders \<Rightarrow>
          calculateServicesInnerFunc pid rid (map_of withOrders pid)
            peopleServices peopleAmounts
            \<lparr> sh_config = config, sh_service = newService, sh_family = familyAmounts,
              sh_result = newResult pid clid \<rparr>))))"

text \<open>
  Lines 626-906: everything up to the sum of the deductibles. The result holds the totals
  accumulated by the two passes, before the fund and before any rounding of totals.
\<close>

definition planTotals :: "config \<Rightarrow> string \<Rightarrow> string \<Rightarrow> string \<Rightarrow> string
    \<Rightarrow> (string \<times> jsnum) list list \<Rightarrow> (config \<times> plan_result) option" where
  "planTotals config pid rid stid clid peopleServices =
     (case firstPass config pid rid stid clid peopleServices of
        None \<Rightarrow> None
      | Some (peopleAmounts1, sh1) \<Rightarrow>
     (case servicesNoDeductibleOrderByPlan (sh_config sh1) of
        None \<Rightarrow> None
      | Some noOrders \<Rightarrow>
     (case calculateServicesInnerFunc pid rid (map_of noOrders pid)
             peopleServices peopleAmounts1 sh1 of
        None \<Rightarrow> None
      | Some (peopleAmounts2, sh2) \<Rightarrow>
          let r = sh_result sh2
          in Some (sh_config sh2,
                   r\<lparr> totalDeductibles := sumDeductibles peopleAmounts2 (totalDeductibles r) \<rparr>))))"

definition calculateSinglePlan :: "config \<Rightarrow> string \<Rightarrow> string \<Rightarrow> string \<Rightarrow> string
    \<Rightarrow> (string \<times> jsnum) list list \<Rightarrow> jsnum \<Rightarrow> jsnum \<Rightarrow> jsnum \<Rightarrow> jsnum
    \<Rightarrow> (config \<times> plan_result) option" where
  "calculateSinglePlan config pid rid stid clid peopleServices
       fundRolloverAmount voluntaryFundContributionAmount premiumAdjustmentAmount
       planFundAdditionalMatchAmount =
     (case planTotals config pid rid stid clid peopleServices of
        None \<Rightarrow> None
      | Some (config', r) \<Rightarrow>
     (case map_of (plans config') pid of
        None \<Rightarrow> None
      | Some pl \<Rightarrow>
     (case planFundAmountOf pl rid stid clid of
        None \<Rightarrow> None
      | Some planFundAmount \<Rightarrow>
     (case premiumOf config' pid rid stid clid of
        None \<Rightarrow> None
      | Some premium \<Rightarrow>
          Some (config',
                roundResults
                  (premiumTotals premium premiumAdjustmentAmount voluntaryFundContributionAmount
                     (derivedTotals
                        (applyFund planFundAmount planFundAdditionalMatchAmount
                           fundRolloverAmount voluntaryFundContributionAmount r))))))))"

section \<open>MPCE: the engine (mpceEngine.js lines 193-243 and 1046-1158)\<close>

datatype error =
    UnknownRegionId string
  | UnknownStatusId string
  | PrimaryNullOrUndefined
  | ChildrenArrayNotAnArray
  | NoSuitableCoverageLevel bool nat

text \<open>\<open>a >= b\<close>.\<close>

fun js_ge :: "jsnum \<Rightarrow> jsnum \<Rightarrow> bool" where
  "js_ge (Fin a) (Fin b) = (b \<le> a)"
| "js_ge NaN _ = False"
| "js_ge _ NaN = False"
| "js_ge PInf _ = True"
| "js_ge NInf NInf = True"
| "js_ge NInf _ = False"
| "js_ge (Fin a) NInf = True"
| "js_ge (Fin a) PInf = False"

text \<open>
  The loop of \<open>determineCoverageLevel\<close>, lines 216-233: \<open>Some None\<close> when no level suits.
\<close>

fun findCoverageLevel :: "config \<Rightarrow> bool \<Rightarrow> nat \<Rightarrow> string list \<Rightarrow> string option option" where
  "findCoverageLevel config hasSpouse numChildren [] = Some None"
| "findCoverageLevel config hasSpouse numChildren (clid # rest) =
     (case map_of (coverageLevels config) clid of
        None \<Rightarrow> None
      | Some level \<Rightarrow>
          if hasSpouse \<and> \<not> spouse level then findCoverageLevel config hasSpouse numChildren rest
          else if js_ge (maxNumChildren level) (Fin (of_nat numChildren)) then Some (Some clid)
          else findCoverageLevel config hasSpouse numChildren rest)"

definition determineCoverageLevel ::
  "config \<Rightarrow> 'a option \<Rightarrow> 'b list \<Rightarrow> (error + string) option" where
  "determineCoverageLevel config spouseServices childrenArray =
     (let hasSpouse = (spouseServices \<noteq> None); numChildren = length childrenArray in
      case findCoverageLevel config hasSpouse numChildren (coverageLevelsOrder config) of
        None \<Rightarrow> None
      | Some None \<Rightarrow> Some (Inl (NoSuitableCoverageLevel hasSpouse numChildren))
      | Some (Some clid) \<Rightarrow> Some (Inr clid))"

text \<open>\<open>isNullOrUndefined(amounts) ? 0 : amounts[planId] || 0\<close>, lines 1132-1142.\<close>

definition amountForPlan :: "(string \<times> jsnum) list option \<Rightarrow> string \<Rightarrow> jsnum" where
  "amountForPlan amounts pid =
     (case amounts of None \<Rightarrow> Fin 0 | Some m \<Rightarrow> num_or (map_of m pid) (Fin 0))"

text \<open>The four optional per-plan arguments of \<open>calculate\<close>.\<close>

record plan_amounts =
  fundRolloverAmounts :: "(string \<times> jsnum) list option"
  voluntaryFundContributionAmounts :: "(string \<times> jsnum) list option"
  premiumAdjustmentAmounts :: "(string \<times> jsnum) list option"
  planFundAdditionalMatchAmounts :: "(string \<times> jsnum) list option"

text \<open>Lines 1128-1150: the loop over the plans of the region.\<close>

fun plansLoop :: "string \<Rightarrow> string \<Rightarrow> string \<Rightarrow> (string \<times> jsnum) list list \<Rightarrow> plan_amounts
    \<Rightarrow> string list \<Rightarrow> config \<Rightarrow> (config \<times> plan_result list) option" where
  "plansLoop rid stid clid peopleServices pa [] config = Some (config, [])"
| "plansLoop rid stid clid peopleServices pa (pid # rest) config =
     (case calculateSinglePlan config pid rid stid clid peopleServices
             (amountForPlan (fundRolloverAmounts pa) pid)
             (amountForPlan (voluntaryFundContributionAmounts pa) pid)
             (amountForPlan (premiumAdjustmentAmounts pa) pid)
             (amountForPlan (planFundAdditionalMatchAmounts pa) pid) of
        None \<Rightarrow> None
      | Some (config', r) \<Rightarrow>
          (case plansLoop rid stid clid peopleServices pa rest config' of
             None \<Rightarrow> None
           | Some (config'', rs) \<Rightarrow> Some (config'', r # rs)))"

text \<open>
  \<open>calculate\<close>. The result is the configuration as the call leaves it, with the error
  thrown or the array of plan results; \<open>primary\<close> and \<open>spouse\<close> are \<open>None\<close> when \<open>null\<close> or
  \<open>undefined\<close>, \<open>childrenArray\<close> is \<open>None\<close> when it is not an array. The elapsed time attached
  to the results is left out.
\<close>

definition calculate :: "config \<Rightarrow> string \<Rightarrow> string \<Rightarrow> (string \<times> jsnum) list option
    \<Rightarrow> (string \<times> jsnum) list option \<Rightarrow> (string \<times> jsnum) list list option \<Rightarrow> plan_amounts
    \<Rightarrow> (config \<times> (error + plan_result list)) option" where
  "calculate config rid stid primary spouseServices childrenArray pa =
     (case maybeMarkupConfig config of
        None \<Rightarrow> None
      | Some config1 \<Rightarrow>
          if map_of (regions config1) rid = None then Some (config1, Inl (UnknownRegionId rid))
          else if stid \<notin> set (statuses config1) then Some (config1, Inl (UnknownStatusId stid))
          else
            (case primary of
               None \<Rightarrow> Some (config1, Inl PrimaryNullOrUndefined)
             | Some primaryServices \<Rightarrow>
            (case childrenArray of
               None \<Rightarrow> Some (config1, Inl ChildrenArrayNotAnArray)
             | Some children \<Rightarrow>
            (case determineCoverageLevel config1 spouseServices children of
               None \<Rightarrow> None
             | Some (Inl e) \<Rightarrow> Some (config1, Inl e)
             | Some (Inr clid) \<Rightarrow>
                 let peopleServices =
                       [primaryServices]
                       @ (case spouseServices of None \<Rightarrow> [] | Some s \<Rightarrow> [s]) @ children
                 in (case map_of (regions config1) rid of
                       None \<Rightarrow> None
                     | Some regionPlans \<Rightarrow>
                         map_option (\<lambda>(config2, results). (config2, Inr results))
                           (plansLoop rid stid clid peopleServices pa regionPlans config1))))))"

section \<open>Predicates of the statements\<close>

text \<open>A finite number; a whole number of cents.\<close>

fun is_fin :: "jsnum \<Rightarrow> bool" where
  "is_fin (Fin a) = True"
| "is_fin x = False"

definition whole_cents :: "rat \<Rightarrow> bool" where
  "whole_cents a = (of_int \<lfloor>a * 100\<rfloor> = a * 100)"

fun is_cents :: "jsnum \<Rightarrow> bool" where
  "is_cents (Fin a) = whole_cents a"
| "is_cents x = False"

text \<open>
  Every combined limit that has a used amount has an available amount: the two are created
  together (lines 742-743 and 819-820) and updated together (lines 562-571).
\<close>

definition limitsPaired :: "'a amounts_scheme \<Rightarrow> bool" where
  "limitsPaired a =
     list_all (\<lambda>k. map_of (combinedLimitsAvailable a) k \<noteq> None) (map fst (combinedLimitsUsed a))"

text \<open>
  The nearest whole number of cents, a tie going up: what \<open>Math.round(x * 100) / 100\<close> is
  on a finite number. An amount is moderate when it is finite and at most a billion in
  absolute value.
\<close>

definition nearest_cent :: "rat \<Rightarrow> rat" where
  "nearest_cent a = of_int \<lfloor>a * 100 + 1 / 2\<rfloor> / 100"

fun moderate :: "jsnum \<Rightarrow> bool" where
  "moderate (Fin a) = (\<bar>a\<bar> \<le> 1000000000)"
| "moderate x = False"

section \<open>Example configurations\<close>

text \<open>
  One region \<open>R\<close>, one plan \<open>P\<close>, one status \<open>S\<close>, two coverage levels and one category
  \<open>care\<close> holding every service. A plan and a rule start with no property at all.
\<close>

definition noRule :: coverage_rule where
  "noRule = \<lparr> notCovered = None, copay = None, coinsurance = None, coinsuranceMinDollar = None,
     coinsuranceMaxDollar = None, coinsuranceNotTowardsOOPMax = None,
     copayNotTowardsOOPMax = None, deductible = None, coveredCount = None, dollarLimit = None,
     singleUseCostMax = None, combinedLimitId = None, eligibleForFund = None,
     coveredCountFromDollarLimit = None \<rparr>"

definition noPlan :: plan where
  "noPlan = \<lparr> personDeductibles = None, familyDeductibles = None,
     personOutOfPocketMaximums = None, familyOutOfPocketMaximums = None, fundAmountMap = None,
     categoriesFundAppliesTo = None, costsObjectId = None,
     personDeductibleCategoryToGroup = None, personOutOfPocketCategoryToGroup = None,
     familyDeductibleCategoryToGroup = None, familyOutOfPocketCategoryToGroup = None \<rparr>"

definition general :: "rat \<Rightarrow> limit_object" where
  "general a = [(''general'', \<lparr> amount = Some (Fin a), amountMap = None, categories = None \<rparr>)]"

definition serviceIn :: "string option \<Rightarrow> rat \<Rightarrow> coverage_rule list \<Rightarrow> service" where
  "serviceIn c x rs = \<lparr> categoryId = c, costs = [(''costs'', [(''R'', Fin x)])],
     coverage = [(''P'', Array rs)] \<rparr>"

definition exampleConfig :: "plan \<Rightarrow> (string \<times> service) list \<Rightarrow> config" where
  "exampleConfig pl svcs =
     \<lparr> regions = [(''R'', [''P''])], plansOrder = [''P''], plans = [(''P'', pl)],
       statuses = [''S''], coverageLevelsOrder = [''single'', ''family''],
       coverageLevels = [(''single'', \<lparr> spouse = False, maxNumChildren = Fin 0 \<rparr>),
                         (''family'', \<lparr> spouse = True, maxNumChildren = PInf \<rparr>)],
       coverageLevelCostsPerPlan =
         [(''P'', VObj [(''single'', VObj [(''S'', VNum (Fin 900))]),
                        (''family'', VObj [(''S'', VNum (Fin 2400))])])],
       services = svcs, combinedLimits = None, categoriesOrder = [''care''],
       categories = [(''care'', map fst svcs)],
       servicesWithDeductibleOrderByPlan = None, servicesNoDeductibleOrderByPlan = None,
       isMarkedUpAlready = False, isMarkedUp = False \<rparr>"

text \<open>The same configuration as \<open>maybeMarkupConfig\<close> leaves it.\<close>

definition markedExampleConfig ::
  "plan \<Rightarrow> (string \<times> service) list \<Rightarrow> string list \<Rightarrow> string list \<Rightarrow> config" where
  "markedExampleConfig pl svcs withDeductible noDeductible =
     (exampleConfig pl svcs)\<lparr>
       servicesWithDeductibleOrderByPlan := Some [(''P'', withDeductible)],
       servicesNoDeductibleOrderByPlan := Some [(''P'', noDeductible)],
       isMarkedUp := True \<rparr>"

definition withGroupMaps :: "(string \<times> string) list \<Rightarrow> plan \<Rightarrow> plan" where
  "withGroupMaps m pl = pl\<lparr>
     personDeductibleCategoryToGroup := Some m, personOutOfPocketCategoryToGroup := Some m,
     familyDeductibleCategoryToGroup := Some m, familyOutOfPocketCategoryToGroup := Some m \<rparr>"

definition noAmounts :: plan_amounts where
  "noAmounts = \<lparr> fundRolloverAmounts = None, voluntaryFundContributionAmounts = None,
     premiumAdjustmentAmounts = None, planFundAdditionalMatchAmounts = None \<rparr>"

text \<open>
  A visit at 0.375 of which the plan covers the first, and pays it in full. Two visits.
\<close>

definition halfCentRule :: coverage_rule where
  "halfCentRule = noRule\<lparr> coveredCount := Some (Fin 1), deductible := Some ''none'' \<rparr>"

definition halfCentConfig :: config where
  "halfCentConfig = exampleConfig noPlan [(''visit'', serviceIn None (3 / 8) [halfCentRule])]"

definition markedHalfCentConfig :: config where
  "markedHalfCentConfig =
     markedExampleConfig (withGroupMaps [] noPlan)
       [(''visit'', serviceIn (Some ''care'') (3 / 8)
                     [halfCentRule\<lparr> eligibleForFund := Some False \<rparr>])]
       [] [''visit'']"

text \<open>
  A plan with a fund of 10 that applies to the category, and a visit at 80 with a copay of 50
  and no deductible. Two visits.
\<close>

definition fundPlan :: plan where
  "fundPlan = noPlan\<lparr>
     fundAmountMap := Some [(''single'', VNum (Fin 10)), (''family'', VNum (Fin 20))],
     categoriesFundAppliesTo := Some [(''care'', True)] \<rparr>"

definition visitRule :: coverage_rule where
  "visitRule = noRule\<lparr> copay := Some (Fin 50), deductible := Some ''none'' \<rparr>"

definition fundConfig :: config where
  "fundConfig = exampleConfig fundPlan [(''visit'', serviceIn None 80 [visitRule])]"

definition markedFundConfig :: config where
  "markedFundConfig =
     markedExampleConfig (withGroupMaps [] fundPlan)
       [(''visit'', serviceIn (Some ''care'') 80 [visitRule\<lparr> eligibleForFund := Some True \<rparr>])]
       [] [''visit'']"

text \<open>
  A family plan: deductible 30 a person and 90 for the family, out-of-pocket maximum 100 a
  person and 200 for the family. A visit at 80 has a copay of 50, then the deductible; a
  hospital stay at 1000 has the deductible, then a coinsurance of 20 percent. The employee
  and the spouse have two visits each, the child one hospital stay.
\<close>

definition familyPlan :: plan where
  "familyPlan = noPlan\<lparr>
     personDeductibles := Some (general 30), familyDeductibles := Some (general 90),
     personOutOfPocketMaximums := Some (general 100),
     familyOutOfPocketMaximums := Some (general 200) \<rparr>"

definition familyConfigWith :: "coverage_rule \<Rightarrow> config" where
  "familyConfigWith hospitalRule =
     markedExampleConfig (withGroupMaps [(''care'', ''general'')] familyPlan)
       [(''visit'', serviceIn (Some ''care'') 80
                     [noRule\<lparr> copay := Some (Fin 50), eligibleForFund := Some False \<rparr>]),
        (''hospital'', serviceIn (Some ''care'') 1000 [hospitalRule])]
       [''visit'', ''hospital''] []"

definition markedFamilyConfig :: config where
  "markedFamilyConfig =
     familyConfigWith (noRule\<lparr> coinsurance := Some (Fin (1 / 5)), eligibleForFund := Some False \<rparr>)"

text \<open>The same plan with a hospital stay that has the deductible and nothing else.\<close>

definition deductibleOnlyConfig :: config where
  "deductibleOnlyConfig = familyConfigWith (noRule\<lparr> eligibleForFund := Some False \<rparr>)"

definition familyServices :: "(string \<times> jsnum) list list" where
  "familyServices = [[(''visit'', Fin 2)], [(''visit'', Fin 2)], [(''hospital'', Fin 1)]]"

text \<open>
  A plan whose out-of-pocket maximums, per person and per family, are given by the same
  \<open>amountMap\<close> keyed by region.
\<close>

definition regionMap :: "(string \<times> jsval) list" where
  "regionMap = [(''R'', VObj [(''single'', VNum (Fin 1000)), (''family'', VNum (Fin 2000))])]"

definition regionPlan :: plan where
  "regionPlan = noPlan\<lparr>
     personOutOfPocketMaximums :=
       Some [(''general'', \<lparr> amount = None, amountMap = Some regionMap, categories = None \<rparr>)],
     familyOutOfPocketMaximums :=
       Some [(''general'', \<lparr> amount = None, amountMap = Some regionMap, categories = None \<rparr>)] \<rparr>"

definition regionConfig :: config where
  "regionConfig = exampleConfig regionPlan [(''visit'', serviceIn None 80 [visitRule])]"

text \<open>
  A therapy at 40 that the plan covers up to a dollar limit of 100, with a coinsurance of 20
  percent and no deductible. Three sessions.
\<close>

definition therapyRule :: coverage_rule where
  "therapyRule = noRule\<lparr> coinsurance := Some (Fin (1 / 5)), dollarLimit := Some (Fin 100),
     deductible := Some ''none'', eligibleForFund := Some False \<rparr>"

definition markedTherapyConfig :: config where
  "markedTherapyConfig =
     markedExampleConfig (withGroupMaps [] noPlan)
       [(''therapy'', serviceIn (Some ''care'') 40 [therapyRule])] [] [''therapy'']"

text \<open>The container \<open>service\<close> holding two massages at 60 that the plan does not cover.\<close>

definition massageService :: service_io where
  "massageService = newService\<lparr> sv_id := ''massage'', sv_count := Fin 2, sv_cost := Fin 60,
     sv_coverage := Some (noRule\<lparr> notCovered := Some True \<rparr>), sv_categoryId := Some ''care'' \<rparr>"

text \<open>Budgets with no group and no combined limit, and the groups of a category in no group.\<close>

definition noFamilyBudget :: amounts where
  "noFamilyBudget = \<lparr> dedsUsedByGroup = [], dedsAvailableByGroup = [], oopsUsedByGroup = [],
     oopsAvailableByGroup = [], combinedLimitsUsed = [], combinedLimitsAvailable = [] \<rparr>"

definition noPersonBudget :: person_amounts where
  "noPersonBudget = \<lparr> dedsUsedByGroup = [], dedsAvailableByGroup = [], oopsUsedByGroup = [],
     oopsAvailableByGroup = [], combinedLimitsUsed = [], combinedLimitsAvailable = [],
     index = 0, totalDeductibles = Fin 0 \<rparr>"

definition noGroups :: groups where
  "noGroups = \<lparr> personDeductibleGroup = None, personOutOfPocketGroup = None,
     familyDeductibleGroup = None, familyOutOfPocketGroup = None \<rparr>"

text \<open>
  The budgets of the group \<open>general\<close>: what is used and what is available of the deductible,
  then of the out-of-pocket maximum.
\<close>

definition familyBudget :: "rat \<Rightarrow> rat \<Rightarrow> rat \<Rightarrow> rat \<Rightarrow> amounts" where
  "familyBudget du da ou oa =
     \<lparr> dedsUsedByGroup = [(''general'', Fin du)], dedsAvailableByGroup = [(''general'', Fin da)],
       oopsUsedByGroup = [(''general'', Fin ou)], oopsAvailableByGroup = [(''general'', Fin oa)],
       combinedLimitsUsed = [], combinedLimitsAvailable = [] \<rparr>"

definition personBudget :: "nat \<Rightarrow> rat \<Rightarrow> rat \<Rightarrow> rat \<Rightarrow> rat \<Rightarrow> person_amounts" where
  "personBudget i du da ou oa =
     \<lparr> dedsUsedByGroup = [(''general'', Fin du)], dedsAvailableByGroup = [(''general'', Fin da)],
       oopsUsedByGroup = [(''general'', Fin ou)], oopsAvailableByGroup = [(''general'', Fin oa)],
       combinedLimitsUsed = [], combinedLimitsAvailable = [],
       index = i, totalDeductibles = Fin du \<rparr>"

text \<open>
  The results of the examples: the totals accumulated by the two passes, and the plan result
  returned.
\<close>

definition halfCentTotals :: plan_result where
  "halfCentTotals = (newResult ''P'' ''single'')\<lparr>
     totalExpensesNotCovered := Fin (3 / 8), totalRawExpenses := Fin (3 / 4) \<rparr>"

definition halfCentResult :: plan_result where
  "halfCentResult = (newResult ''P'' ''single'')\<lparr>
     totalExpensesNotCovered := Fin (19 / 50), totalRawExpenses := Fin (3 / 4),
     rolloverFundPaid := Fin 0,
     totalMedicalAndDrugCostsExcludingDeductibles := Fin (19 / 50),
     totalMedicalAndDrugCosts := Fin (19 / 50),
     totalMedicalAndDrugCostsLessFundOffset := Fin (19 / 50),
     totalEmployerOrPlanPaidExcludingFund := Fin (19 / 50),
     totalAnnualPayrollContributionsExcludingAdjustment := Fin 900,
     totalAnnualPayrollContributions := Fin 900,
     totalCareAndPayrollContributions := Fin (45019 / 50),
     totalAnnualCost := Fin (45019 / 50) \<rparr>"

definition fundTotals :: plan_result where
  "fundTotals = (newResult ''P'' ''single'')\<lparr>
     totalCopays := Fin 100, totalRawExpenses := Fin 160, totalFundEligibleCosts := Fin 100 \<rparr>"

text \<open>The result with a voluntary contribution of 0.375 and nothing else added to the fund.\<close>

definition voluntaryResult :: plan_result where
  "voluntaryResult = fundTotals\<lparr>
     totalFundAmountOffset := Fin (519 / 50), planFundPaid := Fin 10,
     rolloverFundPaid := Fin 0, voluntaryFundPaid := Fin (19 / 50),
     totalMedicalAndDrugCostsExcludingDeductibles := Fin 100,
     totalMedicalAndDrugCosts := Fin 100,
     totalMedicalAndDrugCostsLessFundOffset := Fin (8963 / 100),
     totalEmployerOrPlanPaidExcludingFund := Fin 60,
     totalAnnualPayrollContributionsExcludingAdjustment := Fin 900,
     totalAnnualPayrollContributions := Fin 900,
     totalCareAndPayrollContributions := Fin (98963 / 100),
     totalCurrentYearFundContributions := Fin (19 / 50),
     totalAnnualCost := Fin 990 \<rparr>"

text \<open>The result with a rollover of 0.375 and nothing else added to the fund.\<close>

definition rolloverResult :: plan_result where
  "rolloverResult = fundTotals\<lparr>
     totalFundAmountOffset := Fin (519 / 50), planFundPaid := Fin 10,
     rolloverFundPaid := Fin (3 / 8),
     totalMedicalAndDrugCostsExcludingDeductibles := Fin 100,
     totalMedicalAndDrugCosts := Fin 100,
     totalMedicalAndDrugCostsLessFundOffset := Fin (8963 / 100),
     totalEmployerOrPlanPaidExcludingFund := Fin 60,
     totalAnnualPayrollContributionsExcludingAdjustment := Fin 900,
     totalAnnualPayrollContributions := Fin 900,
     totalCareAndPayrollContributions := Fin (98963 / 100),
     totalAnnualCost := Fin (98963 / 100) \<rparr>"

text \<open>The result with a rollover of 20, a voluntary contribution of 5 and a match of 30.\<close>

definition wholeFundResult :: plan_result where
  "wholeFundResult = fundTotals\<lparr>
     totalFundAmountOffset := Fin 65, planFundPaid := Fin 10,
     planFundAdditionalMatchPaid := Fin 30, rolloverFundPaid := Fin 20,
     voluntaryFundPaid := Fin 5,
     totalMedicalAndDrugCostsExcludingDeductibles := Fin 100,
     totalMedicalAndDrugCosts := Fin 100,
     totalMedicalAndDrugCostsLessFundOffset := Fin 35,
     totalEmployerOrPlanPaidExcludingFund := Fin 60,
     totalAnnualPayrollContributionsExcludingAdjustment := Fin 900,
     totalAnnualPayrollContributions := Fin 900,
     totalCareAndPayrollContributions := Fin 935,
     totalCurrentYearFundContributions := Fin 5,
     totalAnnualCost := Fin 940 \<rparr>"

definition familyTotals :: plan_result where
  "familyTotals = (newResult ''P'' ''family'')\<lparr>
     totalDeductibles := Fin 90, totalCopays := Fin 140, totalCoinsurance := Fin (- 30),
     totalRawExpenses := Fin 1320 \<rparr>"

definition familyResult :: plan_result where
  "familyResult = familyTotals\<lparr>
     rolloverFundPaid := Fin 0,
     totalMedicalAndDrugCostsExcludingDeductibles := Fin 110,
     totalMedicalAndDrugCosts := Fin 200,
     totalMedicalAndDrugCostsLessFundOffset := Fin 200,
     totalEmployerOrPlanPaidExcludingFund := Fin 1120,
     totalAnnualPayrollContributionsExcludingAdjustment := Fin 2400,
     totalAnnualPayrollContributions := Fin 2400,
     totalCareAndPayrollContributions := Fin 2600,
     totalAnnualCost := Fin 2600 \<rparr>"

definition therapyTotals :: plan_result where
  "therapyTotals = (newResult ''P'' ''single'')\<lparr>
     totalCoinsurance := Fin 20, totalExpensesNotCovered := Fin 20, totalRawExpenses := Fin 120 \<rparr>"

definition therapyResult :: plan_result where
  "therapyResult = therapyTotals\<lparr>
     rolloverFundPaid := Fin 0,
     totalMedicalAndDrugCostsExcludingDeductibles := Fin 40,
     totalMedicalAndDrugCosts := Fin 40,
     totalMedicalAndDrugCostsLessFundOffset := Fin 40,
     totalEmployerOrPlanPaidExcludingFund := Fin 80,
     totalAnnualPayrollContributionsExcludingAdjustment := Fin 900,
     totalAnnualPayrollContributions := Fin 900,
     totalCareAndPayrollContributions := Fin 940,
     totalAnnualCost := Fin 940 \<rparr>"

text \<open>The configuration of the therapy after a call of \<open>calculate\<close>.\<close>

definition usedTherapyConfig :: config where
  "usedTherapyConfig =
     markedExampleConfig (withGroupMaps [] noPlan)
       [(''therapy'', serviceIn (Some ''care'') 40
           [therapyRule\<lparr> coveredCountFromDollarLimit := Some (Fin (5 / 2)) \<rparr>])]
       [] [''therapy'']"

text \<open>The sum of what the household and the plan pay, to be compared with the raw expenses.\<close>

definition accountedFor :: "plan_result \<Rightarrow> jsnum" where
  "accountedFor r =
     js_add (js_add (js_add (js_add (totalDeductibles r) (totalCopays r)) (totalCoinsurance r))
        (totalExpensesNotCovered r)) (totalEmployerOrPlanPaidExcludingFund r)"





section \<open>The markup as a transformation of the configuration\<close>

text \<open>
  What \<open>maybeMarkupConfig\<close> does to the services, written as functions on services. The
  engine reads of a plan, while it marks up the services, only whether it exists and its
  \<open>categoriesFundAppliesTo\<close>.
\<close>

definition planFlags :: "(string \<times> plan) list \<Rightarrow> string \<Rightarrow> (string \<times> bool) list option option" where
  "planFlags ps pid = map_option categoriesFundAppliesTo (map_of ps pid)"

definition fundFlag :: "(string \<times> bool) list option \<Rightarrow> string \<Rightarrow> bool" where
  "fundFlag m catId =
     (case m of None \<Rightarrow> False
      | Some m' \<Rightarrow> (case map_of m' catId of None \<Rightarrow> False | Some b \<Rightarrow> b))"

definition fillRule ::
  "(string \<times> bool) list option option \<Rightarrow> string \<Rightarrow> coverage_rule \<Rightarrow> coverage_rule" where
  "fillRule fl catId r =
     (case eligibleForFund r of
        Some b \<Rightarrow> r
      | None \<Rightarrow> (case fl of None \<Rightarrow> r
                 | Some m \<Rightarrow> r\<lparr> eligibleForFund := Some (fundFlag m catId) \<rparr>))"

definition fillCoverage ::
  "(string \<times> bool) list option option \<Rightarrow> string \<Rightarrow> plan_coverage \<Rightarrow> plan_coverage" where
  "fillCoverage fl catId pc = Array (map (fillRule fl catId) (rulesOf pc))"

text \<open>
  A sequence of assignments \<open>obj[k] = g a obj[k]\<close> to an object, one for each pair \<open>(a, k)\<close>.
\<close>

definition applySeq :: "('a \<Rightarrow> 'v \<Rightarrow> 'v) \<Rightarrow> ('a \<times> 'k) list \<Rightarrow> ('k \<times> 'v) list \<Rightarrow> ('k \<times> 'v) list" where
  "applySeq g steps al = fold (\<lambda>(a, k). AList.map_entry k (g a)) steps al"

definition wrapAll :: "(string \<times> plan_coverage) list \<Rightarrow> (string \<times> plan_coverage) list" where
  "wrapAll cov = map (\<lambda>(planId, pc). (planId, wrapCoverage pc)) cov"

definition markSvc ::
  "(string \<Rightarrow> (string \<times> bool) list option option) \<Rightarrow> string \<Rightarrow> service \<Rightarrow> service" where
  "markSvc fl catId s =
     s\<lparr> categoryId := Some catId,
        coverage := applySeq (\<lambda>pid. fillCoverage (fl pid) catId)
                      (map (\<lambda>p. (p, p)) (map fst (coverage s))) (wrapAll (coverage s)) \<rparr>"

text \<open>The pairs of a category and a service, in the order the markup visits them.\<close>

definition catSeq :: "(string \<times> string list) list \<Rightarrow> string list \<Rightarrow> (string \<times> string) list" where
  "catSeq cs cats =
     concat (map (\<lambda>catId. map (Pair catId)
                    (case map_of cs catId of None \<Rightarrow> [] | Some sids \<Rightarrow> sids)) cats)"

text \<open>
  Two objects with the same property names in the same order, whose values are related.
\<close>

definition entriesRel :: "('v \<Rightarrow> 'w \<Rightarrow> bool) \<Rightarrow> ('k \<times> 'v) list \<Rightarrow> ('k \<times> 'w) list \<Rightarrow> bool" where
  "entriesRel P xs ys = list_all2 (\<lambda>x y. fst x = fst y \<and> P (snd x) (snd y)) xs ys"

text \<open>
  A rule and the same rule further marked up; the same for coverages, services and
  configurations. Two related configurations have the same service orders.
\<close>

definition ruleRel :: "coverage_rule \<Rightarrow> coverage_rule \<Rightarrow> bool" where
  "ruleRel r r' = (deductible r = deductible r'
     \<and> (eligibleForFund r = None \<or> eligibleForFund r' \<noteq> None))"

definition covRel :: "plan_coverage \<Rightarrow> plan_coverage \<Rightarrow> bool" where
  "covRel pc pc' = list_all2 ruleRel (rulesOf (wrapCoverage pc)) (rulesOf (wrapCoverage pc'))"

definition svcRel :: "service \<Rightarrow> service \<Rightarrow> bool" where
  "svcRel s s' = entriesRel covRel (coverage s) (coverage s')"

definition cfgRel :: "config \<Rightarrow> config \<Rightarrow> bool" where
  "cfgRel x y = (entriesRel svcRel (services x) (services y)
     \<and> categories x = categories y
     \<and> servicesWithDeductibleOrderByPlan x = servicesWithDeductibleOrderByPlan y
     \<and> servicesNoDeductibleOrderByPlan x = servicesNoDeductibleOrderByPlan y
     \<and> planFlags (plans x) = planFlags (plans y))"

text \<open>Every coverage of the service is an array.\<close>

definition arraysAt :: "string \<Rightarrow> config \<Rightarrow> bool" where
  "arraysAt sid x =
     (case map_of (services x) sid of
        None \<Rightarrow> True
      | Some s \<Rightarrow> list_all (\<lambda>e. wrapCoverage (snd e) = snd e) (coverage s))"

text \<open>A configuration without what the markup of the services writes.\<close>

definition coreOf :: "config \<Rightarrow> config" where
  "coreOf c = c\<lparr> services := [], servicesWithDeductibleOrderByPlan := None,
     servicesNoDeductibleOrderByPlan := None \<rparr>"

text \<open>
  The plan has the map from categories to groups that \<open>makeLimitObjectCategoryToGroupMap\<close>
  builds from one of its limit objects.
\<close>

definition groupMapDone :: "(plan \<Rightarrow> (string \<times> string) list option) \<Rightarrow> (plan \<Rightarrow> limit_object option)
    \<Rightarrow> config \<Rightarrow> string \<Rightarrow> bool" where
  "groupMapDone getMap limitObject x pid =
     (case map_of (plans x) pid of
        None \<Rightarrow> False
      | Some pl \<Rightarrow> categoryToGroupMap (categoriesOrder x) (limitObject pl) \<noteq> None
          \<and> getMap pl = categoryToGroupMap (categoriesOrder x) (limitObject pl))"

section \<open>FSAE: properties\<close>

text \<open>
  C8. With a specified contribution maximum of 0 (which the validator accepts: it only rejects
  negative numbers), a total cost of 100 and no rollover, the formula of the specification
  suggests a contribution of 0, but \<open>calculateContributions\<close> reads the zero through
  \<open>|| Infinity\<close> as unspecified and suggests 100.
\<close>

theorem calculateContributions_zero_maximum:
  "calculateContributions zeroMaxConfig ''FSA'' (Fin 100) (Fin 0)
     = Some \<lparr> suggestedContribution = Fin 100, employerMatchingContribution = Fin 0 \<rparr>
   \<and> spec_suggestedContribution zeroMaxAccount (Fin 100) (Fin 0) = Fin 0"
  by (simp add: calculateContributions_def spec_suggestedContribution_def zeroMaxConfig_def
      zeroMaxAccount_def js_sub_def)

section \<open>MPCE: auxiliary facts\<close>

subsection \<open>Numbers, association lists and the loop\<close>

lemma js_add_zero_right [simp]: "js_add x (Fin 0) = x"
  by (cases x) simp_all

lemma js_add_zero_left [simp]: "js_add (Fin 0) x = x"
  by (cases x) simp_all

lemma js_sub_zero_right [simp]: "js_sub x (Fin 0) = x"
  by (cases x) (simp_all add: js_sub_def)

lemma js_mul_one_left [simp]: "js_mul (Fin 1) x = x"
  by (cases x) simp_all

lemma js_mul_one_right [simp]: "js_mul x (Fin 1) = x"
  by (cases x) simp_all

lemma update_same: "map_of al k = Some v \<Longrightarrow> AList.update k v al = al"
  by (induction al) (auto split: if_splits)

lemma limitsPaired_avail:
  "limitsPaired a \<Longrightarrow> map_of (combinedLimitsUsed a) k = Some u \<Longrightarrow> \<exists>v. map_of (combinedLimitsAvailable a) k = Some v"
  unfolding limitsPaired_def list_all_iff
  by (metis (mono_tags, lifting) domI domIff image_eqI map_of_SomeD not_None_eq fst_conv set_map)

lemma chargeLimit_zero: "limitsPaired a \<Longrightarrow> chargeLimit k (Fin 0) a = a"
  by (auto simp: chargeLimit_def update_same split: option.splits dest!: limitsPaired_avail)

lemma serviceLoop_done:
  "\<not> (js_gt (coveredCountLeft st) (Fin 0) \<and> js_gt (combinedLimitAvailable st) (Fin 0))
   \<Longrightarrow> serviceLoop rule cost g st = Some st"
  by (subst serviceLoop.simps) auto

subsection \<open>Rounding to cents\<close>

lemma round_cents_Fin: "round_cents (Fin a) = Fin (nearest_cent a)"
  by (simp add: round_cents_def nearest_cent_def)

lemma is_fin_round_cents [simp]: "is_fin (round_cents x) = is_fin x"
  by (cases x) (simp_all add: round_cents_def)

lemma is_fin_iff: "is_fin x \<longleftrightarrow> (\<exists>a. x = Fin a)"
  by (cases x) simp_all

lemma moderate_fin: "moderate x \<Longrightarrow> is_fin x"
  by (cases x) simp_all

lemma js_add_Fin_iff: "js_add a b = Fin c \<longleftrightarrow> (\<exists>x y. a = Fin x \<and> b = Fin y \<and> c = x + y)"
  by (cases a; cases b) auto

lemma nearest_cent_0 [simp]: "nearest_cent 0 = 0"
proof -
  have "\<lfloor>(1 / 2 :: rat)\<rfloor> = 0" by (rule floor_unique) simp_all
  then show ?thesis by (simp add: nearest_cent_def)
qed

lemma nearest_cent_error: "\<bar>nearest_cent a - a\<bar> \<le> 1 / 200"
proof -
  have "\<bar>of_int \<lfloor>a * 100 + 1 / 2\<rfloor> - a * 100\<bar> \<le> 1 / 2" by linarith
  then have "\<bar>(of_int \<lfloor>a * 100 + 1 / 2\<rfloor> - a * 100) / 100\<bar> \<le> (1 / 2) / 100"
    unfolding abs_divide by (simp add: divide_right_mono)
  then show ?thesis unfolding nearest_cent_def by (simp add: diff_divide_distrib)
qed

lemma nearest_cent_mono: "a \<le> b \<Longrightarrow> nearest_cent a \<le> nearest_cent b"
  unfolding nearest_cent_def by (simp add: divide_right_mono floor_mono)

lemma nearest_cent_min: "nearest_cent (min a b) = min (nearest_cent a) (nearest_cent b)"
  by (cases "a \<le> b") (simp_all add: min_def nearest_cent_mono antisym)

subsection \<open>The last stage of \<open>calculateSinglePlan\<close>\<close>

lemma js_sub_Fin [simp]: "js_sub (Fin a) (Fin b) = Fin (a - b)"
  by (simp add: js_sub_def)

lemma js_sub_Fin_iff: "js_sub a b = Fin c \<longleftrightarrow> (\<exists>x y. a = Fin x \<and> b = Fin y \<and> c = x - y)"
  by (cases a; cases b) (auto simp: js_sub_def)

lemma calculateSinglePlan_result:
  assumes "calculateSinglePlan config pid rid stid clid people ro vo adj ma = Some (config', r)"
  obtains t pl pf premium where
    "planTotals config pid rid stid clid people = Some (config', t)"
    "map_of (plans config') pid = Some pl"
    "planFundAmountOf pl rid stid clid = Some pf"
    "premiumOf config' pid rid stid clid = Some premium"
    "r = roundResults (premiumTotals premium adj vo (derivedTotals (applyFund pf ma ro vo t)))"
  using assms by (auto simp: calculateSinglePlan_def split: option.splits)

lemma calculateSinglePlan_eval:
  assumes "planTotals config pid rid stid clid people = Some (config', t)"
    and "map_of (plans config') pid = Some pl"
    and "planFundAmountOf pl rid stid clid = Some pf"
    and "premiumOf config' pid rid stid clid = Some premium"
  shows "calculateSinglePlan config pid rid stid clid people ro vo adj ma =
    Some (config', roundResults (premiumTotals premium adj vo (derivedTotals (applyFund pf ma ro vo t))))"
  using assms by (simp add: calculateSinglePlan_def)

lemma roundResults_fields:
  "totalDeductibles (roundResults r) = totalDeductibles r"
  "totalCopays (roundResults r) = round_cents (totalCopays r)"
  "totalCoinsurance (roundResults r) = round_cents (totalCoinsurance r)"
  "totalExpensesNotCovered (roundResults r) = round_cents (totalExpensesNotCovered r)"
  "totalRawExpenses (roundResults r) = round_cents (totalRawExpenses r)"
  "totalEmployerOrPlanPaidExcludingFund (roundResults r)
     = round_cents (totalEmployerOrPlanPaidExcludingFund r)"
  "totalFundEligibleCosts (roundResults r) = round_cents (totalFundEligibleCosts r)"
  "totalFundAmountOffset (roundResults r) = round_cents (totalFundAmountOffset r)"
  "planFundPaid (roundResults r) = round_cents (planFundPaid r)"
  "planFundAdditionalMatchPaid (roundResults r) = round_cents (planFundAdditionalMatchPaid r)"
  "rolloverFundPaid (roundResults r) = rolloverFundPaid r"
  "voluntaryFundPaid (roundResults r) = round_cents (voluntaryFundPaid r)"
  "fundCarryoverBalance (roundResults r) = round_cents (fundCarryoverBalance r)"
  by (simp_all add: roundResults_def)

lemma premiumTotals_fields:
  "totalDeductibles (premiumTotals pr adj vo r) = totalDeductibles r"
  "totalCopays (premiumTotals pr adj vo r) = totalCopays r"
  "totalCoinsurance (premiumTotals pr adj vo r) = totalCoinsurance r"
  "totalExpensesNotCovered (premiumTotals pr adj vo r) = totalExpensesNotCovered r"
  "totalRawExpenses (premiumTotals pr adj vo r) = totalRawExpenses r"
  "totalEmployerOrPlanPaidExcludingFund (premiumTotals pr adj vo r)
     = totalEmployerOrPlanPaidExcludingFund r"
  "totalFundEligibleCosts (premiumTotals pr adj vo r) = totalFundEligibleCosts r"
  "totalFundAmountOffset (premiumTotals pr adj vo r) = totalFundAmountOffset r"
  "planFundPaid (premiumTotals pr adj vo r) = planFundPaid r"
  "planFundAdditionalMatchPaid (premiumTotals pr adj vo r) = planFundAdditionalMatchPaid r"
  "rolloverFundPaid (premiumTotals pr adj vo r) = rolloverFundPaid r"
  "voluntaryFundPaid (premiumTotals pr adj vo r) = voluntaryFundPaid r"
  "fundCarryoverBalance (premiumTotals pr adj vo r) = fundCarryoverBalance r"
  by (simp_all add: premiumTotals_def Let_def)

lemma derivedTotals_fields:
  "totalDeductibles (derivedTotals r) = totalDeductibles r"
  "totalCopays (derivedTotals r) = totalCopays r"
  "totalCoinsurance (derivedTotals r) = totalCoinsurance r"
  "totalExpensesNotCovered (derivedTotals r) = totalExpensesNotCovered r"
  "totalRawExpenses (derivedTotals r) = totalRawExpenses r"
  "totalEmployerOrPlanPaidExcludingFund (derivedTotals r)
     = js_sub (totalRawExpenses r)
         (js_add (js_add (js_add (totalDeductibles r) (totalCopays r)) (totalCoinsurance r))
            (totalExpensesNotCovered r))"
  "totalFundEligibleCosts (derivedTotals r) = totalFundEligibleCosts r"
  "totalFundAmountOffset (derivedTotals r) = totalFundAmountOffset r"
  "planFundPaid (derivedTotals r) = planFundPaid r"
  "planFundAdditionalMatchPaid (derivedTotals r) = planFundAdditionalMatchPaid r"
  "rolloverFundPaid (derivedTotals r) = rolloverFundPaid r"
  "voluntaryFundPaid (derivedTotals r) = voluntaryFundPaid r"
  "fundCarryoverBalance (derivedTotals r) = fundCarryoverBalance r"
  by (simp_all add: derivedTotals_def Let_def)

lemma applyFund_fields:
  "totalDeductibles (applyFund pf ma ro vo r) = totalDeductibles r"
  "totalCopays (applyFund pf ma ro vo r) = totalCopays r"
  "totalCoinsurance (applyFund pf ma ro vo r) = totalCoinsurance r"
  "totalExpensesNotCovered (applyFund pf ma ro vo r) = totalExpensesNotCovered r"
  "totalRawExpenses (applyFund pf ma ro vo r) = totalRawExpenses r"
  "totalFundEligibleCosts (applyFund pf ma ro vo r) = totalFundEligibleCosts r"
  by (simp_all add: applyFund_def Let_def)

lemma final_accounting_fields:
  assumes "r = roundResults (premiumTotals premium adj vo (derivedTotals (applyFund pf ma ro vo t)))"
  shows "totalDeductibles r = totalDeductibles t"
    and "totalCopays r = round_cents (totalCopays t)"
    and "totalCoinsurance r = round_cents (totalCoinsurance t)"
    and "totalExpensesNotCovered r = round_cents (totalExpensesNotCovered t)"
    and "totalRawExpenses r = round_cents (totalRawExpenses t)"
    and "totalEmployerOrPlanPaidExcludingFund r =
           round_cents (js_sub (totalRawExpenses t)
             (js_add (js_add (js_add (totalDeductibles t) (totalCopays t)) (totalCoinsurance t))
                (totalExpensesNotCovered t)))"
  by (simp_all only: assms roundResults_fields premiumTotals_fields derivedTotals_fields
      applyFund_fields)

lemma final_fund_fields:
  assumes "r = roundResults (premiumTotals premium adj vo (derivedTotals f))"
  shows "totalFundEligibleCosts r = round_cents (totalFundEligibleCosts f)"
    and "totalFundAmountOffset r = round_cents (totalFundAmountOffset f)"
    and "planFundPaid r = round_cents (planFundPaid f)"
    and "planFundAdditionalMatchPaid r = round_cents (planFundAdditionalMatchPaid f)"
    and "rolloverFundPaid r = rolloverFundPaid f"
    and "voluntaryFundPaid r = round_cents (voluntaryFundPaid f)"
    and "fundCarryoverBalance r = round_cents (fundCarryoverBalance f)"
  by (simp_all only: assms roundResults_fields premiumTotals_fields derivedTotals_fields)

lemma applyFund_Fin:
  assumes "totalFundEligibleCosts t = Fin e"
  shows "totalFundAmountOffset (applyFund (Fin a) (Fin b) (Fin c) (Fin d) t)
           = Fin (min e (a + b + c + d))"
    and "planFundPaid (applyFund (Fin a) (Fin b) (Fin c) (Fin d) t)
           = Fin (min (min e (a + b + c + d)) a)"
    and "planFundAdditionalMatchPaid (applyFund (Fin a) (Fin b) (Fin c) (Fin d) t)
           = Fin (min (min e (a + b + c + d) - min (min e (a + b + c + d)) a) b)"
    and "rolloverFundPaid (applyFund (Fin a) (Fin b) (Fin c) (Fin d) t)
           = Fin (min (min e (a + b + c + d)
                   - (min (min e (a + b + c + d)) a
                      + min (min e (a + b + c + d) - min (min e (a + b + c + d)) a) b)) c)"
    and "voluntaryFundPaid (applyFund (Fin a) (Fin b) (Fin c) (Fin d) t)
           = Fin (min e (a + b + c + d)
                   - (min (min e (a + b + c + d)) a
                      + min (min e (a + b + c + d) - min (min e (a + b + c + d)) a) b
                      + min (min e (a + b + c + d)
                          - (min (min e (a + b + c + d)) a
                             + min (min e (a + b + c + d) - min (min e (a + b + c + d)) a) b)) c))"
    and "fundCarryoverBalance (applyFund (Fin a) (Fin b) (Fin c) (Fin d) t)
           = Fin (a + b + c + d - min e (a + b + c + d))"
  by (simp_all add: applyFund_def Let_def assms)

subsection \<open>Arithmetic of the fund\<close>

lemma fund_split:
  fixes e a b c d :: rat
  assumes "0 \<le> b" "0 \<le> c"
  defines "off \<equiv> min e (a + b + c + d)"
  defines "p \<equiv> min off a"
  defines "mp \<equiv> min (off - p) b"
  defines "rp \<equiv> min (off - (p + mp)) c"
  defines "v \<equiv> off - (p + mp + rp)"
  shows "p + mp + rp + v = off"
    and "mp \<noteq> 0 \<longrightarrow> p = a"
    and "rp \<noteq> 0 \<longrightarrow> p = a \<and> mp = b"
    and "v \<noteq> 0 \<longrightarrow> p = a \<and> mp = b \<and> rp = c"
  using assms(1,2) unfolding v_def rp_def mp_def p_def off_def
  by (auto simp: min_def split: if_splits)

subsection \<open>The example configurations, evaluated\<close>

lemma markedExampleConfig_fields:
  "regions (markedExampleConfig pl svcs w n) = [(''R'', [''P''])]"
  "statuses (markedExampleConfig pl svcs w n) = [''S'']"
  "plans (markedExampleConfig pl svcs w n) = [(''P'', pl)]"
  by (simp_all add: markedExampleConfig_def exampleConfig_def)

lemma exampleConfig_fields:
  "regions (exampleConfig pl svcs) = [(''R'', [''P''])]"
  "statuses (exampleConfig pl svcs) = [''S'']"
  "plans (exampleConfig pl svcs) = [(''P'', pl)]"
  by (simp_all add: exampleConfig_def)

lemma determineCoverageLevel_single:
  "determineCoverageLevel (markedExampleConfig pl svcs w n) None [] = Some (Inr ''single'')"
  by (simp add: determineCoverageLevel_def markedExampleConfig_def exampleConfig_def)

lemma determineCoverageLevel_family:
  "determineCoverageLevel (markedExampleConfig pl svcs w n) (Some s) [c] = Some (Inr ''family'')"
  by (simp add: determineCoverageLevel_def markedExampleConfig_def exampleConfig_def)

lemma premiumOf_single:
  "premiumOf (markedExampleConfig pl svcs w n) ''P'' ''R'' ''S'' ''single'' = Some (Fin 900)"
  by (simp add: premiumOf_def markedExampleConfig_def exampleConfig_def)

lemma premiumOf_family:
  "premiumOf (markedExampleConfig pl svcs w n) ''P'' ''R'' ''S'' ''family'' = Some (Fin 2400)"
  by (simp add: premiumOf_def markedExampleConfig_def exampleConfig_def)

lemma planFundAmountOf_none:
  "planFundAmountOf (withGroupMaps m noPlan) rid stid clid = Some (Fin 0)"
  "planFundAmountOf (withGroupMaps m familyPlan) rid stid clid = Some (Fin 0)"
  by (simp_all add: planFundAmountOf_def withGroupMaps_def noPlan_def familyPlan_def)

lemma planFundAmountOf_fund:
  "planFundAmountOf (withGroupMaps [] fundPlan) ''R'' ''S'' ''single'' = Some (Fin 10)"
  by code_simp

lemma amountForPlan_simps:
  "amountForPlan None pid = Fin 0"
  "amountForPlan (Some [(''P'', Fin (3 / 8))]) ''P'' = Fin (3 / 8)"
  "amountForPlan (Some [(''P'', Fin 20)]) ''P'' = Fin 20"
  "amountForPlan (Some [(''P'', Fin 5)]) ''P'' = Fin 5"
  "amountForPlan (Some [(''P'', Fin 30)]) ''P'' = Fin 30"
  by (simp_all add: amountForPlan_def)

lemma markup_fund: "maybeMarkupConfig fundConfig = Some markedFundConfig"
  by code_simp

lemma markup_halfCent_again: "maybeMarkupConfig markedHalfCentConfig = Some markedHalfCentConfig"
  by code_simp

lemma markup_fund_again: "maybeMarkupConfig markedFundConfig = Some markedFundConfig"
  by code_simp

lemma markup_family_again: "maybeMarkupConfig markedFamilyConfig = Some markedFamilyConfig"
  by code_simp


lemma planTotals_halfCent:
  "planTotals markedHalfCentConfig ''P'' ''R'' ''S'' ''single'' [[(''visit'', Fin 2)]]
     = Some (markedHalfCentConfig, halfCentTotals)"
  by code_simp

lemma planTotals_fund:
  "planTotals markedFundConfig ''P'' ''R'' ''S'' ''single'' [[(''visit'', Fin 2)]]
     = Some (markedFundConfig, fundTotals)"
  by code_simp

lemma planTotals_family:
  "planTotals markedFamilyConfig ''P'' ''R'' ''S'' ''family'' familyServices
     = Some (markedFamilyConfig, familyTotals)"
  by code_simp

lemma planTotals_therapy:
  "planTotals markedTherapyConfig ''P'' ''R'' ''S'' ''single'' [[(''therapy'', Fin 3)]]
     = Some (usedTherapyConfig, therapyTotals)"
  by code_simp

lemma final_halfCent:
  "roundResults (premiumTotals (Fin 900) (Fin 0) (Fin 0)
       (derivedTotals (applyFund (Fin 0) (Fin 0) (Fin 0) (Fin 0) halfCentTotals))) = halfCentResult"
  by code_simp

lemma final_voluntary:
  "roundResults (premiumTotals (Fin 900) (Fin 0) (Fin (3 / 8))
       (derivedTotals (applyFund (Fin 10) (Fin 0) (Fin 0) (Fin (3 / 8)) fundTotals)))
     = voluntaryResult"
  by code_simp

lemma final_rollover:
  "roundResults (premiumTotals (Fin 900) (Fin 0) (Fin 0)
       (derivedTotals (applyFund (Fin 10) (Fin 0) (Fin (3 / 8)) (Fin 0) fundTotals)))
     = rolloverResult"
  by code_simp

lemma final_wholeFund:
  "roundResults (premiumTotals (Fin 900) (Fin 0) (Fin 5)
       (derivedTotals (applyFund (Fin 10) (Fin 30) (Fin 20) (Fin 5) fundTotals)))
     = wholeFundResult"
  by code_simp

lemma final_family:
  "roundResults (premiumTotals (Fin 2400) (Fin 0) (Fin 0)
       (derivedTotals (applyFund (Fin 0) (Fin 0) (Fin 0) (Fin 0) familyTotals))) = familyResult"
  by code_simp

lemma final_therapy:
  "roundResults (premiumTotals (Fin 900) (Fin 0) (Fin 0)
       (derivedTotals (applyFund (Fin 0) (Fin 0) (Fin 0) (Fin 0) therapyTotals))) = therapyResult"
  by code_simp

lemma example_lookups:
  assumes "c = markedExampleConfig pl svcs w n"
  shows "map_of (plans c) ''P'' = Some pl"
    and "premiumOf c ''P'' ''R'' ''S'' ''single'' = Some (Fin 900)"
    and "premiumOf c ''P'' ''R'' ''S'' ''family'' = Some (Fin 2400)"
  by (simp_all add: assms markedExampleConfig_fields premiumOf_single premiumOf_family)

lemma calculateSinglePlan_halfCent:
  "calculateSinglePlan markedHalfCentConfig ''P'' ''R'' ''S'' ''single'' [[(''visit'', Fin 2)]]
       (Fin 0) (Fin 0) (Fin 0) (Fin 0) = Some (markedHalfCentConfig, halfCentResult)"
  using calculateSinglePlan_eval [OF planTotals_halfCent
      example_lookups(1) [OF markedHalfCentConfig_def] planFundAmountOf_none(1)
      example_lookups(2) [OF markedHalfCentConfig_def]]
  by (simp only: final_halfCent)

lemma calculateSinglePlan_fund:
  "calculateSinglePlan markedFundConfig ''P'' ''R'' ''S'' ''single'' [[(''visit'', Fin 2)]]
       ro vo adj ma
     = Some (markedFundConfig,
         roundResults (premiumTotals (Fin 900) adj vo
           (derivedTotals (applyFund (Fin 10) ma ro vo fundTotals))))"
  by (rule calculateSinglePlan_eval [OF planTotals_fund
      example_lookups(1) [OF markedFundConfig_def] planFundAmountOf_fund
      example_lookups(2) [OF markedFundConfig_def]])

lemma markedFamilyConfig_example:
  "markedFamilyConfig = markedExampleConfig (withGroupMaps [(''care'', ''general'')] familyPlan)
       [(''visit'', serviceIn (Some ''care'') 80
                     [noRule\<lparr> copay := Some (Fin 50), eligibleForFund := Some False \<rparr>]),
        (''hospital'', serviceIn (Some ''care'') 1000
           [noRule\<lparr> coinsurance := Some (Fin (1 / 5)), eligibleForFund := Some False \<rparr>])]
       [''visit'', ''hospital''] []"
  by (simp add: markedFamilyConfig_def familyConfigWith_def)

lemma calculateSinglePlan_family:
  "calculateSinglePlan markedFamilyConfig ''P'' ''R'' ''S'' ''family'' familyServices
       (Fin 0) (Fin 0) (Fin 0) (Fin 0) = Some (markedFamilyConfig, familyResult)"
  using calculateSinglePlan_eval [OF planTotals_family
      example_lookups(1) [OF markedFamilyConfig_example] planFundAmountOf_none(2)
      example_lookups(3) [OF markedFamilyConfig_example]]
  by (simp only: final_family)

lemma calculateSinglePlan_therapy:
  "calculateSinglePlan markedTherapyConfig ''P'' ''R'' ''S'' ''single'' [[(''therapy'', Fin 3)]]
       (Fin 0) (Fin 0) (Fin 0) (Fin 0) = Some (usedTherapyConfig, therapyResult)"
  using calculateSinglePlan_eval [OF planTotals_therapy
      example_lookups(1) [OF usedTherapyConfig_def] planFundAmountOf_none(1)
      example_lookups(2) [OF usedTherapyConfig_def]]
  by (simp only: final_therapy)

lemma calculate_single:
  assumes "c = markedExampleConfig pl svcs w n"
    and "maybeMarkupConfig c = Some c"
    and "calculateSinglePlan c ''P'' ''R'' ''S'' ''single'' [ps]
           (amountForPlan (fundRolloverAmounts pa) ''P'')
           (amountForPlan (voluntaryFundContributionAmounts pa) ''P'')
           (amountForPlan (premiumAdjustmentAmounts pa) ''P'')
           (amountForPlan (planFundAdditionalMatchAmounts pa) ''P'') = Some (config', r)"
  shows "calculate c ''R'' ''S'' (Some ps) None (Some []) pa = Some (config', Inr [r])"
  using assms(2,3) unfolding assms(1)
  by (simp add: calculate_def markedExampleConfig_fields determineCoverageLevel_single)

lemma calculate_family:
  assumes "c = markedExampleConfig pl svcs w n"
    and "maybeMarkupConfig c = Some c"
    and "calculateSinglePlan c ''P'' ''R'' ''S'' ''family'' [ps, ss, cs]
           (amountForPlan (fundRolloverAmounts pa) ''P'')
           (amountForPlan (voluntaryFundContributionAmounts pa) ''P'')
           (amountForPlan (premiumAdjustmentAmounts pa) ''P'')
           (amountForPlan (planFundAdditionalMatchAmounts pa) ''P'') = Some (config', r)"
  shows "calculate c ''R'' ''S'' (Some ps) (Some ss) (Some [cs]) pa = Some (config', Inr [r])"
  using assms(2,3) unfolding assms(1)
  by (simp add: calculate_def markedExampleConfig_fields determineCoverageLevel_family)

lemma calculate_halfCent:
  "calculate markedHalfCentConfig ''R'' ''S'' (Some [(''visit'', Fin 2)]) None (Some []) noAmounts
     = Some (markedHalfCentConfig, Inr [halfCentResult])"
  by (rule calculate_single [OF markedHalfCentConfig_def markup_halfCent_again])
    (simp add: noAmounts_def amountForPlan_simps calculateSinglePlan_halfCent)

lemma calculate_voluntary:
  "calculate markedFundConfig ''R'' ''S'' (Some [(''visit'', Fin 2)]) None (Some [])
       (noAmounts\<lparr> voluntaryFundContributionAmounts := Some [(''P'', Fin (3 / 8))] \<rparr>)
     = Some (markedFundConfig, Inr [voluntaryResult])"
  by (rule calculate_single [OF markedFundConfig_def markup_fund_again])
    (simp add: noAmounts_def amountForPlan_simps calculateSinglePlan_fund final_voluntary)

lemma calculate_rollover:
  "calculate markedFundConfig ''R'' ''S'' (Some [(''visit'', Fin 2)]) None (Some [])
       (noAmounts\<lparr> fundRolloverAmounts := Some [(''P'', Fin (3 / 8))] \<rparr>)
     = Some (markedFundConfig, Inr [rolloverResult])"
  by (rule calculate_single [OF markedFundConfig_def markup_fund_again])
    (simp add: noAmounts_def amountForPlan_simps calculateSinglePlan_fund final_rollover)

lemma calculate_familyExample:
  "calculate markedFamilyConfig ''R'' ''S'' (Some [(''visit'', Fin 2)]) (Some [(''visit'', Fin 2)])
       (Some [[(''hospital'', Fin 1)]]) noAmounts
     = Some (markedFamilyConfig, Inr [familyResult])"
  by (rule calculate_family [OF markedFamilyConfig_example markup_family_again])
    (simp add: noAmounts_def amountForPlan_simps calculateSinglePlan_family [unfolded familyServices_def])


section \<open>MPCE: properties\<close>

subsection \<open>The accounting identity\<close>

text \<open>
  C1, as stated, fails. Two visits at 0.375 of which the plan covers one: the expenses not
  covered are 0.375. They are rounded to 0.38, the plan's share 0.75 - 0.375 is rounded to
  0.38 as well, and the raw expenses stay 0.75: the five amounts add up to 0.76.
\<close>

theorem accounting_identity_off_by_a_cent:
  "calculate markedHalfCentConfig ''R'' ''S'' (Some [(''visit'', Fin 2)]) None (Some []) noAmounts
     = Some (markedHalfCentConfig, Inr [halfCentResult])
   \<and> accountedFor halfCentResult = Fin (19 / 25)
   \<and> totalRawExpenses halfCentResult = Fin (3 / 4)"
  by (simp add: calculate_halfCent) (simp add: accountedFor_def halfCentResult_def newResult_def)

text \<open>
  C1, amended. In a plan result the deductibles are the total as accumulated; the copays, the
  coinsurance, the expenses not covered and the raw expenses are the totals as accumulated,
  each rounded to cents on its own; and the plan's share is the raw expenses minus the four
  other amounts, computed on the totals as accumulated and then rounded to cents. So the five
  amounts of the result add up to its raw expenses up to these roundings only: when the
  amounts are moderate, within three cents. (Half a cent for each of the five roundings; the
  rest of the bound, and the restriction to moderate amounts, leave room for the binary
  rounding of the operations, which is not modelled.)
\<close>

theorem plan_result_identity_within_three_cents:
  assumes "calculateSinglePlan config pid rid stid clid people ro vo adj ma = Some (config', r)"
    and "moderate (totalDeductibles r)" and "moderate (totalCopays r)"
    and "moderate (totalCoinsurance r)" and "moderate (totalExpensesNotCovered r)"
    and "moderate (totalRawExpenses r)"
  shows "\<exists>t d c i e p w.
           planTotals config pid rid stid clid people = Some (config', t)
         \<and> totalDeductibles r = totalDeductibles t
         \<and> totalCopays r = round_cents (totalCopays t)
         \<and> totalCoinsurance r = round_cents (totalCoinsurance t)
         \<and> totalExpensesNotCovered r = round_cents (totalExpensesNotCovered t)
         \<and> totalRawExpenses r = round_cents (totalRawExpenses t)
         \<and> totalEmployerOrPlanPaidExcludingFund r
             = round_cents (js_sub (totalRawExpenses t)
                 (js_add (js_add (js_add (totalDeductibles t) (totalCopays t))
                    (totalCoinsurance t)) (totalExpensesNotCovered t)))
         \<and> totalDeductibles r = Fin d \<and> totalCopays r = Fin c \<and> totalCoinsurance r = Fin i
         \<and> totalExpensesNotCovered r = Fin e
         \<and> totalEmployerOrPlanPaidExcludingFund r = Fin p \<and> totalRawExpenses r = Fin w
         \<and> \<bar>d + c + i + e + p - w\<bar> \<le> 3 / 100"
proof -
  from assms(1) obtain t pl pf premium where
    pt: "planTotals config pid rid stid clid people = Some (config', t)"
    and r: "r = roundResults (premiumTotals premium adj vo (derivedTotals (applyFund pf ma ro vo t)))"
    by (rule calculateSinglePlan_result)
  note f = final_accounting_fields [OF r]
  from assms(2-6) have "is_fin (totalDeductibles t)" "is_fin (totalCopays t)"
    "is_fin (totalCoinsurance t)" "is_fin (totalExpensesNotCovered t)"
    "is_fin (totalRawExpenses t)"
    using moderate_fin [OF assms(2)] moderate_fin [OF assms(3)] moderate_fin [OF assms(4)]
      moderate_fin [OF assms(5)] moderate_fin [OF assms(6)]
    by (simp_all add: f)
  then obtain D C I E W where
    t: "totalDeductibles t = Fin D" "totalCopays t = Fin C" "totalCoinsurance t = Fin I"
       "totalExpensesNotCovered t = Fin E" "totalRawExpenses t = Fin W"
    unfolding is_fin_iff by blast
  have fields: "totalDeductibles r = Fin D" "totalCopays r = Fin (nearest_cent C)"
    "totalCoinsurance r = Fin (nearest_cent I)"
    "totalExpensesNotCovered r = Fin (nearest_cent E)"
    "totalRawExpenses r = Fin (nearest_cent W)"
    "totalEmployerOrPlanPaidExcludingFund r = Fin (nearest_cent (W - (D + C + I + E)))"
    by (simp_all only: f t round_cents_Fin js_sub_Fin js_add.simps(1))
  from nearest_cent_error [of C] nearest_cent_error [of I] nearest_cent_error [of E]
    nearest_cent_error [of W] nearest_cent_error [of "W - (D + C + I + E)"]
  have "\<bar>D + nearest_cent C + nearest_cent I + nearest_cent E
          + nearest_cent (W - (D + C + I + E)) - nearest_cent W\<bar> \<le> 3 / 100"
    by linarith
  with pt f(1-6) fields show ?thesis by blast
qed

theorem plan_result_identity_witness:
  "calculateSinglePlan markedTherapyConfig ''P'' ''R'' ''S'' ''single'' [[(''therapy'', Fin 3)]]
       (Fin 0) (Fin 0) (Fin 0) (Fin 0) = Some (usedTherapyConfig, therapyResult)
   \<and> moderate (totalDeductibles therapyResult) \<and> moderate (totalCopays therapyResult)
   \<and> moderate (totalCoinsurance therapyResult)
   \<and> moderate (totalExpensesNotCovered therapyResult)
   \<and> moderate (totalRawExpenses therapyResult)
   \<and> (\<exists>p. totalEmployerOrPlanPaidExcludingFund therapyResult = Fin p
          \<and> \<bar>0 + 0 + 20 + 20 + p - 120\<bar> \<le> 3 / 100)"
proof -
  have m: "moderate (totalDeductibles therapyResult)" "moderate (totalCopays therapyResult)"
    "moderate (totalCoinsurance therapyResult)" "moderate (totalExpensesNotCovered therapyResult)"
    "moderate (totalRawExpenses therapyResult)"
    by (simp_all add: therapyResult_def therapyTotals_def newResult_def)
  have v: "totalDeductibles therapyResult = Fin 0" "totalCopays therapyResult = Fin 0"
    "totalCoinsurance therapyResult = Fin 20" "totalExpensesNotCovered therapyResult = Fin 20"
    "totalRawExpenses therapyResult = Fin 120"
    by (simp_all add: therapyResult_def therapyTotals_def newResult_def)
  from plan_result_identity_within_three_cents [OF calculateSinglePlan_therapy m]
  obtain d c i e p w where
    "totalDeductibles therapyResult = Fin d" "totalCopays therapyResult = Fin c"
    "totalCoinsurance therapyResult = Fin i" "totalExpensesNotCovered therapyResult = Fin e"
    "totalEmployerOrPlanPaidExcludingFund therapyResult = Fin p"
    "totalRawExpenses therapyResult = Fin w"
    "\<bar>d + c + i + e + p - w\<bar> \<le> 3 / 100"
    by blast
  with v have "totalEmployerOrPlanPaidExcludingFund therapyResult = Fin p
      \<and> \<bar>0 + 0 + 20 + 20 + p - 120\<bar> \<le> 3 / 100"
    by simp
  with m show ?thesis by (auto simp: calculateSinglePlan_therapy)
qed

subsection \<open>The fund\<close>

text \<open>
  C3, as stated, fails. With a plan fund of 10, fund-eligible costs of 100 and a voluntary
  contribution of 0.375, the offset returned is 10.38, the minimum of the claim is 10.375.
\<close>

theorem fund_offset_is_rounded:
  "calculate markedFundConfig ''R'' ''S'' (Some [(''visit'', Fin 2)]) None (Some [])
       (noAmounts\<lparr> voluntaryFundContributionAmounts := Some [(''P'', Fin (3 / 8))] \<rparr>)
     = Some (markedFundConfig, Inr [voluntaryResult])
   \<and> planFundAmountOf (withGroupMaps [] fundPlan) ''R'' ''S'' ''single'' = Some (Fin 10)
   \<and> totalFundAmountOffset voluntaryResult = Fin (519 / 50)
   \<and> js_min (totalFundEligibleCosts voluntaryResult)
        (js_add (js_add (js_add (Fin 10) (Fin 0)) (Fin 0)) (Fin (3 / 8))) = Fin (83 / 8)"
  by (simp add: calculate_voluntary planFundAmountOf_fund)
    (simp add: voluntaryResult_def fundTotals_def newResult_def)

text \<open>
  C3, amended. When the plan's fund amount, the additional match, the rollover, the voluntary
  contribution and the fund-eligible costs are moderate, and the match and the rollover are
  not negative: the offset of the result is the minimum of its fund-eligible costs and of the
  sum of the four sources rounded to cents; the four amounts paid add up to the offset within
  three cents; the match pays something only if the plan fund is paid in full, the rollover
  pays half a cent or more only if the plan fund and the match are paid in full, the voluntary
  contribution pays something only if the three sources before it are paid in full (an amount
  paid in full is the source rounded to cents, for the rollover the source itself, as
  \<open>rolloverFundPaid\<close> is not rounded); and the carryover is the sum of the four sources minus
  the offset, within two cents. (The tolerances are half a cent for each rounding involved;
  the rest, and the restriction to moderate amounts, leave room for the binary rounding of
  the operations, which is not modelled.)
\<close>

theorem fund_offset_up_to_rounding:
  assumes csp: "calculateSinglePlan config pid rid stid clid people ro vo adj ma = Some (config', r)"
    and pl: "map_of (plans config') pid = Some pl"
    and pf: "planFundAmountOf pl rid stid clid = Some pf"
    and moderate: "moderate pf" "moderate ma" "moderate ro" "moderate vo"
      "moderate (totalFundEligibleCosts r)"
    and nonneg: "js_ge ma (Fin 0)" "js_ge ro (Fin 0)"
  shows "totalFundAmountOffset r
           = js_min (totalFundEligibleCosts r)
               (round_cents (js_add (js_add (js_add pf ma) ro) vo))
     \<and> (\<exists>off p m x v a.
           totalFundAmountOffset r = Fin off \<and> planFundPaid r = Fin p
         \<and> planFundAdditionalMatchPaid r = Fin m \<and> rolloverFundPaid r = Fin x
         \<and> voluntaryFundPaid r = Fin v
         \<and> js_add (js_add (js_add pf ma) ro) vo = Fin a
         \<and> \<bar>p + m + x + v - off\<bar> \<le> 3 / 100
         \<and> (\<exists>b. fundCarryoverBalance r = Fin b \<and> \<bar>b - (a - off)\<bar> \<le> 2 / 100))
     \<and> (planFundAdditionalMatchPaid r \<noteq> Fin 0 \<longrightarrow> planFundPaid r = round_cents pf)
     \<and> (js_ge (rolloverFundPaid r) (Fin (1 / 200)) \<longrightarrow>
           planFundPaid r = round_cents pf \<and> planFundAdditionalMatchPaid r = round_cents ma)
     \<and> (voluntaryFundPaid r \<noteq> Fin 0 \<longrightarrow>
           planFundPaid r = round_cents pf \<and> planFundAdditionalMatchPaid r = round_cents ma
           \<and> rolloverFundPaid r = ro)"
proof -
  from csp obtain t pl' pf' premium where
    "map_of (plans config') pid = Some pl'"
    "planFundAmountOf pl' rid stid clid = Some pf'"
    and r': "r = roundResults (premiumTotals premium adj vo (derivedTotals (applyFund pf' ma ro vo t)))"
    by (rule calculateSinglePlan_result)
  with pl pf have
    r: "r = roundResults (premiumTotals premium adj vo (derivedTotals (applyFund pf ma ro vo t)))"
    by simp
  note ff = final_fund_fields [OF r]
  from moderate_fin [OF moderate(5)] have "is_fin (totalFundEligibleCosts t)"
    by (simp add: ff applyFund_fields)
  with moderate(1-4) obtain a b c d e where
    v: "pf = Fin a" "ma = Fin b" "ro = Fin c" "vo = Fin d" "totalFundEligibleCosts t = Fin e"
    by (auto simp: is_fin_iff dest!: moderate_fin)
  from nonneg have nn: "0 \<le> b" "0 \<le> c" by (simp_all add: v)
  define off where "off = min e (a + b + c + d)"
  define p where "p = min off a"
  define mp where "mp = min (off - p) b"
  define rp where "rp = min (off - (p + mp)) c"
  define vp where "vp = off - (p + mp + rp)"
  have fs: "p + mp + rp + vp = off" "mp \<noteq> 0 \<longrightarrow> p = a"
    "rp \<noteq> 0 \<longrightarrow> p = a \<and> mp = b" "vp \<noteq> 0 \<longrightarrow> p = a \<and> mp = b \<and> rp = c"
    unfolding vp_def rp_def mp_def p_def off_def by (rule fund_split [OF nn])+
  note af = applyFund_Fin [OF v(5), of a b c d]
  have fields:
    "totalFundEligibleCosts r = Fin (nearest_cent e)"
    "totalFundAmountOffset r = Fin (nearest_cent off)"
    "planFundPaid r = Fin (nearest_cent p)"
    "planFundAdditionalMatchPaid r = Fin (nearest_cent mp)"
    "rolloverFundPaid r = Fin rp"
    "voluntaryFundPaid r = Fin (nearest_cent vp)"
    "fundCarryoverBalance r = Fin (nearest_cent (a + b + c + d - off))"
    unfolding vp_def rp_def mp_def p_def off_def
    by (simp_all only: ff v af applyFund_fields round_cents_Fin)
  have total: "js_add (js_add (js_add pf ma) ro) vo = Fin (a + b + c + d)"
    by (simp add: v)
  have g1: "totalFundAmountOffset r
      = js_min (totalFundEligibleCosts r) (round_cents (js_add (js_add (js_add pf ma) ro) vo))"
    by (simp add: fields total round_cents_Fin off_def nearest_cent_min)
  from nearest_cent_error [of p] nearest_cent_error [of mp] nearest_cent_error [of vp]
    nearest_cent_error [of off] fs(1)
  have sum: "\<bar>nearest_cent p + nearest_cent mp + rp + nearest_cent vp - nearest_cent off\<bar>
      \<le> 3 / 100"
    by linarith
  from nearest_cent_error [of "a + b + c + d - off"] nearest_cent_error [of off]
  have carry: "\<bar>nearest_cent (a + b + c + d - off) - (a + b + c + d - nearest_cent off)\<bar>
      \<le> 2 / 100"
    by linarith
  have g2: "\<exists>off p m x v a.
           totalFundAmountOffset r = Fin off \<and> planFundPaid r = Fin p
         \<and> planFundAdditionalMatchPaid r = Fin m \<and> rolloverFundPaid r = Fin x
         \<and> voluntaryFundPaid r = Fin v
         \<and> js_add (js_add (js_add pf ma) ro) vo = Fin a
         \<and> \<bar>p + m + x + v - off\<bar> \<le> 3 / 100
         \<and> (\<exists>b. fundCarryoverBalance r = Fin b \<and> \<bar>b - (a - off)\<bar> \<le> 2 / 100)"
    using fields total sum carry by blast
  have g3: "planFundAdditionalMatchPaid r \<noteq> Fin 0 \<longrightarrow> planFundPaid r = round_cents pf"
    using fs(2) by (auto simp: fields v round_cents_Fin)
  have g4: "js_ge (rolloverFundPaid r) (Fin (1 / 200)) \<longrightarrow>
      planFundPaid r = round_cents pf \<and> planFundAdditionalMatchPaid r = round_cents ma"
    using fs(3) by (auto simp: fields v round_cents_Fin)
  have g5: "voluntaryFundPaid r \<noteq> Fin 0 \<longrightarrow>
      planFundPaid r = round_cents pf \<and> planFundAdditionalMatchPaid r = round_cents ma
      \<and> rolloverFundPaid r = ro"
    using fs(4) by (auto simp: fields v round_cents_Fin)
  from g1 g2 g3 g4 g5 show ?thesis by blast
qed

theorem fund_offset_witness:
  "calculateSinglePlan markedFundConfig ''P'' ''R'' ''S'' ''single'' [[(''visit'', Fin 2)]]
       (Fin 20) (Fin 5) (Fin 0) (Fin 30) = Some (markedFundConfig, wholeFundResult)
   \<and> planFundAmountOf (withGroupMaps [] fundPlan) ''R'' ''S'' ''single'' = Some (Fin 10)
   \<and> moderate (totalFundEligibleCosts wholeFundResult)
   \<and> js_ge (Fin 30) (Fin 0) \<and> js_ge (Fin 20) (Fin 0)
   \<and> totalFundAmountOffset wholeFundResult = Fin 65
   \<and> planFundAdditionalMatchPaid wholeFundResult \<noteq> Fin 0
   \<and> js_ge (rolloverFundPaid wholeFundResult) (Fin (1 / 200))
   \<and> voluntaryFundPaid wholeFundResult \<noteq> Fin 0
   \<and> planFundPaid wholeFundResult = Fin 10
   \<and> planFundAdditionalMatchPaid wholeFundResult = Fin 30
   \<and> rolloverFundPaid wholeFundResult = Fin 20"
proof -
  have csp: "calculateSinglePlan markedFundConfig ''P'' ''R'' ''S'' ''single''
      [[(''visit'', Fin 2)]] (Fin 20) (Fin 5) (Fin 0) (Fin 30) = Some (markedFundConfig, wholeFundResult)"
    by (simp only: calculateSinglePlan_fund final_wholeFund)
  have v: "voluntaryFundPaid wholeFundResult = Fin 5" "rolloverFundPaid wholeFundResult = Fin 20"
    "planFundAdditionalMatchPaid wholeFundResult = Fin 30"
    "totalFundEligibleCosts wholeFundResult = Fin 100"
    by (simp_all add: wholeFundResult_def fundTotals_def newResult_def)
  have rc: "round_cents (Fin 10) = Fin 10" "round_cents (Fin 30) = Fin 30"
    "round_cents (Fin 65) = Fin 65"
    by code_simp+
  from fund_offset_up_to_rounding [OF csp example_lookups(1) [OF markedFundConfig_def]
      planFundAmountOf_fund]
  have "totalFundAmountOffset wholeFundResult = Fin 65
      \<and> planFundPaid wholeFundResult = Fin 10
      \<and> planFundAdditionalMatchPaid wholeFundResult = Fin 30
      \<and> rolloverFundPaid wholeFundResult = Fin 20"
    by (simp add: v rc)
  then show ?thesis by (simp add: csp v planFundAmountOf_fund)
qed

lemma three_eighths_not_cents: "\<not> whole_cents (3 / 8)"
proof -
  have "\<lfloor>(3 / 8 :: rat) * 100\<rfloor> = 37" by (rule floor_unique) simp_all
  then show ?thesis by (simp add: whole_cents_def)
qed

text \<open>
  C7, as stated, is not what the code does. The list of the properties to round names
  \<open>planRolloverFundPaid\<close>, the property written is \<open>rolloverFundPaid\<close>: with a rollover of
  0.375 the result holds a \<open>rolloverFundPaid\<close> of 0.375, which is not a whole number of
  cents. And in the family example, where the child's deductible is charged to a family
  out-of-pocket maximum that is already used up, the coinsurance of the result is -30.
\<close>

theorem rollover_paid_not_rounded:
  "calculate markedFundConfig ''R'' ''S'' (Some [(''visit'', Fin 2)]) None (Some [])
       (noAmounts\<lparr> fundRolloverAmounts := Some [(''P'', Fin (3 / 8))] \<rparr>)
     = Some (markedFundConfig, Inr [rolloverResult])
   \<and> rolloverFundPaid rolloverResult = Fin (3 / 8)
   \<and> \<not> is_cents (rolloverFundPaid rolloverResult)
   \<and> planRolloverFundPaid rolloverResult = Fin 0
   \<and> calculate markedFamilyConfig ''R'' ''S'' (Some [(''visit'', Fin 2)])
        (Some [(''visit'', Fin 2)]) (Some [[(''hospital'', Fin 1)]]) noAmounts
     = Some (markedFamilyConfig, Inr [familyResult])
   \<and> totalCoinsurance familyResult = Fin (- 30)"
  by (simp add: calculate_rollover calculate_familyExample)
    (simp add: rolloverResult_def familyResult_def familyTotals_def fundTotals_def
      newResult_def three_eighths_not_cents)

subsection \<open>The budgets\<close>

text \<open>
  C2, as stated, is not what the code does. \<open>calculateDeductible\<close> limits the deductible by
  what is left of the deductibles, then charges it to the out-of-pocket groups without looking
  at what is left of them, which \<open>calculateCopay\<close> and \<open>calculateCoinsurance\<close> do. In the
  family plan the two parents use up the family's out-of-pocket maximum of 200; the child's
  deductible of 30 is then charged to it, and 30 below zero is available, at the end of the
  deductible pass and at the end of the evaluation.
\<close>

theorem deductible_overdraws_out_of_pocket:
  "maybeMarkupConfig deductibleOnlyConfig = Some deductibleOnlyConfig
   \<and> map_option (sh_family \<circ> snd)
       (firstPass deductibleOnlyConfig ''P'' ''R'' ''S'' ''family''
          [[(''visit'', Fin 2)], [(''visit'', Fin 2)]])
     = Some (familyBudget 60 30 200 0)
   \<and> calculateDeductible (Fin 1000) PInf
       (personBudget 2 0 30 0 100) (Some ''general'') (Some ''general'')
       (familyBudget 60 30 200 0) (Some ''general'') (Some ''general'')
     = (Fin 30, personBudget 2 30 0 30 70, familyBudget 90 0 230 (- 30))
   \<and> map_option (sh_family \<circ> snd)
       (firstPass deductibleOnlyConfig ''P'' ''R'' ''S'' ''family'' familyServices)
     = Some (familyBudget 90 0 230 (- 30))"
  by code_simp

text \<open>
  C4, as stated, is not what the code does. The loop for \<open>personOutOfPocketMaximums\<close> runs
  the lookup only when the \<open>amountMap\<close> has no key for the region. With the same map keyed by
  region for the person and for the family, the family's budget of the group is 1000, which is
  what the lookup gives, and the person's budget of the group is never set.
\<close>

theorem person_out_of_pocket_region_map:
  "amountMapLookup regionMap ''R'' ''S'' ''single'' = Some (Some (VNum (Fin 1000)))
   \<and> map_option oopsAvailableByGroup
       (initFamilyAmounts regionConfig regionPlan ''R'' ''S'' ''single'')
     = Some [(''general'', Fin 1000)]
   \<and> map_option oopsAvailableByGroup
       (initPersonAmounts regionConfig regionPlan ''R'' ''S'' ''single'' 0)
     = Some []
   \<and> map_option oopsUsedByGroup
       (initPersonAmounts regionConfig regionPlan ''R'' ''S'' ''single'' 0)
     = Some [(''general'', Fin 0)]"
  by code_simp

subsection \<open>A service that is not covered\<close>

text \<open>
  C10. Under a rule with \<open>notCovered\<close> set, \<open>calculateService\<close> returns, with the budgets of
  the person and of the family as they were, no deductible, copay, coinsurance or reimbursed
  amount, and the expenses not covered equal to count times cost. (The groups of the category
  are those of a marked-up configuration; in the budgets, a combined limit that has a used
  amount has an available amount, as they are created.)
\<close>

theorem calculateService_notCovered:
  assumes "sv_coverage service = Some rule"
    and "notCovered rule = Some True"
    and "serviceGroups config pid (sv_categoryId service) = Some g"
    and "limitsPaired p" and "limitsPaired f"
  shows "\<exists>service'. calculateService config pid service p f = Some (service', p, f)
     \<and> sv_deductibles service' = Fin 0 \<and> sv_copays service' = Fin 0
     \<and> sv_coinsurance service' = Fin 0 \<and> sv_reimbursed service' = Fin 0
     \<and> sv_expensesNotCovered service' = js_mul (sv_count service) (sv_cost service)"
  using assms
  by (simp add: calculateService_def Let_def serviceLoop_done chargeLimit_zero
      split: option.splits)

theorem calculateService_notCovered_witness:
  "sv_coverage massageService = Some (noRule\<lparr> notCovered := Some True \<rparr>)
   \<and> serviceGroups markedFundConfig ''P'' (sv_categoryId massageService) = Some noGroups
   \<and> limitsPaired noPersonBudget \<and> limitsPaired noFamilyBudget
   \<and> (\<exists>service'. calculateService markedFundConfig ''P'' massageService
                     noPersonBudget noFamilyBudget
                   = Some (service', noPersonBudget, noFamilyBudget)
        \<and> sv_deductibles service' = Fin 0 \<and> sv_copays service' = Fin 0
        \<and> sv_coinsurance service' = Fin 0 \<and> sv_reimbursed service' = Fin 0
        \<and> sv_expensesNotCovered service' = Fin 120)"
proof -
  have c: "sv_coverage massageService = Some (noRule\<lparr> notCovered := Some True \<rparr>)"
    by (simp add: massageService_def newService_def)
  have n: "notCovered (noRule\<lparr> notCovered := Some True \<rparr>) = Some True" by simp
  have g: "serviceGroups markedFundConfig ''P'' (sv_categoryId massageService) = Some noGroups"
    by code_simp
  have l: "limitsPaired noPersonBudget" "limitsPaired noFamilyBudget"
    by (simp_all add: limitsPaired_def noPersonBudget_def noFamilyBudget_def)
  have m: "js_mul (sv_count massageService) (sv_cost massageService) = Fin 120"
    by (simp add: massageService_def newService_def)
  from calculateService_notCovered [OF c n g l] c g l show ?thesis
    unfolding m by simp
qed

subsection \<open>Errors\<close>










subsection \<open>What \<open>calculate\<close> writes to the configuration\<close>




















section \<open>MPCE: the markup is idempotent\<close>

subsection \<open>Sequences of assignments to an object\<close>

lemma update_map_entry:
  "map_of al k = Some v \<Longrightarrow> AList.update k (f v) al = AList.map_entry k f al"
  by (induction al) auto

lemma map_entry_twice:
  "AList.map_entry k f (AList.map_entry k g al) = AList.map_entry k (f \<circ> g) al"
  by (induction al) auto

lemma map_entry_ident [simp]: "AList.map_entry k (\<lambda>v. v) al = al"
  by (induction al) auto

lemma map_entry_first:
  "map_of al k = Some v \<Longrightarrow> f v = g v \<Longrightarrow> AList.map_entry k f al = AList.map_entry k g al"
  by (induction al) auto

lemma map_fst_map_entry [simp]: "map fst (AList.map_entry k f al) = map fst al"
  by (induction al) auto

lemma applySeq_Nil [simp]: "applySeq g [] al = al"
  by (simp add: applySeq_def)

lemma applySeq_Cons [simp]:
  "applySeq g ((a, k) # steps) al = applySeq g steps (AList.map_entry k (g a) al)"
  by (simp add: applySeq_def)

lemma applySeq_append [simp]:
  "applySeq g (xs @ ys) al = applySeq g ys (applySeq g xs al)"
  by (simp add: applySeq_def)

lemma applySeq_empty [simp]: "applySeq g steps [] = []"
  by (induction steps) auto

lemma map_fst_applySeq [simp]: "map fst (applySeq g steps al) = map fst al"
  by (induction steps arbitrary: al) auto

lemma applySeq_entry:
  "applySeq g steps ((k0, v0) # al)
     = (k0, fold g (map fst (filter (\<lambda>s. snd s = k0) steps)) v0)
       # applySeq g (filter (\<lambda>s. snd s \<noteq> k0) steps) al"
  by (induction steps arbitrary: v0 al) auto

lemma filter_filter_key:
  "map fst (filter (\<lambda>s. snd s = k) (filter (\<lambda>s. snd s \<noteq> k0) steps))
     = (if k = k0 then [] else map fst (filter (\<lambda>s. snd s = k) steps))"
  by (induction steps) auto

lemma applySeq_absorb:
  assumes "\<And>k v. fold g2 (map fst (filter (\<lambda>s. snd s = k) steps2))
                   (fold g1 (map fst (filter (\<lambda>s. snd s = k) steps1)) v)
                 = fold g1 (map fst (filter (\<lambda>s. snd s = k) steps1)) v"
  shows "applySeq g2 steps2 (applySeq g1 steps1 al) = applySeq g1 steps1 al"
  using assms
proof (induction al arbitrary: steps1 steps2)
  case Nil
  then show ?case by simp
next
  case (Cons e al)
  obtain k0 v0 where e: "e = (k0, v0)" by (cases e)
  have "applySeq g2 (filter (\<lambda>s. snd s \<noteq> k0) steps2)
          (applySeq g1 (filter (\<lambda>s. snd s \<noteq> k0) steps1) al)
        = applySeq g1 (filter (\<lambda>s. snd s \<noteq> k0) steps1) al"
  proof (rule Cons.IH)
    fix k v
    show "fold g2 (map fst (filter (\<lambda>s. snd s = k) (filter (\<lambda>s. snd s \<noteq> k0) steps2)))
            (fold g1 (map fst (filter (\<lambda>s. snd s = k) (filter (\<lambda>s. snd s \<noteq> k0) steps1))) v)
          = fold g1 (map fst (filter (\<lambda>s. snd s = k) (filter (\<lambda>s. snd s \<noteq> k0) steps1))) v"
      unfolding filter_filter_key by (simp add: Cons.prems)
  qed
  then show ?case
    by (simp add: e applySeq_entry Cons.prems)
qed

lemma fold_fixed: "(\<And>x. x \<in> set xs \<Longrightarrow> g x u = u) \<Longrightarrow> fold g xs u = u"
  by (induction xs) auto

subsection \<open>The markup of the services, step by step\<close>

lemma markEligible_Some:
  "markEligible p catId rs = Some rs'
   \<Longrightarrow> rs' = map (fillRule (map_option categoriesFundAppliesTo p) catId) rs"
proof (induction rs arbitrary: rs')
  case Nil
  then show ?case by simp
next
  case (Cons r rs)
  then show ?case
    by (cases "eligibleForFund r"; cases p)
      (auto simp: fillRule_def fundFlag_def Let_def split: option.splits)
qed

lemma coreOf_simps [simp]:
  "coreOf (c\<lparr> services := S \<rparr>) = coreOf c"
  "coreOf (c\<lparr> servicesWithDeductibleOrderByPlan := W \<rparr>) = coreOf c"
  "coreOf (c\<lparr> servicesNoDeductibleOrderByPlan := N \<rparr>) = coreOf c"
  by (simp_all add: coreOf_def)

lemma coreOf_fields:
  assumes "coreOf x = coreOf y"
  shows "plans x = plans y" and "categories x = categories y"
    and "categoriesOrder x = categoriesOrder y" and "plansOrder x = plansOrder y"
    and "isMarkedUpAlready x = isMarkedUpAlready y" and "isMarkedUp x = isMarkedUp y"
proof -
  have "plans (coreOf x) = plans (coreOf y)" "categories (coreOf x) = categories (coreOf y)"
    "categoriesOrder (coreOf x) = categoriesOrder (coreOf y)"
    "plansOrder (coreOf x) = plansOrder (coreOf y)"
    "isMarkedUpAlready (coreOf x) = isMarkedUpAlready (coreOf y)"
    "isMarkedUp (coreOf x) = isMarkedUp (coreOf y)"
    by (simp_all only: assms)
  then show "plans x = plans y" and "categories x = categories y"
    and "categoriesOrder x = categoriesOrder y" and "plansOrder x = plansOrder y"
    and "isMarkedUpAlready x = isMarkedUpAlready y" and "isMarkedUp x = isMarkedUp y"
    by (simp_all add: coreOf_def)
qed

lemma coreOf_eq:
  assumes "coreOf x = coreOf y" and "services x = services y"
    and "servicesWithDeductibleOrderByPlan x = servicesWithDeductibleOrderByPlan y"
    and "servicesNoDeductibleOrderByPlan x = servicesNoDeductibleOrderByPlan y"
  shows "x = y"
proof -
  have "x = (coreOf x)\<lparr> services := services x,
      servicesWithDeductibleOrderByPlan := servicesWithDeductibleOrderByPlan x,
      servicesNoDeductibleOrderByPlan := servicesNoDeductibleOrderByPlan x \<rparr>"
    by (simp add: coreOf_def)
  also have "\<dots> = (coreOf y)\<lparr> services := services y,
      servicesWithDeductibleOrderByPlan := servicesWithDeductibleOrderByPlan y,
      servicesNoDeductibleOrderByPlan := servicesNoDeductibleOrderByPlan y \<rparr>"
    by (simp only: assms)
  also have "\<dots> = y" by (simp add: coreOf_def)
  finally show ?thesis .
qed

lemma markupPlan_services:
  assumes "markupPlan catId sid pid x = Some x'"
  shows "services x' = AList.map_entry sid
           (\<lambda>s. s\<lparr> coverage := AList.map_entry pid
                     (fillCoverage (planFlags (plans x) pid) catId) (coverage s) \<rparr>)
           (services x)"
    and "coreOf x' = coreOf x"
proof -
  from assms obtain svc pc rs where
    svc: "map_of (services x) sid = Some svc"
    and pc: "map_of (coverage svc) pid = Some pc"
    and rs: "markEligible (map_of (plans x) pid) catId (rulesOf pc) = Some rs"
    by (auto simp: markupPlan_def split: option.splits)
  let ?f = "fillCoverage (planFlags (plans x) pid) catId"
  let ?g = "\<lambda>s. s\<lparr> coverage := AList.map_entry pid ?f (coverage s) \<rparr>"
  from markEligible_Some [OF rs] have "Array rs = ?f pc"
    by (simp add: fillCoverage_def planFlags_def)
  then have cov: "AList.update pid (Array rs) (coverage svc) = AList.map_entry pid ?f (coverage svc)"
    using update_map_entry [OF pc, of ?f] by simp
  have upd: "AList.update sid (svc\<lparr> coverage := AList.update pid (Array rs) (coverage svc) \<rparr>)
      (services x) = AList.map_entry sid ?g (services x)"
    using update_map_entry [OF svc, of ?g] by (simp add: cov)
  from assms show "services x' = AList.map_entry sid ?g (services x)"
    by (auto simp: markupPlan_def svc pc rs Let_def upd split: if_splits)
  from assms show "coreOf x' = coreOf x"
    by (auto simp: markupPlan_def svc pc rs Let_def split: if_splits)
qed

lemma markupPlans_services:
  "markupPlans catId sid pids x = Some x'
   \<Longrightarrow> services x' = AList.map_entry sid
         (\<lambda>s. s\<lparr> coverage := applySeq (\<lambda>pid. fillCoverage (planFlags (plans x) pid) catId)
                   (map (\<lambda>p. (p, p)) pids) (coverage s) \<rparr>)
         (services x)
     \<and> coreOf x' = coreOf x"
proof (induction pids arbitrary: x)
  case Nil
  from Nil show ?case by simp
next
  case (Cons pid rest)
  from Cons.prems obtain x1 where s: "markupPlan catId sid pid x = Some x1"
    and r: "markupPlans catId sid rest x1 = Some x'"
    by (auto split: option.splits)
  note s1 = markupPlan_services [OF s]
  from coreOf_fields(1) [OF s1(2)] have p: "plans x1 = plans x" .
  from Cons.IH [OF r] s1 show ?case
    by (simp add: p map_entry_twice comp_def)
qed

lemma wrapAll_fst [simp]: "map fst (wrapAll cov) = map fst cov"
  by (induction cov) (auto simp: wrapAll_def)

lemma markupService_services:
  assumes "markupService catId sid x = Some x'"
  shows "services x' = AList.map_entry sid (markSvc (planFlags (plans x)) catId) (services x)"
    and "coreOf x' = coreOf x"
proof -
  from assms obtain svc where svc: "map_of (services x) sid = Some svc"
    by (auto simp: markupService_def split: option.splits)
  let ?w = "\<lambda>s. s\<lparr> categoryId := Some catId, coverage := wrapAll (coverage s) \<rparr>"
  define x0 where "x0 = x\<lparr> services := AList.map_entry sid ?w (services x) \<rparr>"
  have upd: "AList.update sid (?w svc) (services x) = AList.map_entry sid ?w (services x)"
    by (rule update_map_entry [OF svc])
  from assms have "markupPlans catId sid (map fst (coverage (?w svc)))
      (x\<lparr> services := AList.update sid (?w svc) (services x) \<rparr>) = Some x'"
    by (simp add: markupService_def svc Let_def wrapAll_def)
  then have run: "markupPlans catId sid (map fst (coverage svc)) x0 = Some x'"
    by (simp add: upd x0_def)
  let ?h = "\<lambda>s. s\<lparr> categoryId := Some catId,
      coverage := applySeq (\<lambda>pid. fillCoverage (planFlags (plans x) pid) catId)
                    (map (\<lambda>p. (p, p)) (map fst (coverage svc))) (wrapAll (coverage s)) \<rparr>"
  from markupPlans_services [OF run]
  have s: "services x' = AList.map_entry sid ?h (services x)" and c: "coreOf x' = coreOf x"
    by (simp_all add: x0_def map_entry_twice comp_def)
  have "AList.map_entry sid ?h (services x)
      = AList.map_entry sid (markSvc (planFlags (plans x)) catId) (services x)"
    by (rule map_entry_first [OF svc]) (simp add: markSvc_def)
  with s show "services x' = AList.map_entry sid (markSvc (planFlags (plans x)) catId) (services x)"
    by simp
  from c show "coreOf x' = coreOf x" .
qed

lemma markupServices_services:
  "markupServices catId sids x = Some x'
   \<Longrightarrow> services x' = applySeq (markSvc (planFlags (plans x))) (map (Pair catId) sids) (services x)
     \<and> coreOf x' = coreOf x"
proof (induction sids arbitrary: x)
  case Nil
  then show ?case by simp
next
  case (Cons sid rest)
  from Cons.prems obtain x1 where s: "markupService catId sid x = Some x1"
    and r: "markupServices catId rest x1 = Some x'"
    by (auto split: option.splits)
  note s1 = markupService_services [OF s]
  from coreOf_fields(1) [OF s1(2)] have p: "plans x1 = plans x" .
  from Cons.IH [OF r] s1 show ?case by (simp add: p)
qed

lemma markupCategories_services:
  "markupCategories cats x = Some x'
   \<Longrightarrow> services x' = applySeq (markSvc (planFlags (plans x))) (catSeq (categories x) cats)
                        (services x)
     \<and> coreOf x' = coreOf x"
proof (induction cats arbitrary: x)
  case Nil
  then show ?case by (simp add: catSeq_def)
next
  case (Cons catId rest)
  from Cons.prems obtain sids x1 where c: "map_of (categories x) catId = Some sids"
    and s: "markupServices catId sids x = Some x1"
    and r: "markupCategories rest x1 = Some x'"
    by (auto split: option.splits)
  from markupServices_services [OF s]
  have s1: "services x1 = applySeq (markSvc (planFlags (plans x))) (map (Pair catId) sids) (services x)"
    and c1: "coreOf x1 = coreOf x" by simp_all
  from coreOf_fields(1,2) [OF c1] have p: "plans x1 = plans x" "categories x1 = categories x" .
  have seq: "catSeq (categories x) (catId # rest) = map (Pair catId) sids @ catSeq (categories x) rest"
    by (simp add: catSeq_def c)
  from Cons.IH [OF r] s1 c1 show ?case by (simp add: p seq)
qed

subsection \<open>Marking up a service twice\<close>

lemma fillRule_twice [simp]: "fillRule fl b (fillRule fl a r) = fillRule fl a r"
  by (cases "eligibleForFund r"; cases fl) (simp_all add: fillRule_def)

lemma fillCoverage_twice [simp]:
  "fillCoverage fl b (fillCoverage fl a pc) = fillCoverage fl a pc"
  by (simp add: fillCoverage_def)

lemma wrapCoverage_fillCoverage [simp]: "wrapCoverage (fillCoverage fl a pc) = fillCoverage fl a pc"
  by (simp add: fillCoverage_def)

lemma wrapCoverage_twice [simp]: "wrapCoverage (wrapCoverage pc) = wrapCoverage pc"
  by (cases pc) simp_all

lemma wrapAll_arrays: "list_all (\<lambda>e. wrapCoverage (snd e) = snd e) (wrapAll cov)"
  by (induction cov) (auto simp: wrapAll_def)

lemma wrapAll_fixed: "list_all (\<lambda>e. wrapCoverage (snd e) = snd e) cov \<Longrightarrow> wrapAll cov = cov"
  by (induction cov) (auto simp: wrapAll_def)

lemma map_entry_arrays:
  "list_all (\<lambda>e. wrapCoverage (snd e) = snd e) cov
   \<Longrightarrow> list_all (\<lambda>e. wrapCoverage (snd e) = snd e) (AList.map_entry k (fillCoverage fl a) cov)"
  by (induction cov) auto

lemma applySeq_arrays:
  "list_all (\<lambda>e. wrapCoverage (snd e) = snd e) cov
   \<Longrightarrow> list_all (\<lambda>e. wrapCoverage (snd e) = snd e)
         (applySeq (\<lambda>pid. fillCoverage (fl pid) a) steps cov)"
  by (induction steps arbitrary: cov) (auto simp: map_entry_arrays)

lemma fold_fill_absorb:
  assumes "set xs \<subseteq> {k}"
  shows "fold (\<lambda>pid. fillCoverage (fl pid) b) xs (fold (\<lambda>pid. fillCoverage (fl pid) a) xs v)
       = fold (\<lambda>pid. fillCoverage (fl pid) a) xs v"
proof (cases xs rule: rev_cases)
  case Nil
  then show ?thesis by simp
next
  case (snoc ys y)
  with assms have y: "y = k" and all: "\<And>x. x \<in> set xs \<Longrightarrow> x = k" by auto
  have "fold (\<lambda>pid. fillCoverage (fl pid) a) xs v
      = fillCoverage (fl k) a (fold (\<lambda>pid. fillCoverage (fl pid) a) ys v)"
    by (simp add: snoc y)
  moreover have "fold (\<lambda>pid. fillCoverage (fl pid) b) xs (fillCoverage (fl k) a u)
      = fillCoverage (fl k) a u" for u
  proof (rule fold_fixed)
    fix x
    assume "x \<in> set xs"
    then have "x = k" by (rule all)
    then show "fillCoverage (fl x) b (fillCoverage (fl k) a u) = fillCoverage (fl k) a u"
      by simp
  qed
  ultimately show ?thesis by simp
qed

lemma own_keys: "set (map fst (filter (\<lambda>s. snd s = k) (map (\<lambda>p. (p, p)) ps))) \<subseteq> {k}"
  by (induction ps) auto

lemma markSvc_twice:
  "markSvc fl b (markSvc fl a s) = (markSvc fl a s)\<lparr> categoryId := Some b \<rparr>"
proof -
  define K where "K = map (\<lambda>p. (p, p)) (map fst (coverage s))"
  define C where "C = applySeq (\<lambda>pid. fillCoverage (fl pid) a) K (wrapAll (coverage s))"
  have t: "markSvc fl a s = s\<lparr> categoryId := Some a, coverage := C \<rparr>"
    by (simp add: markSvc_def C_def K_def)
  have arr: "list_all (\<lambda>e. wrapCoverage (snd e) = snd e) C"
    unfolding C_def by (rule applySeq_arrays) (rule wrapAll_arrays)
  have keys: "map (\<lambda>p. (p, p)) (map fst C) = K"
    by (simp add: C_def K_def)
  have absorb: "applySeq (\<lambda>pid. fillCoverage (fl pid) b) K C = C"
    unfolding C_def by (rule applySeq_absorb) (unfold K_def, rule fold_fill_absorb, rule own_keys)
  have "markSvc fl b (s\<lparr> categoryId := Some a, coverage := C \<rparr>)
      = s\<lparr> categoryId := Some b, coverage := C \<rparr>"
    unfolding markSvc_def by (simp add: keys wrapAll_fixed [OF arr] absorb del: map_map)
  then show ?thesis by (simp add: t)
qed

lemma markSvc_categoryId [simp]:
  "markSvc fl c (s\<lparr> categoryId := x \<rparr>) = markSvc fl c s"
  "categoryId (markSvc fl c s) = Some c"
  by (simp_all add: markSvc_def)

lemma fold_markSvc:
  "cs \<noteq> [] \<Longrightarrow> fold (markSvc fl) cs v = (markSvc fl (hd cs) v)\<lparr> categoryId := Some (last cs) \<rparr>"
proof (induction cs arbitrary: v)
  case Nil
  then show ?case by simp
next
  case (Cons c rest)
  show ?case
  proof (cases rest)
    case Nil
    have "(markSvc fl c v)\<lparr> categoryId := categoryId (markSvc fl c v) \<rparr> = markSvc fl c v"
      by simp
    then show ?thesis by (simp add: Nil)
  next
    case (Cons c' rest')
    then have "fold (markSvc fl) rest (markSvc fl c v)
        = (markSvc fl (hd rest) (markSvc fl c v))\<lparr> categoryId := Some (last rest) \<rparr>"
      by (intro Cons.IH) simp
    then show ?thesis by (simp add: Cons markSvc_twice)
  qed
qed

lemma fold_markSvc_twice:
  "fold (markSvc fl) cs (fold (markSvc fl) cs v) = fold (markSvc fl) cs v"
proof (cases "cs = []")
  case True
  then show ?thesis by simp
next
  case False
  then show ?thesis by (simp add: fold_markSvc markSvc_twice)
qed

lemma applySeq_markSvc_twice:
  "applySeq (markSvc fl) steps (applySeq (markSvc fl) steps al) = applySeq (markSvc fl) steps al"
  by (rule applySeq_absorb) (rule fold_markSvc_twice)

subsection \<open>Two runs of the markup, side by side\<close>

lemma entriesRel_keys: "entriesRel P xs ys \<Longrightarrow> map fst xs = map fst ys"
  unfolding entriesRel_def by (induction xs ys rule: list_all2_induct) auto

lemma entriesRel_lookup:
  "entriesRel P xs ys \<Longrightarrow> map_of xs k = Some v \<Longrightarrow> \<exists>w. map_of ys k = Some w \<and> P v w"
  unfolding entriesRel_def by (induction xs ys rule: list_all2_induct) (auto split: if_splits)

lemma entriesRel_update:
  "entriesRel P xs ys \<Longrightarrow> P v w \<Longrightarrow> entriesRel P (AList.update k v xs) (AList.update k w ys)"
  unfolding entriesRel_def by (induction xs ys rule: list_all2_induct) auto

lemma entriesRel_refl: "(\<And>v. P v v) \<Longrightarrow> entriesRel P xs xs"
  unfolding entriesRel_def by (induction xs) auto

lemma entriesRel_map_entry_right:
  "entriesRel P xs ys \<Longrightarrow> (\<And>v w. P v w \<Longrightarrow> P v (f w)) \<Longrightarrow> entriesRel P xs (AList.map_entry k f ys)"
  unfolding entriesRel_def by (induction xs ys rule: list_all2_induct) auto

lemma entriesRel_applySeq_right:
  "entriesRel P xs ys \<Longrightarrow> (\<And>a v w. P v w \<Longrightarrow> P v (g a w)) \<Longrightarrow> entriesRel P xs (applySeq g steps ys)"
proof (induction steps arbitrary: ys)
  case Nil
  then show ?case by simp
next
  case (Cons step steps)
  obtain a k where step: "step = (a, k)" by (cases step)
  have "entriesRel P xs (AList.map_entry k (g a) ys)"
    by (rule entriesRel_map_entry_right [OF Cons.prems(1)]) (rule Cons.prems(2))
  from Cons.IH [OF this Cons.prems(2)] show ?case by (simp add: step)
qed

lemma covRel_wrap [simp]:
  "covRel (wrapCoverage pc) pc' = covRel pc pc'"
  "covRel pc (wrapCoverage pc') = covRel pc pc'"
  by (simp_all add: covRel_def)

lemma entriesRel_wrapAll:
  "entriesRel covRel xs ys \<Longrightarrow> entriesRel covRel (wrapAll xs) (wrapAll ys)"
  unfolding entriesRel_def wrapAll_def by (induction xs ys rule: list_all2_induct) auto

lemma entriesRel_wrapAll_right:
  "entriesRel covRel xs ys \<Longrightarrow> entriesRel covRel xs (wrapAll ys)"
  unfolding entriesRel_def wrapAll_def by (induction xs ys rule: list_all2_induct) auto

lemma ruleRel_refl [simp]: "ruleRel r r"
  by (cases "eligibleForFund r") (simp_all add: ruleRel_def)

lemma ruleRel_fillRule: "ruleRel r r' \<Longrightarrow> ruleRel r (fillRule fl a r')"
  by (cases "eligibleForFund r'"; cases fl) (auto simp: ruleRel_def fillRule_def)

lemma covRel_refl [simp]: "covRel pc pc"
  by (simp add: covRel_def list_all2_refl)

lemma covRel_fillCoverage:
  assumes "covRel pc pc'" and "wrapCoverage pc' = pc'"
  shows "covRel pc (fillCoverage fl a pc')"
proof -
  from assms have "list_all2 ruleRel (rulesOf (wrapCoverage pc)) (rulesOf pc')"
    by (simp add: covRel_def)
  then have "list_all2 ruleRel (rulesOf (wrapCoverage pc)) (map (fillRule fl a) (rulesOf pc'))"
    by (simp add: list_all2_map2 list_all2_mono ruleRel_fillRule)
  then show ?thesis by (simp add: covRel_def fillCoverage_def)
qed

lemma markEligible_lockstep:
  assumes "list_all2 ruleRel rs rs'"
    and "markEligible p catId rs = Some out"
    and "map_option categoriesFundAppliesTo p = map_option categoriesFundAppliesTo p'"
  shows "\<exists>out'. markEligible p' catId rs' = Some out' \<and> list_all2 ruleRel out out'"
  using assms
proof (induction rs rs' arbitrary: out rule: list_all2_induct)
  case Nil
  then show ?case by simp
next
  case (Cons r rs r' rs')
  from Cons.prems(1) obtain out0 where t: "markEligible p catId rs = Some out0"
    by (auto split: option.splits simp: Let_def)
  from Cons.IH [OF t Cons.prems(2)] obtain out0' where
    t': "markEligible p' catId rs' = Some out0'" and l: "list_all2 ruleRel out0 out0'"
    by blast
  show ?case
  proof (cases "eligibleForFund r")
    case (Some b)
    with Cons.hyps(1) obtain b' where b': "eligibleForFund r' = Some b'"
      by (auto simp: ruleRel_def)
    from Cons.prems(1) Some t have "out = r # out0" by simp
    with Cons.hyps(1) l have "list_all2 ruleRel out (r' # out0')" by simp
    moreover from t' b' have "markEligible p' catId (r' # rs') = Some (r' # out0')" by simp
    ultimately show ?thesis by blast
  next
    case None
    with Cons.prems(1) obtain pl where pl: "p = Some pl" by (cases p) auto
    with Cons.prems(2) obtain pl' where pl': "p' = Some pl'" by (cases p') auto
    from Cons.prems(1) None t pl obtain e where out: "out = r\<lparr> eligibleForFund := Some e \<rparr> # out0"
      by (auto simp: Let_def)
    show ?thesis
    proof (cases "eligibleForFund r'")
      case None
      define e' where "e' = (case categoriesFundAppliesTo pl' of None \<Rightarrow> False
          | Some m \<Rightarrow> (case map_of m catId of None \<Rightarrow> False | Some b \<Rightarrow> b))"
      from None t' pl' have m: "markEligible p' catId (r' # rs')
          = Some (r'\<lparr> eligibleForFund := Some e' \<rparr> # out0')"
        by (simp add: Let_def e'_def)
      from Cons.hyps(1) have "ruleRel (r\<lparr> eligibleForFund := Some e \<rparr>)
          (r'\<lparr> eligibleForFund := Some e' \<rparr>)"
        by (simp add: ruleRel_def)
      with out l have "list_all2 ruleRel out (r'\<lparr> eligibleForFund := Some e' \<rparr> # out0')"
        by simp
      with m show ?thesis by blast
    next
      case (Some b')
      with t' have m: "markEligible p' catId (r' # rs') = Some (r' # out0')" by simp
      from Cons.hyps(1) Some have "ruleRel (r\<lparr> eligibleForFund := Some e \<rparr>) r'"
        by (simp add: ruleRel_def)
      with out l have "list_all2 ruleRel out (r' # out0')" by simp
      with m show ?thesis by blast
    qed
  qed
qed

lemma hasDeductible_rel: "list_all2 ruleRel rs rs' \<Longrightarrow> hasDeductible rs = hasDeductible rs'"
  unfolding hasDeductible_def by (induction rs rs' rule: list_all2_induct) (auto simp: ruleRel_def)

lemma list_all_update:
  "list_all Q al \<Longrightarrow> Q (k, v) \<Longrightarrow> list_all Q (AList.update k v al)"
  by (induction al) auto

lemma list_all_lookup: "list_all Q al \<Longrightarrow> map_of al k = Some v \<Longrightarrow> Q (k, v)"
  by (induction al) (auto split: if_splits)

lemma arraysAt_orders [simp]:
  "arraysAt sid (c\<lparr> servicesWithDeductibleOrderByPlan := W \<rparr>) = arraysAt sid c"
  "arraysAt sid (c\<lparr> servicesNoDeductibleOrderByPlan := N \<rparr>) = arraysAt sid c"
  by (simp_all add: arraysAt_def)

lemma cfgRel_orders:
  "cfgRel x y \<Longrightarrow> cfgRel (x\<lparr> servicesWithDeductibleOrderByPlan := m \<rparr>)
                          (y\<lparr> servicesWithDeductibleOrderByPlan := m \<rparr>)"
  "cfgRel x y \<Longrightarrow> cfgRel (x\<lparr> servicesNoDeductibleOrderByPlan := m \<rparr>)
                          (y\<lparr> servicesNoDeductibleOrderByPlan := m \<rparr>)"
  by (simp_all add: cfgRel_def)

lemma cfgRel_services:
  "cfgRel x y \<Longrightarrow> entriesRel svcRel S T \<Longrightarrow> cfgRel (x\<lparr> services := S \<rparr>) (y\<lparr> services := T \<rparr>)"
  by (simp add: cfgRel_def)

lemma markupPlan_lockstep:
  assumes rel: "cfgRel x y" and ax: "arraysAt sid x" and ay: "arraysAt sid y"
    and run: "markupPlan catId sid pid x = Some x'"
  shows "\<exists>y'. markupPlan catId sid pid y = Some y' \<and> cfgRel x' y'
            \<and> arraysAt sid x' \<and> arraysAt sid y'"
proof -
  from run obtain svc pc rs where
    svc: "map_of (services x) sid = Some svc"
    and pc: "map_of (coverage svc) pid = Some pc"
    and rs: "markEligible (map_of (plans x) pid) catId (rulesOf pc) = Some rs"
    by (auto simp: markupPlan_def split: option.splits)
  from rel have sr: "entriesRel svcRel (services x) (services y)"
    and W: "servicesWithDeductibleOrderByPlan x = servicesWithDeductibleOrderByPlan y"
    and N: "servicesNoDeductibleOrderByPlan x = servicesNoDeductibleOrderByPlan y"
    and fl: "planFlags (plans x) = planFlags (plans y)"
    by (simp_all add: cfgRel_def)
  from entriesRel_lookup [OF sr svc] obtain svc' where
    svc': "map_of (services y) sid = Some svc'" and r1: "svcRel svc svc'" by blast
  from r1 have cr: "entriesRel covRel (coverage svc) (coverage svc')" by (simp add: svcRel_def)
  from entriesRel_lookup [OF cr pc] obtain pc' where
    pc': "map_of (coverage svc') pid = Some pc'" and r2: "covRel pc pc'" by blast
  from ax svc have ax': "list_all (\<lambda>e. wrapCoverage (snd e) = snd e) (coverage svc)"
    by (simp add: arraysAt_def)
  from ay svc' have ay': "list_all (\<lambda>e. wrapCoverage (snd e) = snd e) (coverage svc')"
    by (simp add: arraysAt_def)
  from list_all_lookup [OF ax' pc] have w: "wrapCoverage pc = pc" by simp
  from list_all_lookup [OF ay' pc'] have w': "wrapCoverage pc' = pc'" by simp
  from r2 have "list_all2 ruleRel (rulesOf (wrapCoverage pc)) (rulesOf (wrapCoverage pc'))"
    unfolding covRel_def .
  then have rr: "list_all2 ruleRel (rulesOf pc) (rulesOf pc')" by (simp only: w w')
  from fl have "planFlags (plans x) pid = planFlags (plans y) pid" by simp
  then have pf: "map_option categoriesFundAppliesTo (map_of (plans x) pid)
      = map_option categoriesFundAppliesTo (map_of (plans y) pid)"
    by (simp add: planFlags_def)
  from markEligible_lockstep [OF rr rs pf] obtain rs' where
    rs': "markEligible (map_of (plans y) pid) catId (rulesOf pc') = Some rs'"
    and rr': "list_all2 ruleRel rs rs'" by blast
  define nsvc where "nsvc = svc\<lparr> coverage := AList.update pid (Array rs) (coverage svc) \<rparr>"
  define nsvc' where "nsvc' = svc'\<lparr> coverage := AList.update pid (Array rs') (coverage svc') \<rparr>"
  define x1 where "x1 = x\<lparr> services := AList.update sid nsvc (services x) \<rparr>"
  define y1 where "y1 = y\<lparr> services := AList.update sid nsvc' (services y) \<rparr>"
  have run_x: "markupPlan catId sid pid x =
      (if hasDeductible rs then
         map_option (\<lambda>m. x1\<lparr> servicesWithDeductibleOrderByPlan := m \<rparr>)
           (pushOrder pid sid (servicesWithDeductibleOrderByPlan x))
       else
         map_option (\<lambda>m. x1\<lparr> servicesNoDeductibleOrderByPlan := m \<rparr>)
           (pushOrder pid sid (servicesNoDeductibleOrderByPlan x)))"
    by (simp add: markupPlan_def svc pc rs Let_def x1_def nsvc_def)
  have run_y: "markupPlan catId sid pid y =
      (if hasDeductible rs' then
         map_option (\<lambda>m. y1\<lparr> servicesWithDeductibleOrderByPlan := m \<rparr>)
           (pushOrder pid sid (servicesWithDeductibleOrderByPlan y))
       else
         map_option (\<lambda>m. y1\<lparr> servicesNoDeductibleOrderByPlan := m \<rparr>)
           (pushOrder pid sid (servicesNoDeductibleOrderByPlan y)))"
    by (simp add: markupPlan_def svc' pc' rs' Let_def y1_def nsvc'_def)
  have hd: "hasDeductible rs' = hasDeductible rs" by (rule hasDeductible_rel [OF rr', symmetric])
  have "covRel (Array rs) (Array rs')" using rr' by (simp add: covRel_def)
  then have "entriesRel covRel (AList.update pid (Array rs) (coverage svc))
      (AList.update pid (Array rs') (coverage svc'))"
    by (rule entriesRel_update [OF cr])
  then have nrel: "svcRel nsvc nsvc'" by (simp add: svcRel_def nsvc_def nsvc'_def)
  have rel1: "cfgRel x1 y1"
    unfolding x1_def y1_def by (rule cfgRel_services [OF rel entriesRel_update [OF sr nrel]])
  have "list_all (\<lambda>e. wrapCoverage (snd e) = snd e) (coverage nsvc)"
    unfolding nsvc_def using ax' by (simp add: list_all_update)
  then have ax1: "arraysAt sid x1" by (simp add: arraysAt_def x1_def update_conv')
  have "list_all (\<lambda>e. wrapCoverage (snd e) = snd e) (coverage nsvc')"
    unfolding nsvc'_def using ay' by (simp add: list_all_update)
  then have ay1: "arraysAt sid y1" by (simp add: arraysAt_def y1_def update_conv')
  show ?thesis
  proof (cases "hasDeductible rs")
    case True
    with run run_x obtain m where
      m: "pushOrder pid sid (servicesWithDeductibleOrderByPlan x) = Some m"
      and x': "x' = x1\<lparr> servicesWithDeductibleOrderByPlan := m \<rparr>"
      by auto
    from run_y True hd m W
    have "markupPlan catId sid pid y = Some (y1\<lparr> servicesWithDeductibleOrderByPlan := m \<rparr>)"
      by simp
    with x' cfgRel_orders(1) [OF rel1] ax1 ay1 show ?thesis by simp
  next
    case False
    with run run_x obtain m where
      m: "pushOrder pid sid (servicesNoDeductibleOrderByPlan x) = Some m"
      and x': "x' = x1\<lparr> servicesNoDeductibleOrderByPlan := m \<rparr>"
      by auto
    from run_y False hd m N
    have "markupPlan catId sid pid y = Some (y1\<lparr> servicesNoDeductibleOrderByPlan := m \<rparr>)"
      by simp
    with x' cfgRel_orders(2) [OF rel1] ax1 ay1 show ?thesis by simp
  qed
qed

lemma markupPlans_lockstep:
  "markupPlans catId sid pids x = Some x' \<Longrightarrow> cfgRel x y \<Longrightarrow> arraysAt sid x \<Longrightarrow> arraysAt sid y
   \<Longrightarrow> \<exists>y'. markupPlans catId sid pids y = Some y' \<and> cfgRel x' y'"
proof (induction pids arbitrary: x y)
  case Nil
  then show ?case by simp
next
  case (Cons pid rest)
  from Cons.prems(1) obtain x1 where s: "markupPlan catId sid pid x = Some x1"
    and r: "markupPlans catId sid rest x1 = Some x'"
    by (auto split: option.splits)
  from markupPlan_lockstep [OF Cons.prems(2,3,4) s] obtain y1 where
    s': "markupPlan catId sid pid y = Some y1" and rel: "cfgRel x1 y1"
    and a: "arraysAt sid x1" "arraysAt sid y1" by blast
  from Cons.IH [OF r rel a] obtain y' where
    "markupPlans catId sid rest y1 = Some y'" "cfgRel x' y'" by blast
  with s' show ?case by simp
qed

lemma markupService_lockstep:
  assumes run: "markupService catId sid x = Some x'" and rel: "cfgRel x y"
  shows "\<exists>y'. markupService catId sid y = Some y' \<and> cfgRel x' y'"
proof -
  from run obtain svc where svc: "map_of (services x) sid = Some svc"
    by (auto simp: markupService_def split: option.splits)
  from rel have sr: "entriesRel svcRel (services x) (services y)" by (simp add: cfgRel_def)
  from entriesRel_lookup [OF sr svc] obtain svc' where
    svc': "map_of (services y) sid = Some svc'" and r1: "svcRel svc svc'" by blast
  from r1 have cr: "entriesRel covRel (coverage svc) (coverage svc')" by (simp add: svcRel_def)
  define nsvc where "nsvc = svc\<lparr> categoryId := Some catId, coverage := wrapAll (coverage svc) \<rparr>"
  define nsvc' where "nsvc' = svc'\<lparr> categoryId := Some catId, coverage := wrapAll (coverage svc') \<rparr>"
  define x0 where "x0 = x\<lparr> services := AList.update sid nsvc (services x) \<rparr>"
  define y0 where "y0 = y\<lparr> services := AList.update sid nsvc' (services y) \<rparr>"
  have run_x: "markupService catId sid x = markupPlans catId sid (map fst (coverage svc)) x0"
    by (simp add: markupService_def svc Let_def x0_def nsvc_def wrapAll_def comp_def case_prod_beta)
  have run_y: "markupService catId sid y = markupPlans catId sid (map fst (coverage svc')) y0"
    by (simp add: markupService_def svc' Let_def y0_def nsvc'_def wrapAll_def comp_def case_prod_beta)
  have keys: "map fst (coverage svc') = map fst (coverage svc)"
    by (rule entriesRel_keys [OF cr, symmetric])
  have nrel: "svcRel nsvc nsvc'"
    by (simp add: svcRel_def nsvc_def nsvc'_def entriesRel_wrapAll [OF cr])
  have rel0: "cfgRel x0 y0"
    unfolding x0_def y0_def by (rule cfgRel_services [OF rel entriesRel_update [OF sr nrel]])
  have ax: "arraysAt sid x0"
    by (simp add: arraysAt_def x0_def update_conv' nsvc_def wrapAll_arrays)
  have ay: "arraysAt sid y0"
    by (simp add: arraysAt_def y0_def update_conv' nsvc'_def wrapAll_arrays)
  from run run_x have "markupPlans catId sid (map fst (coverage svc)) x0 = Some x'" by simp
  from markupPlans_lockstep [OF this rel0 ax ay] run_y keys show ?thesis by simp
qed

lemma markupServices_lockstep:
  "markupServices catId sids x = Some x' \<Longrightarrow> cfgRel x y
   \<Longrightarrow> \<exists>y'. markupServices catId sids y = Some y' \<and> cfgRel x' y'"
proof (induction sids arbitrary: x y)
  case Nil
  then show ?case by simp
next
  case (Cons sid rest)
  from Cons.prems(1) obtain x1 where s: "markupService catId sid x = Some x1"
    and r: "markupServices catId rest x1 = Some x'"
    by (auto split: option.splits)
  from markupService_lockstep [OF s Cons.prems(2)] obtain y1 where
    s': "markupService catId sid y = Some y1" and rel: "cfgRel x1 y1" by blast
  from Cons.IH [OF r rel] obtain y' where
    "markupServices catId rest y1 = Some y'" "cfgRel x' y'" by blast
  with s' show ?case by simp
qed

lemma markupCategories_lockstep:
  "markupCategories cats x = Some x' \<Longrightarrow> cfgRel x y
   \<Longrightarrow> \<exists>y'. markupCategories cats y = Some y' \<and> cfgRel x' y'"
proof (induction cats arbitrary: x y)
  case Nil
  then show ?case by simp
next
  case (Cons catId rest)
  from Cons.prems(1) obtain sids x1 where c: "map_of (categories x) catId = Some sids"
    and s: "markupServices catId sids x = Some x1"
    and r: "markupCategories rest x1 = Some x'"
    by (auto split: option.splits)
  from Cons.prems(2) c have c': "map_of (categories y) catId = Some sids"
    by (simp add: cfgRel_def)
  from markupServices_lockstep [OF s Cons.prems(2)] obtain y1 where
    s': "markupServices catId sids y = Some y1" and rel: "cfgRel x1 y1" by blast
  from Cons.IH [OF r rel] obtain y' where
    "markupCategories rest y1 = Some y'" "cfgRel x' y'" by blast
  with s' c' show ?case by simp
qed

lemma entriesRel_mono:
  "entriesRel P xs ys \<Longrightarrow> (\<And>v w. P v w \<Longrightarrow> Q v w) \<Longrightarrow> entriesRel Q xs ys"
  unfolding entriesRel_def by (induction xs ys rule: list_all2_induct) auto

lemma entriesRel_wrapAll_arrays:
  "entriesRel covRel xs ys
   \<Longrightarrow> entriesRel (\<lambda>v w. covRel v w \<and> wrapCoverage w = w) xs (wrapAll ys)"
  unfolding entriesRel_def wrapAll_def by (induction xs ys rule: list_all2_induct) auto

lemma wrapCoverage_fill [simp]: "wrapCoverage (fillCoverage fl a pc) = fillCoverage fl a pc"
  by (simp add: fillCoverage_def)

lemma svcRel_markSvc:
  assumes "svcRel s t"
  shows "svcRel s (markSvc fl catId t)"
proof -
  from assms have "entriesRel covRel (coverage s) (coverage t)" by (simp add: svcRel_def)
  then have "entriesRel (\<lambda>v w. covRel v w \<and> wrapCoverage w = w) (coverage s) (wrapAll (coverage t))"
    by (rule entriesRel_wrapAll_arrays)
  then have "entriesRel (\<lambda>v w. covRel v w \<and> wrapCoverage w = w) (coverage s)
      (applySeq (\<lambda>pid. fillCoverage (fl pid) catId)
         (map (\<lambda>p. (p, p)) (map fst (coverage t))) (wrapAll (coverage t)))"
    by (rule entriesRel_applySeq_right) (simp add: covRel_fillCoverage)
  then have "entriesRel covRel (coverage s)
      (applySeq (\<lambda>pid. fillCoverage (fl pid) catId)
         (map (\<lambda>p. (p, p)) (map fst (coverage t))) (wrapAll (coverage t)))"
    by (rule entriesRel_mono) simp
  then show ?thesis by (simp add: svcRel_def markSvc_def)
qed

lemma svcRel_refl [simp]: "svcRel s s"
  by (simp add: svcRel_def entriesRel_refl)

lemma services_marked_rel:
  "entriesRel svcRel al (applySeq (markSvc fl) steps al)"
  by (rule entriesRel_applySeq_right [OF entriesRel_refl]) (simp_all add: svcRel_markSvc)

subsection \<open>The maps from categories to groups\<close>

lemma planFlags_update:
  assumes "map_of ps pid = Some pl" and "categoriesFundAppliesTo pl' = categoriesFundAppliesTo pl"
  shows "planFlags (AList.update pid pl' ps) = planFlags ps"
  using assms by (auto simp: planFlags_def fun_eq_iff update_conv')

lemma makeLimitObjectCategoryToGroupMap_frame:
  assumes fa: "\<And>m p. categoriesFundAppliesTo (setMap m p) = categoriesFundAppliesTo p"
  shows "makeLimitObjectCategoryToGroupMap setMap limitObject pids x = Some x'
   \<Longrightarrow> services x' = services x
     \<and> servicesWithDeductibleOrderByPlan x' = servicesWithDeductibleOrderByPlan x
     \<and> servicesNoDeductibleOrderByPlan x' = servicesNoDeductibleOrderByPlan x
     \<and> categories x' = categories x \<and> categoriesOrder x' = categoriesOrder x
     \<and> plansOrder x' = plansOrder x \<and> isMarkedUpAlready x' = isMarkedUpAlready x
     \<and> planFlags (plans x') = planFlags (plans x)"
proof (induction pids arbitrary: x)
  case Nil
  then show ?case by simp
next
  case (Cons pid rest)
  from Cons.prems obtain pl m where pl: "map_of (plans x) pid = Some pl"
    and r: "makeLimitObjectCategoryToGroupMap setMap limitObject rest
              (x\<lparr> plans := AList.update pid (setMap (Some m) pl) (plans x) \<rparr>) = Some x'"
    by (auto split: option.splits)
  from Cons.IH [OF r] planFlags_update [OF pl fa [of "Some m" pl]] show ?case by simp
qed

lemma groupMapDone_step_same:
  assumes gs: "\<And>m p. getMap (setMap m p) = m"
    and lo: "\<And>m p. limitObject (setMap m p) = limitObject p"
    and pl: "map_of (plans x) pid = Some pl"
    and m: "categoryToGroupMap (categoriesOrder x) (limitObject pl) = Some m"
  shows "groupMapDone getMap limitObject
           (x\<lparr> plans := AList.update pid (setMap (Some m) pl) (plans x) \<rparr>) pid"
    and "groupMapDone getMap limitObject x q
         \<Longrightarrow> groupMapDone getMap limitObject
               (x\<lparr> plans := AList.update pid (setMap (Some m) pl) (plans x) \<rparr>) q"
  using pl m by (auto simp: groupMapDone_def update_conv' gs lo split: option.splits)

lemma groupMapDone_step_other:
  assumes gs: "\<And>m p. getMap (setMap m p) = getMap p"
    and lo: "\<And>m p. limitObject (setMap m p) = limitObject p"
    and pl: "map_of (plans x) pid = Some pl"
  shows "groupMapDone getMap limitObject x q
         \<Longrightarrow> groupMapDone getMap limitObject
               (x\<lparr> plans := AList.update pid (setMap m pl) (plans x) \<rparr>) q"
  using pl by (auto simp: groupMapDone_def update_conv' gs lo split: option.splits)

lemma makeLimitObjectCategoryToGroupMap_done:
  assumes gs: "\<And>m p. getMap (setMap m p) = m"
    and lo: "\<And>m p. limitObject (setMap m p) = limitObject p"
  shows "makeLimitObjectCategoryToGroupMap setMap limitObject pids x = Some x'
   \<Longrightarrow> (\<forall>pid \<in> set pids. groupMapDone getMap limitObject x' pid)
     \<and> (\<forall>q. groupMapDone getMap limitObject x q \<longrightarrow> groupMapDone getMap limitObject x' q)"
proof (induction pids arbitrary: x)
  case Nil
  then show ?case by simp
next
  case (Cons pid rest)
  from Cons.prems obtain pl m where pl: "map_of (plans x) pid = Some pl"
    and m: "categoryToGroupMap (categoriesOrder x) (limitObject pl) = Some m"
    and r: "makeLimitObjectCategoryToGroupMap setMap limitObject rest
              (x\<lparr> plans := AList.update pid (setMap (Some m) pl) (plans x) \<rparr>) = Some x'"
    by (auto split: option.splits)
  from Cons.IH [OF r] groupMapDone_step_same [of getMap setMap limitObject, OF gs lo pl m]
  show ?case by auto
qed

lemma makeLimitObjectCategoryToGroupMap_keeps:
  assumes gs: "\<And>m p. getMap (setMap m p) = getMap p"
    and lo: "\<And>m p. limitObject (setMap m p) = limitObject p"
  shows "makeLimitObjectCategoryToGroupMap setMap limitObject2 pids x = Some x'
   \<Longrightarrow> groupMapDone getMap limitObject x q \<Longrightarrow> groupMapDone getMap limitObject x' q"
proof (induction pids arbitrary: x)
  case Nil
  then show ?case by simp
next
  case (Cons pid rest)
  from Cons.prems(1) obtain pl m where pl: "map_of (plans x) pid = Some pl"
    and r: "makeLimitObjectCategoryToGroupMap setMap limitObject2 rest
              (x\<lparr> plans := AList.update pid (setMap (Some m) pl) (plans x) \<rparr>) = Some x'"
    by (auto split: option.splits)
  from groupMapDone_step_other [of getMap setMap limitObject, OF gs lo pl Cons.prems(2)]
  have "groupMapDone getMap limitObject
          (x\<lparr> plans := AList.update pid (setMap (Some m) pl) (plans x) \<rparr>) q" .
  from Cons.IH [OF r this] show ?case .
qed

lemma makeLimitObjectCategoryToGroupMap_again:
  assumes sg: "\<And>p. setMap (getMap p) p = p"
  shows "\<forall>pid \<in> set pids. groupMapDone getMap limitObject x pid
   \<Longrightarrow> makeLimitObjectCategoryToGroupMap setMap limitObject pids x = Some x"
proof (induction pids)
  case Nil
  then show ?case by simp
next
  case (Cons pid rest)
  from Cons.prems have d: "groupMapDone getMap limitObject x pid" by simp
  then obtain pl m where pl: "map_of (plans x) pid = Some pl"
    and m: "categoryToGroupMap (categoriesOrder x) (limitObject pl) = Some m"
    and g: "getMap pl = Some m"
    by (auto simp: groupMapDone_def split: option.splits)
  from sg [of pl] g have "setMap (Some m) pl = pl" by simp
  then have "AList.update pid (setMap (Some m) pl) (plans x) = plans x"
    using update_same [OF pl] by simp
  then have "x\<lparr> plans := AList.update pid (setMap (Some m) pl) (plans x) \<rparr> = x" by simp
  with Cons pl m show ?case by simp
qed

lemma groupMapDone_isMarkedUp [simp]:
  "groupMapDone getMap limitObject (x\<lparr> isMarkedUp := b \<rparr>) pid
     = groupMapDone getMap limitObject x pid"
  by (simp add: groupMapDone_def split: option.splits)

subsection \<open>The second run\<close>

lemma markupCategories_again:
  assumes k: "markupCategories cats x = Some x1"
    and sv: "services y = services x1"
    and ca: "categories y = categories x"
    and pf: "planFlags (plans y) = planFlags (plans x)"
    and w: "servicesWithDeductibleOrderByPlan y = servicesWithDeductibleOrderByPlan x"
    and n: "servicesNoDeductibleOrderByPlan y = servicesNoDeductibleOrderByPlan x"
  shows "\<exists>y1. markupCategories cats y = Some y1 \<and> services y1 = services x1
           \<and> servicesWithDeductibleOrderByPlan y1 = servicesWithDeductibleOrderByPlan x1
           \<and> servicesNoDeductibleOrderByPlan y1 = servicesNoDeductibleOrderByPlan x1
           \<and> coreOf y1 = coreOf y"
proof -
  define steps where "steps = catSeq (categories x) cats"
  define fl where "fl = planFlags (plans x)"
  from markupCategories_services [OF k]
  have s1: "services x1 = applySeq (markSvc fl) steps (services x)"
    by (simp add: steps_def fl_def)
  have "entriesRel svcRel (services x) (services y)"
    unfolding sv s1 by (rule services_marked_rel)
  with ca pf w n have "cfgRel x y" by (simp add: cfgRel_def)
  from markupCategories_lockstep [OF k this] obtain y1 where
    k': "markupCategories cats y = Some y1" and rel: "cfgRel x1 y1" by blast
  from markupCategories_services [OF k']
  have "services y1 = applySeq (markSvc fl) steps (services y)" and core: "coreOf y1 = coreOf y"
    by (simp_all add: steps_def fl_def ca pf)
  then have "services y1 = applySeq (markSvc fl) steps (applySeq (markSvc fl) steps (services x))"
    by (simp only: sv s1)
  then have "services y1 = services x1"
    by (simp only: applySeq_markSvc_twice s1)
  moreover from rel have
    "servicesWithDeductibleOrderByPlan y1 = servicesWithDeductibleOrderByPlan x1"
    "servicesNoDeductibleOrderByPlan y1 = servicesNoDeductibleOrderByPlan x1"
    by (simp_all add: cfgRel_def)
  ultimately show ?thesis using k' core by simp
qed

text \<open>
  C5. \<open>maybeMarkupConfig\<close> is idempotent: on the configuration that a call of
  \<open>maybeMarkupConfig\<close> has left, every further call returns normally and leaves every property
  of the configuration (the category ids, the coverage arrays, the \<open>eligibleForFund\<close> flags,
  both service orders of every plan and the four maps from categories to groups) exactly as
  the first call left it. The further call is not stopped by the guard: the first call sets
  \<open>isMarkedUp\<close> and leaves \<open>isMarkedUpAlready\<close>, the property the guard reads, as it was, so a
  further call on a configuration that did not have \<open>isMarkedUpAlready\<close> performs the
  markup again, with the same outcome.
\<close>

theorem maybeMarkupConfig_idempotent:
  assumes run: "maybeMarkupConfig c = Some c'"
  shows "maybeMarkupConfig c' = Some c' \<and> isMarkedUpAlready c' = isMarkedUpAlready c"
proof (cases "isMarkedUpAlready c")
  case True
  with run have "c' = c" by (simp add: maybeMarkupConfig_def)
  with True show ?thesis by (simp add: maybeMarkupConfig_def)
next
  case False
  define c0 where "c0 = c\<lparr>
      servicesWithDeductibleOrderByPlan := Some (emptyOrders (plansOrder c) []),
      servicesNoDeductibleOrderByPlan := Some (emptyOrders (plansOrder c) []) \<rparr>"
  from run False obtain c1 c2 c3 c4 c5 where
    k: "markupCategories (categoriesOrder c) c0 = Some c1"
    and l1: "makeLimitObjectCategoryToGroupMap
               (\<lambda>m p. p\<lparr> personDeductibleCategoryToGroup := m \<rparr>) personDeductibles
               (plansOrder c1) c1 = Some c2"
    and l2: "makeLimitObjectCategoryToGroupMap
               (\<lambda>m p. p\<lparr> personOutOfPocketCategoryToGroup := m \<rparr>) personOutOfPocketMaximums
               (plansOrder c2) c2 = Some c3"
    and l3: "makeLimitObjectCategoryToGroupMap
               (\<lambda>m p. p\<lparr> familyDeductibleCategoryToGroup := m \<rparr>) familyDeductibles
               (plansOrder c3) c3 = Some c4"
    and l4: "makeLimitObjectCategoryToGroupMap
               (\<lambda>m p. p\<lparr> familyOutOfPocketCategoryToGroup := m \<rparr>) familyOutOfPocketMaximums
               (plansOrder c4) c4 = Some c5"
    and c': "c' = c5\<lparr> isMarkedUp := True \<rparr>"
    by (auto simp: maybeMarkupConfig_def Let_def c0_def split: option.splits)
  from markupCategories_services [OF k] have core1: "coreOf c1 = coreOf c0" by simp
  have core0: "coreOf c0 = coreOf c" by (simp add: c0_def)
  note g1 = coreOf_fields [OF core1] and g0 = coreOf_fields [OF core0]
  note f1 = makeLimitObjectCategoryToGroupMap_frame [OF _ l1, simplified]
  note f2 = makeLimitObjectCategoryToGroupMap_frame [OF _ l2, simplified]
  note f3 = makeLimitObjectCategoryToGroupMap_frame [OF _ l3, simplified]
  note f4 = makeLimitObjectCategoryToGroupMap_frame [OF _ l4, simplified]
  have po1: "plansOrder c1 = plansOrder c" using g1(4) g0(4) by simp
  have po2: "plansOrder c2 = plansOrder c" using f1 po1 by simp
  have po3: "plansOrder c3 = plansOrder c" using f2 po2 by simp
  have po4: "plansOrder c4 = plansOrder c" using f3 po3 by simp
  have po: "plansOrder c' = plansOrder c" using f4 po4 c' by simp
  have co: "categoriesOrder c' = categoriesOrder c"
    using f1 f2 f3 f4 g1(3) g0(3) c' by simp
  have ca: "categories c' = categories c0"
    using f1 f2 f3 f4 g1(2) c' by simp
  have ia: "\<not> isMarkedUpAlready c'"
    using f1 f2 f3 f4 g1(5) g0(5) False c' by simp
  have pf: "planFlags (plans c') = planFlags (plans c0)"
    using f1 f2 f3 f4 g1(1) c' by simp
  have sv: "services c' = services c1" using f1 f2 f3 f4 c' by simp
  have w: "servicesWithDeductibleOrderByPlan c' = servicesWithDeductibleOrderByPlan c1"
    using f1 f2 f3 f4 c' by simp
  have n: "servicesNoDeductibleOrderByPlan c' = servicesNoDeductibleOrderByPlan c1"
    using f1 f2 f3 f4 c' by simp
  have mu: "c'\<lparr> isMarkedUp := True \<rparr> = c'" by (simp add: c')
  define d0 where "d0 = c'\<lparr>
      servicesWithDeductibleOrderByPlan := Some (emptyOrders (plansOrder c) []),
      servicesNoDeductibleOrderByPlan := Some (emptyOrders (plansOrder c) []) \<rparr>"
  have "\<exists>y1. markupCategories (categoriesOrder c) d0 = Some y1 \<and> services y1 = services c1
           \<and> servicesWithDeductibleOrderByPlan y1 = servicesWithDeductibleOrderByPlan c1
           \<and> servicesNoDeductibleOrderByPlan y1 = servicesNoDeductibleOrderByPlan c1
           \<and> coreOf y1 = coreOf d0"
    by (rule markupCategories_again [OF k]) (simp_all add: d0_def c0_def sv ca [unfolded c0_def, simplified] pf [unfolded c0_def, simplified])
  then obtain y1 where k2: "markupCategories (categoriesOrder c) d0 = Some y1"
    and y1: "services y1 = services c1"
      "servicesWithDeductibleOrderByPlan y1 = servicesWithDeductibleOrderByPlan c1"
      "servicesNoDeductibleOrderByPlan y1 = servicesNoDeductibleOrderByPlan c1"
      "coreOf y1 = coreOf d0"
    by blast
  have cd: "coreOf d0 = coreOf c'" by (simp add: d0_def)
  have "y1 = c'"
  proof (rule coreOf_eq)
    show "coreOf y1 = coreOf c'" by (simp only: y1(4) cd)
    show "services y1 = services c'" by (simp only: y1(1) sv)
    show "servicesWithDeductibleOrderByPlan y1 = servicesWithDeductibleOrderByPlan c'"
      by (simp only: y1(2) w)
    show "servicesNoDeductibleOrderByPlan y1 = servicesNoDeductibleOrderByPlan c'"
      by (simp only: y1(3) n)
  qed
  with k2 have k3: "markupCategories (categoriesOrder c) d0 = Some c'" by simp
  note e1 = makeLimitObjectCategoryToGroupMap_done
    [where getMap = personDeductibleCategoryToGroup, OF _ _ l1, simplified]
  note e2 = makeLimitObjectCategoryToGroupMap_done
    [where getMap = personOutOfPocketCategoryToGroup, OF _ _ l2, simplified]
  note e3 = makeLimitObjectCategoryToGroupMap_done
    [where getMap = familyDeductibleCategoryToGroup, OF _ _ l3, simplified]
  note e4 = makeLimitObjectCategoryToGroupMap_done
    [where getMap = familyOutOfPocketCategoryToGroup, OF _ _ l4, simplified]
  note k12 = makeLimitObjectCategoryToGroupMap_keeps
    [where getMap = personDeductibleCategoryToGroup and limitObject = personDeductibles,
     OF _ _ l2, simplified]
  note k13 = makeLimitObjectCategoryToGroupMap_keeps
    [where getMap = personDeductibleCategoryToGroup and limitObject = personDeductibles,
     OF _ _ l3, simplified]
  note k14 = makeLimitObjectCategoryToGroupMap_keeps
    [where getMap = personDeductibleCategoryToGroup and limitObject = personDeductibles,
     OF _ _ l4, simplified]
  note k23 = makeLimitObjectCategoryToGroupMap_keeps
    [where getMap = personOutOfPocketCategoryToGroup and limitObject = personOutOfPocketMaximums,
     OF _ _ l3, simplified]
  note k24 = makeLimitObjectCategoryToGroupMap_keeps
    [where getMap = personOutOfPocketCategoryToGroup and limitObject = personOutOfPocketMaximums,
     OF _ _ l4, simplified]
  note k34 = makeLimitObjectCategoryToGroupMap_keeps
    [where getMap = familyDeductibleCategoryToGroup and limitObject = familyDeductibles,
     OF _ _ l4, simplified]
  have d1: "\<forall>pid \<in> set (plansOrder c).
      groupMapDone personDeductibleCategoryToGroup personDeductibles c' pid"
    using e1 k12 k13 k14 by (simp add: c' po1)
  have d2: "\<forall>pid \<in> set (plansOrder c).
      groupMapDone personOutOfPocketCategoryToGroup personOutOfPocketMaximums c' pid"
    using e2 k23 k24 by (simp add: c' po2)
  have d3: "\<forall>pid \<in> set (plansOrder c).
      groupMapDone familyDeductibleCategoryToGroup familyDeductibles c' pid"
    using e3 k34 by (simp add: c' po3)
  have d4: "\<forall>pid \<in> set (plansOrder c).
      groupMapDone familyOutOfPocketCategoryToGroup familyOutOfPocketMaximums c' pid"
    using e4 by (simp add: c' po4)
  have a1: "makeLimitObjectCategoryToGroupMap
      (\<lambda>m p. p\<lparr> personDeductibleCategoryToGroup := m \<rparr>) personDeductibles
      (plansOrder c) c' = Some c'"
    by (rule makeLimitObjectCategoryToGroupMap_again [OF _ d1]) simp
  have a2: "makeLimitObjectCategoryToGroupMap
      (\<lambda>m p. p\<lparr> personOutOfPocketCategoryToGroup := m \<rparr>) personOutOfPocketMaximums
      (plansOrder c) c' = Some c'"
    by (rule makeLimitObjectCategoryToGroupMap_again [OF _ d2]) simp
  have a3: "makeLimitObjectCategoryToGroupMap
      (\<lambda>m p. p\<lparr> familyDeductibleCategoryToGroup := m \<rparr>) familyDeductibles
      (plansOrder c) c' = Some c'"
    by (rule makeLimitObjectCategoryToGroupMap_again [OF _ d3]) simp
  have a4: "makeLimitObjectCategoryToGroupMap
      (\<lambda>m p. p\<lparr> familyOutOfPocketCategoryToGroup := m \<rparr>) familyOutOfPocketMaximums
      (plansOrder c) c' = Some c'"
    by (rule makeLimitObjectCategoryToGroupMap_again [OF _ d4]) simp
  have "maybeMarkupConfig c' =
      (case markupCategories (categoriesOrder c) d0 of
         None \<Rightarrow> None
       | Some c1 \<Rightarrow>
      (case makeLimitObjectCategoryToGroupMap
              (\<lambda>m p. p\<lparr> personDeductibleCategoryToGroup := m \<rparr>) personDeductibles
              (plansOrder c1) c1 of
         None \<Rightarrow> None
       | Some c2 \<Rightarrow>
      (case makeLimitObjectCategoryToGroupMap
              (\<lambda>m p. p\<lparr> personOutOfPocketCategoryToGroup := m \<rparr>) personOutOfPocketMaximums
              (plansOrder c2) c2 of
         None \<Rightarrow> None
       | Some c3 \<Rightarrow>
      (case makeLimitObjectCategoryToGroupMap
              (\<lambda>m p. p\<lparr> familyDeductibleCategoryToGroup := m \<rparr>) familyDeductibles
              (plansOrder c3) c3 of
         None \<Rightarrow> None
       | Some c4 \<Rightarrow>
      (case makeLimitObjectCategoryToGroupMap
              (\<lambda>m p. p\<lparr> familyOutOfPocketCategoryToGroup := m \<rparr>) familyOutOfPocketMaximums
              (plansOrder c4) c4 of
         None \<Rightarrow> None
       | Some c5 \<Rightarrow> Some (c5\<lparr> isMarkedUp := True \<rparr>))))))"
    using ia by (simp add: maybeMarkupConfig_def Let_def d0_def po co)
  also have "\<dots> = Some c'"
    by (simp only: k3 option.case po a1 a2 a3 a4 mu)
  finally have "maybeMarkupConfig c' = Some c'" .
  with ia False show ?thesis by simp
qed

theorem maybeMarkupConfig_idempotent_witness:
  "maybeMarkupConfig fundConfig = Some markedFundConfig
   \<and> markedFundConfig \<noteq> fundConfig
   \<and> maybeMarkupConfig markedFundConfig = Some markedFundConfig
   \<and> \<not> isMarkedUpAlready markedFundConfig"
proof -
  have u: "\<not> isMarkedUpAlready fundConfig" "\<not> isMarkedUp fundConfig"
    by (simp_all add: fundConfig_def exampleConfig_def)
  have m: "isMarkedUp markedFundConfig"
    by (simp add: markedFundConfig_def markedExampleConfig_def)
  from u(2) m have "markedFundConfig \<noteq> fundConfig" by auto
  with maybeMarkupConfig_idempotent [OF markup_fund] markup_fund u(1) show ?thesis by simp
qed

end
